(* ===== verification/Prelude.thy ===== *)
theory Prelude
  imports Complex_Main
begin

text \<open>
  Shared vocabulary of the development: the JavaScript values and built-ins that
  \<open>src/weather/app.js\<close> relies on, written as executable HOL functions.
  \<^item> JavaScript numbers are idealised as \<open>real\<close> (exact arithmetic, no rounding);
    integers that JavaScript produces by \<open>parseInt\<close> or \<open>Math.round\<close> are \<open>int\<close>,
    and the value \<open>NaN\<close> a failed \<open>parseInt\<close> returns is \<open>None\<close>.
  \<^item> Reading an array past its end yields \<open>undefined\<close>: \<open>js_at\<close> returns an option.
  \<^item> Strings are \<open>string\<close>; the string built-ins are \<open>js_substring\<close>,
    \<open>starts_with\<close>, \<open>js_parse_int\<close>, \<open>show_int\<close> (\<open>String(n)\<close> on integers),
    \<open>js_round\<close> (\<open>Math.round\<close>) and \<open>to_fixed1\<close> (\<open>x.toFixed(1)\<close>).
  \<^item> The colour strings the code hands to the UI (\<open>'gray'\<close>, \<open>'blue'\<close>, \<open>'green'\<close>,
    \<open>'orange'\<close>, \<open>'red'\<close>) are the datatype \<open>color\<close>.
  \<^item> The counted loop \<open>for (let i = lo; i <= hi; i++)\<close> is \<open>js_for_le\<close>, a partial
    function in the option monad with its proof of termination.
  The collection \<open>js_simps\<close> holds the characteristic equations of the built-ins;
  the component theories unfold them with \<open>simp add: js_simps\<close>.
\<close>

named_theorems js_simps "characteristic equations of the JavaScript built-ins"
named_theorems js_defs "definitions of the built-ins, unfolded to evaluate them on literals"

type_synonym js_string = string

text \<open>Exceptions that escape \<open>processForecast\<close>, and the one input class the model refuses.\<close>

datatype js_error =
    TypeError \<comment> \<open>property read on \<open>undefined\<close>, e.g. \<open>daily.temperature_2m_max[i]\<close>\<close>
  | UndefinedNumber \<comment> \<open>not thrown by the code: an hourly array shorter than \<open>hourly.time\<close>, where
      the code reads \<open>undefined\<close> and goes on with \<open>NaN\<close>, an input class the model does not follow\<close>

datatype color = Gray | Blue | Green | Orange | Red

subsection \<open>Exceptions\<close>

text \<open>A computation that may throw is a value of \<open>'e + 'a\<close>; \<open>ebind\<close> runs the rest
  only when the first part returned, and \<open>emap\<close> is \<open>Array.prototype.map\<close> with a
  callback that may throw (left to right, the first exception escapes).\<close>

definition ebind :: "'e + 'a \<Rightarrow> ('a \<Rightarrow> 'e + 'b) \<Rightarrow> 'e + 'b" where
  "ebind r f = (case r of Inl e \<Rightarrow> Inl e | Inr a \<Rightarrow> f a)"

fun emap :: "('a \<Rightarrow> 'e + 'b) \<Rightarrow> 'a list \<Rightarrow> 'e + 'b list" where
  "emap f [] = Inr []"
| "emap f (x # xs) = ebind (f x) (\<lambda>y. ebind (emap f xs) (\<lambda>ys. Inr (y # ys)))"

subsection \<open>Arrays\<close>

fun js_at :: "'a list \<Rightarrow> nat \<Rightarrow> 'a option" where
  "js_at [] i = None"
| "js_at (x # xs) 0 = Some x"
| "js_at (x # xs) (Suc i) = js_at xs i"

subsection \<open>Strings\<close>

text \<open>\<open>s.substring(a, b)\<close>: both ends clamped to the length, swapped when \<open>a > b\<close>.\<close>

definition js_substring :: "js_string \<Rightarrow> nat \<Rightarrow> nat \<Rightarrow> js_string" where
  "js_substring s a b =
     (let n = length s; a' = min a n; b' = min b n
      in drop (min a' b') (take (max a' b') s))"

text \<open>\<open>s.startsWith(p)\<close>.\<close>

definition starts_with :: "js_string \<Rightarrow> js_string \<Rightarrow> bool" where
  "starts_with s p \<longleftrightarrow> take (length p) s = p"

text \<open>
  \<open>parseInt(s)\<close> without a radix (ECMAScript 19.2.5): skip leading white space, read an
  optional sign, switch to radix 16 after a \<open>0x\<close> or \<open>0X\<close> prefix, then take the longest
  prefix of digits of the radix; no digit at all gives \<open>NaN\<close> (\<open>None\<close>). White space
  is the ASCII part of the JavaScript white-space set.
\<close>

definition js_ws :: "char \<Rightarrow> bool" where
  "js_ws c \<longleftrightarrow> c \<in> set [CHR 0x09, CHR 0x0A, CHR 0x0B, CHR 0x0C, CHR 0x0D, CHR 0x20]"

definition digit_val :: "nat \<Rightarrow> char \<Rightarrow> nat option" where
  "digit_val radix c =
     (let k = of_char c :: nat;
          v = (if 48 \<le> k \<and> k \<le> 57 then Some (k - 48)
               else if 97 \<le> k \<and> k \<le> 122 then Some (k - 87)
               else if 65 \<le> k \<and> k \<le> 90 then Some (k - 55)
               else None)
      in case v of Some d \<Rightarrow> if d < radix then Some d else None | None \<Rightarrow> None)"

fun digit_run :: "nat \<Rightarrow> js_string \<Rightarrow> nat list" where
  "digit_run radix [] = []"
| "digit_run radix (c # cs) =
     (case digit_val radix c of None \<Rightarrow> [] | Some d \<Rightarrow> d # digit_run radix cs)"

definition digits_value :: "nat \<Rightarrow> nat list \<Rightarrow> nat" where
  "digits_value radix ds = foldl (\<lambda>acc d. acc * radix + d) 0 ds"

definition js_parse_int :: "js_string \<Rightarrow> int option" where
  "js_parse_int s =
     (let s1 = dropWhile js_ws s;
          (sign, s2) = (case s1 of
                          c # r \<Rightarrow> if c = CHR ''-'' then (-1 :: int, r)
                                   else if c = CHR ''+'' then (1, r) else (1, s1)
                        | [] \<Rightarrow> (1, s1));
          (radix, s3) = (if take 2 s2 = ''0x'' \<or> take 2 s2 = ''0X'' then (16, drop 2 s2)
                         else (10, s2));
          ds = digit_run radix s3
      in if ds = [] then None else Some (sign * int (digits_value radix ds)))"

text \<open>\<open>String(n)\<close> for an integer-valued number (below \<open>10^21\<close>, where JavaScript switches
  to exponent notation); \<open>String(NaN)\<close> is \<open>''NaN''\<close>.\<close>

definition digit_char :: "nat \<Rightarrow> char" where
  "digit_char d = ''0123456789'' ! d"

fun show_nat :: "nat \<Rightarrow> js_string" where
  "show_nat n = (if n < 10 then [digit_char n] else show_nat (n div 10) @ [digit_char (n mod 10)])"

definition show_int :: "int \<Rightarrow> js_string" where
  "show_int i = (if i < 0 then CHR ''-'' # show_nat (nat (- i)) else show_nat (nat i))"

definition js_num_str :: "int option \<Rightarrow> js_string" where
  "js_num_str v = (case v of None \<Rightarrow> ''NaN'' | Some i \<Rightarrow> show_int i)"

subsection \<open>Numbers\<close>

text \<open>Comparisons of a \<open>parseInt\<close> result with a constant: every comparison with
  \<open>NaN\<close> is false.\<close>

definition nan_lt :: "int option \<Rightarrow> int \<Rightarrow> bool" where
  "nan_lt v c \<longleftrightarrow> (case v of None \<Rightarrow> False | Some k \<Rightarrow> k < c)"

definition nan_le :: "int option \<Rightarrow> int \<Rightarrow> bool" where
  "nan_le v c \<longleftrightarrow> (case v of None \<Rightarrow> False | Some k \<Rightarrow> k \<le> c)"

definition nan_gt :: "int option \<Rightarrow> int \<Rightarrow> bool" where
  "nan_gt v c \<longleftrightarrow> (case v of None \<Rightarrow> False | Some k \<Rightarrow> c < k)"

definition nan_ge :: "int option \<Rightarrow> int \<Rightarrow> bool" where
  "nan_ge v c \<longleftrightarrow> (case v of None \<Rightarrow> False | Some k \<Rightarrow> c \<le> k)"

lemmas nan_cmp_defs = nan_lt_def nan_le_def nan_gt_def nan_ge_def

text \<open>\<open>Math.round(x)\<close>: the nearest integer, ties towards \<open>+\<infinity>\<close>.\<close>

definition js_round :: "real \<Rightarrow> int" where
  "js_round x = \<lfloor>x + 1 / 2\<rfloor>"

text \<open>
  \<open>x.toFixed(1)\<close> (ECMAScript 21.1.3.3): a minus sign for negative \<open>x\<close>, then the integer
  \<open>n\<close> nearest to \<open>10 \<bar>x\<bar>\<close> (the larger one on a tie) printed with one decimal.
\<close>

definition to_fixed1 :: "real \<Rightarrow> js_string" where
  "to_fixed1 x =
     (let a = \<bar>x\<bar>; n = nat \<lfloor>a * 10 + 1 / 2\<rfloor>
      in (if x < 0 then ''-'' else []) @ show_nat (n div 10) @ ''.'' @ [digit_char (n mod 10)])"

declare show_nat.simps [simp del]

declare js_substring_def [js_defs] starts_with_def [js_defs] js_ws_def [js_defs]
  digit_val_def [js_defs] digits_value_def [js_defs] js_parse_int_def [js_defs]
  digit_char_def [js_defs] show_nat.simps [js_defs] show_int_def [js_defs]
  js_num_str_def [js_defs] js_round_def [js_defs] to_fixed1_def [js_defs]
  nan_lt_def [js_defs] nan_le_def [js_defs] nan_gt_def [js_defs] nan_ge_def [js_defs]

subsection \<open>Loops\<close>

text \<open>The counted loop \<open>for (let i = lo; i <= hi; i++) acc = body(i, acc)\<close>, written
  as the loop is run: test the bound, run the body, increment. The counter is an
  \<open>int\<close> (it starts at an integer and grows by 1, exactly in binary64 at these sizes).
  Nothing in the equation bounds the number of unfoldings, so it is a partial function
  in the option monad, \<open>None\<close> being a loop that does not end; \<open>js_for_le_fold\<close>
  proves that it ends for every bound.\<close>

partial_function (option) js_for_le :: "int \<Rightarrow> int \<Rightarrow> (int \<Rightarrow> 'a \<Rightarrow> 'a) \<Rightarrow> 'a \<Rightarrow> 'a option" where
  "js_for_le i hi body acc = (if i \<le> hi then js_for_le (i + 1) hi body (body i acc) else Some acc)"

subsection \<open>Generic lemmas\<close>

lemma ebind_Inl [simp]: "ebind (Inl e) f = Inl e"
  by (simp add: ebind_def)

lemma ebind_Inr [simp]: "ebind (Inr a) f = f a"
  by (simp add: ebind_def)

lemma ebind_eq_Inr_iff: "ebind r f = Inr b \<longleftrightarrow> (\<exists>a. r = Inr a \<and> f a = Inr b)"
  by (cases r) simp_all

lemma emap_Inr_iff: "emap f xs = Inr ys \<longleftrightarrow> list_all2 (\<lambda>x y. f x = Inr y) xs ys"
proof (induction xs arbitrary: ys)
  case Nil
  then show ?case by auto
next
  case (Cons x xs)
  then show ?case
    by (cases ys) (auto simp: ebind_eq_Inr_iff)
qed

lemma emap_all_Inr:
  "(\<And>x. x \<in> set xs \<Longrightarrow> f x = Inr (g x)) \<Longrightarrow> emap f xs = Inr (map g xs)"
  by (induction xs) simp_all

lemma emap_total:
  "\<forall>x \<in> set xs. \<exists>y. f x = Inr y \<Longrightarrow> \<exists>ys. emap f xs = Inr ys"
  by (induction xs) auto

lemma emap_Inl_first:
  "emap f xs = Inl e \<Longrightarrow> \<exists>x \<in> set xs. f x = Inl e"
  by (induction xs) (auto simp: ebind_def split: sum.splits)

lemma nan_cmp_None [simp]: "\<not> nan_lt None c" "\<not> nan_le None c" "\<not> nan_gt None c" "\<not> nan_ge None c"
  by (simp_all add: nan_cmp_defs)

lemma nan_cmp_Some [simp]:
  "nan_lt (Some k) c \<longleftrightarrow> k < c" "nan_le (Some k) c \<longleftrightarrow> k \<le> c"
  "nan_gt (Some k) c \<longleftrightarrow> c < k" "nan_ge (Some k) c \<longleftrightarrow> c \<le> k"
  by (simp_all add: nan_cmp_defs)

lemma js_at_conv [js_simps]: "js_at xs i = (if i < length xs then Some (xs ! i) else None)"
  by (induction xs i rule: js_at.induct) auto

lemma js_at_None_iff [simp]: "js_at xs i = None \<longleftrightarrow> length xs \<le> i"
  by (simp add: js_at_conv)

lemma js_at_Some_iff [simp]: "js_at xs i = Some x \<longleftrightarrow> i < length xs \<and> xs ! i = x"
  by (auto simp add: js_at_conv)

lemma starts_with_iff_prefix [js_simps]: "starts_with s p \<longleftrightarrow> (\<exists>r. s = p @ r)"
  by (metis append_eq_conv_conj starts_with_def)

lemma starts_with_append [simp]: "starts_with (p @ r) p"
  by (simp add: starts_with_def)

lemma js_substring_within [js_simps]:
  "a \<le> b \<Longrightarrow> b \<le> length s \<Longrightarrow> js_substring s a b = take (b - a) (drop a s)"
  by (simp add: js_substring_def drop_take min_def max_def)

lemma foldl_add_sum_list [simp]: "foldl (+) a xs = a + sum_list (xs :: real list)"
  by (induction xs arbitrary: a) (simp_all add: algebra_simps)

lemma js_round_bounds: "0 \<le> x \<Longrightarrow> x \<le> 100 \<Longrightarrow> 0 \<le> js_round x \<and> js_round x \<le> 100"
  by (simp add: js_round_def floor_le_iff)

lemma js_round_int [simp]: "js_round (of_int i) = i"
  by (simp add: js_round_def floor_eq_iff)

lemma digit_char_of_char: "d < 10 \<Longrightarrow> of_char (digit_char d) = 48 + d"
  unfolding digit_char_def by (auto simp: less_Suc_eq numeral_eq_Suc)

lemma digit_val_digit_char [simp]: "d < 10 \<Longrightarrow> digit_val 10 (digit_char d) = Some d"
  by (simp add: digit_val_def digit_char_of_char)

lemma show_nat_nonempty [simp]: "show_nat n \<noteq> []"
  by (subst show_nat.simps) simp


text \<open>\<open>String(n)\<close> prints digits that \<open>parseInt\<close> and \<open>parseFloat\<close> read back.\<close>

lemma show_nat_digits: "\<forall>c \<in> set (show_nat n). digit_val 10 c \<noteq> None"
proof (induction n rule: show_nat.induct)
  case (1 n)
  then show ?case by (subst show_nat.simps) auto
qed

lemma digit_run_append_digits:
  "\<forall>c \<in> set xs. digit_val radix c \<noteq> None \<Longrightarrow>
   digit_run radix (xs @ r) = map (the \<circ> digit_val radix) xs @ digit_run radix r"
  by (induction xs) auto

lemma digits_value_Nil [simp]: "digits_value radix [] = 0"
  by (simp add: digits_value_def)

lemma digits_value_snoc: "digits_value radix (ds @ [d]) = digits_value radix ds * radix + d"
  by (simp add: digits_value_def)

lemma digits_value_show_nat: "digits_value 10 (map (the \<circ> digit_val 10) (show_nat n)) = n"
proof (induction n rule: show_nat.induct)
  case (1 n)
  show ?case
  proof (cases "n < 10")
    case True
    then show ?thesis by (subst show_nat.simps) (simp add: digits_value_def)
  next
    case False
    then show ?thesis using 1 by (subst show_nat.simps) (simp add: digits_value_snoc o_def)
  qed
qed

lemma digit_run_show_nat:
  "digit_run 10 (show_nat n @ r) = map (the \<circ> digit_val 10) (show_nat n) @ digit_run 10 r"
  using digit_run_append_digits [OF show_nat_digits] .

lemma show_nat_hd_digit: "\<exists>d r. show_nat n = digit_char d # r \<and> d < 10"
proof (induction n rule: show_nat.induct)
  case (1 n)
  show ?case
  proof (cases "n < 10")
    case True
    then have "show_nat n = [digit_char n]" by (subst show_nat.simps) simp
    with True show ?thesis by blast
  next
    case False
    with 1 obtain d r where "show_nat (n div 10) = digit_char d # r" "d < 10" by blast
    moreover have "show_nat n = show_nat (n div 10) @ [digit_char (n mod 10)]"
      using False by (subst show_nat.simps) simp
    ultimately show ?thesis by auto
  qed
qed

lemma digit_char_cases: "d < 10 \<Longrightarrow> digit_char d \<in> set ''0123456789''"
  unfolding digit_char_def by (rule nth_mem) simp

text \<open>The loop returns, for every bound, the fold of its body over \<open>[lo..hi]\<close>; the
  induction is on the number of iterations left, \<open>hi - i + 1\<close>.\<close>

lemma js_for_le_fold: "js_for_le i hi body acc = Some (foldl (\<lambda>a k. body k a) acc [i..hi])"
proof (induction "nat (hi - i + 1)" arbitrary: i acc)
  case 0
  then show ?case by (simp add: js_for_le.simps)
next
  case (Suc n)
  then have "n = nat (hi - (i + 1) + 1)" "i \<le> hi" by simp_all
  with Suc.hyps(1) show ?case by (simp add: js_for_le.simps [of i] upto_rec1)
qed

lemma foldl_append_upto:
  "foldl (\<lambda>a k. a @ g k) acc [0..int n] = acc @ concat (map (\<lambda>k. g (int k)) [0..<Suc n])"
proof (induction n arbitrary: acc)
  case 0
  then show ?case by simp
next
  case (Suc n)
  have "[0..int (Suc n)] = [0..int n] @ [int (Suc n)]" by (simp add: upto_rec2)
  with Suc show ?case by simp
qed

text \<open>A loop from 0 whose body appends to an array.\<close>

lemma js_for_le_append:
  "js_for_le 0 hi (\<lambda>i a. a @ g i) acc = Some (acc @ concat (map (\<lambda>k. g (int k)) [0..<nat (hi + 1)]))"
proof (cases "0 \<le> hi")
  case True
  then have "hi = int (nat hi)" "nat (hi + 1) = Suc (nat hi)" by simp_all
  then show ?thesis using foldl_append_upto [of g acc "nat hi"] by (simp add: js_for_le_fold)
next
  case False
  then show ?thesis by (simp add: js_for_le_fold)
qed

end
