(* ===== verification/Score.thy ===== *)
theory Score
  imports Prelude
begin

text \<open>
  The drying score, \<open>calculateDryingIndex\<close> of \<open>src/weather/app.js\<close>: a weighted
  sum of temperature, wind, UV index, humidity and cloud cover plus a base offset of 20,
  clamped into \<open>[0, 100]\<close>. The weights are the constants of the source. The lemmas
  show the clamp (the score is always in range), the exact value inside the range,
  and the direction in which each input moves the score.
\<close>

definition raw_drying_score :: "real \<Rightarrow> real \<Rightarrow> real \<Rightarrow> real \<Rightarrow> real \<Rightarrow> real" where
  "raw_drying_score temp wind humidity cloud uv =
     (let wTemp = 1.0; wWind = 1.8; wHum = 0.6; wCloud = 0.3; wUV = 1.2
      in temp * wTemp + wind * wWind + uv * wUV * 5 - humidity * wHum * 0.5
           - cloud * wCloud * 0.2 + 20)"

definition calculateDryingIndex :: "real \<Rightarrow> real \<Rightarrow> real \<Rightarrow> real \<Rightarrow> real \<Rightarrow> real" where
  "calculateDryingIndex temp wind humidity cloud uv =
     max 0 (min 100 (raw_drying_score temp wind humidity cloud uv))"

lemma raw_drying_score_eq:
  "raw_drying_score temp wind humidity cloud uv =
     temp + 9 / 5 * wind + 6 * uv - 3 / 10 * humidity - 3 / 50 * cloud + 20"
  by (simp add: raw_drying_score_def)

lemmas score_defs = calculateDryingIndex_def raw_drying_score_eq

lemma calculateDryingIndex_nonneg [simp]: "0 \<le> calculateDryingIndex t w h c u"
  by (simp add: calculateDryingIndex_def)

lemma calculateDryingIndex_le_100 [simp]: "calculateDryingIndex t w h c u \<le> 100"
  by (simp add: calculateDryingIndex_def)

lemma calculateDryingIndex_in_range:
  "0 \<le> raw_drying_score t w h c u \<Longrightarrow> raw_drying_score t w h c u \<le> 100 \<Longrightarrow>
   calculateDryingIndex t w h c u = raw_drying_score t w h c u"
  by (simp add: calculateDryingIndex_def)

lemma calculateDryingIndex_mono_raw:
  "raw_drying_score t w h c u \<le> raw_drying_score t' w' h' c' u' \<Longrightarrow>
   calculateDryingIndex t w h c u \<le> calculateDryingIndex t' w' h' c' u'"
  by (simp add: calculateDryingIndex_def)

text \<open>The score reaches 100 exactly when the weighted sum reaches it.\<close>

lemma calculateDryingIndex_eq_100_iff:
  "calculateDryingIndex t w h c u = 100 \<longleftrightarrow> 100 \<le> raw_drying_score t w h c u"
  by (auto simp add: calculateDryingIndex_def)

lemma calculateDryingIndex_eq_0_iff:
  "calculateDryingIndex t w h c u = 0 \<longleftrightarrow> raw_drying_score t w h c u \<le> 0"
  by (auto simp add: calculateDryingIndex_def)

text \<open>
  C2: whatever the five inputs, the drying score lies in \<open>[0, 100]\<close>
  (the \<open>Math.max(0, Math.min(100, score))\<close> clamp of the source).
\<close>

theorem score_bounds: "0 \<le> calculateDryingIndex t w h c u \<and> calculateDryingIndex t w h c u \<le> 100"
  by (simp add: calculateDryingIndex_def)

text \<open>
  C28: the score never decreases when temperature, wind or UV index rise and humidity
  or cloud cover fall: every weight has the sign its comment promises.
\<close>

theorem score_monotone:
  assumes "t \<le> t'" "w \<le> w'" "u \<le> u'" "h' \<le> h" "c' \<le> c"
  shows "calculateDryingIndex t w h c u \<le> calculateDryingIndex t' w' h' c' u'"
proof (rule calculateDryingIndex_mono_raw)
  show "raw_drying_score t w h c u \<le> raw_drying_score t' w' h' c' u'"
    using assms by (simp add: raw_drying_score_eq)
qed

theorem score_monotone_witness:
  "calculateDryingIndex 20 10 50 20 5 \<le> calculateDryingIndex 25 15 40 10 8"
  using score_monotone [of 20 25 10 15 5 8 40 50 10 20] by simp

text \<open>
  The worked example of the specification: temperature 25, wind 15, humidity 40,
  cloud 10 and UV 8 sum to 107.4, which the clamp turns into 100; the daily placeholder
  call with cloud 20 and UV 5 at temperature 20, wind 10, humidity 50 gives 71.8.
\<close>

lemma score_worked_example:
  "raw_drying_score 25 15 40 10 8 = 107.4 \<and> calculateDryingIndex 25 15 40 10 8 = 100 \<and>
   calculateDryingIndex 20 10 50 20 5 = 71.8"
  by (simp add: score_defs)

end
