(* ===== verification/Normalizer.thy ===== *)
theory Normalizer
  imports Prelude "HOL-Library.Monad_Syntax"
begin

text \<open>
  The raw forecast (the JSON object \<open>fetchWeather\<close> returns) and the series
  normaliser, the \<open>hourlyObjs\<close> map at the start of \<open>processForecast\<close> in
  \<open>src/weather/app.js\<close> (lines 91--105). A field the JSON does not carry is \<open>None\<close>.
  The normaliser reads the parallel hourly arrays at each index of \<open>hourly.time\<close>:
  a missing array throws a \<open>TypeError\<close> (the read \<open>undefined[i]\<close>), a missing
  \<open>uv_index\<close> array defaults every UV value to 0, and an array shorter than
  \<open>hourly.time\<close> yields \<open>undefined\<close>, which the code does not detect: it goes on and
  computes \<open>NaN\<close> scores. Numbers are reals in this model, so it does not follow that
  run: it stops with \<open>UndefinedNumber\<close>, which is not an exception of the code but the
  mark of this input class, and no property is claimed about it. The lemmas give the
  exact result on well-shaped input and the \<open>TypeError\<close> cases.
\<close>

record hourly_raw =
  hourly_time :: "js_string list option"
  temperature_2m :: "real list option"
  relative_humidity_2m :: "real list option"
  wind_speed_10m :: "real list option"
  cloud_cover :: "real list option"
  precipitation_probability :: "real list option"
  uv_index :: "real list option"

record daily_raw =
  daily_time :: "js_string list option"
  temperature_2m_max :: "real list option"
  temperature_2m_min :: "real list option"

record weather_data =
  hourly :: "hourly_raw option"
  daily :: "daily_raw option"

text \<open>\<open>data.hourly || {}\<close> and \<open>data.daily || {}\<close>.\<close>

definition hourly_or_empty :: "weather_data \<Rightarrow> hourly_raw" where
  "hourly_or_empty d = (case hourly d of Some h \<Rightarrow> h
     | None \<Rightarrow> \<lparr>hourly_time = None, temperature_2m = None, relative_humidity_2m = None,
               wind_speed_10m = None, cloud_cover = None, precipitation_probability = None,
               uv_index = None\<rparr>)"

definition daily_or_empty :: "weather_data \<Rightarrow> daily_raw" where
  "daily_or_empty d = (case daily d of Some x \<Rightarrow> x
     | None \<Rightarrow> \<lparr>daily_time = None, temperature_2m_max = None, temperature_2m_min = None\<rparr>)"

text \<open>One hourly sample, the object literal of lines 97--105.\<close>

record hourly_obj =
  time :: js_string
  temp :: real
  humidity :: real
  wind :: real
  cloud :: real
  rainProb :: real
  uv :: real

text \<open>\<open>arr[i]\<close> on a field of \<open>hourly\<close>: \<open>TypeError\<close> when the array is missing,
  \<open>undefined\<close> (\<open>None\<close>) past its end.\<close>

definition read_field :: "'a list option \<Rightarrow> nat \<Rightarrow> js_error + 'a option" where
  "read_field arr i = (case arr of None \<Rightarrow> Inl TypeError | Some xs \<Rightarrow> Inr (js_at xs i))"

text \<open>The callback \<open>(t, i) => ({...})\<close>: the fields are read in the order of the
  literal; the result is \<open>None\<close> when some field read \<open>undefined\<close>.\<close>

definition hourly_obj_at :: "hourly_raw \<Rightarrow> nat \<times> js_string \<Rightarrow> js_error + hourly_obj option" where
  "hourly_obj_at hr it =
     (case it of (i, t) \<Rightarrow>
       ebind (read_field (temperature_2m hr) i) (\<lambda>tp.
       ebind (read_field (relative_humidity_2m hr) i) (\<lambda>hu.
       ebind (read_field (wind_speed_10m hr) i) (\<lambda>wi.
       ebind (read_field (cloud_cover hr) i) (\<lambda>cl.
       ebind (read_field (precipitation_probability hr) i) (\<lambda>rp.
       ebind (case uv_index hr of None \<Rightarrow> Inr (Some 0) | Some us \<Rightarrow> Inr (js_at us i)) (\<lambda>u.
       Inr (do { a \<leftarrow> tp; b \<leftarrow> hu; c \<leftarrow> wi; d \<leftarrow> cl; e \<leftarrow> rp; f \<leftarrow> u;
                 Some \<lparr>time = t, temp = a, humidity = b, wind = c, cloud = d, rainProb = e, uv = f\<rparr> }))))))))"

definition hourlyObjs :: "hourly_raw \<Rightarrow> js_error + hourly_obj list" where
  "hourlyObjs hr =
     (case hourly_time hr of
        None \<Rightarrow> Inl TypeError
      | Some ts \<Rightarrow>
          ebind (emap (hourly_obj_at hr) (enumerate 0 ts)) (\<lambda>objs.
            case those objs of None \<Rightarrow> Inl UndefinedNumber | Some hs \<Rightarrow> Inr hs))"

text \<open>Well-shaped hourly input: the time array and every value array present and at
  least as long as the time array (UV may be absent).\<close>

definition covers_len :: "nat \<Rightarrow> real list option \<Rightarrow> bool" where
  "covers_len n arr \<longleftrightarrow> (case arr of None \<Rightarrow> False | Some xs \<Rightarrow> n \<le> length xs)"

definition hourly_wf :: "hourly_raw \<Rightarrow> bool" where
  "hourly_wf hr \<longleftrightarrow>
     (case hourly_time hr of None \<Rightarrow> False | Some ts \<Rightarrow>
        covers_len (length ts) (temperature_2m hr) \<and> covers_len (length ts) (relative_humidity_2m hr) \<and>
        covers_len (length ts) (wind_speed_10m hr) \<and> covers_len (length ts) (cloud_cover hr) \<and>
        covers_len (length ts) (precipitation_probability hr) \<and>
        (uv_index hr = None \<or> covers_len (length ts) (uv_index hr)))"

text \<open>The sample the normaliser builds at index \<open>i\<close> of well-shaped input.\<close>

definition sample_at :: "hourly_raw \<Rightarrow> js_string list \<Rightarrow> nat \<Rightarrow> hourly_obj" where
  "sample_at hr ts i =
     \<lparr>time = ts ! i, temp = the (temperature_2m hr) ! i, humidity = the (relative_humidity_2m hr) ! i,
      wind = the (wind_speed_10m hr) ! i, cloud = the (cloud_cover hr) ! i,
      rainProb = the (precipitation_probability hr) ! i,
      uv = (case uv_index hr of None \<Rightarrow> 0 | Some us \<Rightarrow> us ! i)\<rparr>"

definition arrays_present :: "hourly_raw \<Rightarrow> bool" where
  "arrays_present hr \<longleftrightarrow>
     temperature_2m hr \<noteq> None \<and> relative_humidity_2m hr \<noteq> None \<and> wind_speed_10m hr \<noteq> None \<and>
     cloud_cover hr \<noteq> None \<and> precipitation_probability hr \<noteq> None"

lemma read_field_covers:
  "covers_len n arr \<Longrightarrow> i < n \<Longrightarrow> read_field arr i = Inr (Some (the arr ! i))"
  by (auto simp: covers_len_def read_field_def split: option.splits)

lemma hourly_obj_at_wf:
  assumes "hourly_wf hr" "hourly_time hr = Some ts" "i < length ts"
  shows "hourly_obj_at hr (i, ts ! i) = Inr (Some (sample_at hr ts i))"
  using assms
  by (auto simp: hourly_wf_def hourly_obj_at_def sample_at_def read_field_covers covers_len_def
           js_at_conv split: option.splits)

lemma those_map_Some [simp]: "those (map (Some \<circ> f) xs) = Some (map f xs)"
  by (induction xs) simp_all

lemma hourlyObjs_wf:
  assumes "hourly_wf hr" "hourly_time hr = Some ts"
  shows "hourlyObjs hr = Inr (map (sample_at hr ts) [0..<length ts])"
proof -
  have "emap (hourly_obj_at hr) (enumerate 0 ts) = Inr (map (\<lambda>(i, t). Some (sample_at hr ts i)) (enumerate 0 ts))"
  proof (rule emap_all_Inr)
    fix x assume "x \<in> set (enumerate 0 ts)"
    then have "fst x < length ts" "snd x = ts ! fst x"
      by (auto simp: in_set_enumerate_eq)
    then show "hourly_obj_at hr x = Inr ((\<lambda>(i, t). Some (sample_at hr ts i)) x)"
      using assms hourly_obj_at_wf [of hr ts "fst x"] by (cases x) simp
  qed
  moreover have "map (\<lambda>(i, t). Some (sample_at hr ts i)) (enumerate 0 ts)
                 = map Some (map (sample_at hr ts) [0..<length ts])"
    by (rule nth_equalityI) (auto simp: nth_enumerate_eq)
  ultimately show ?thesis
    using assms by (simp add: hourlyObjs_def)
qed

lemma those_None_iff: "those xs = None \<longleftrightarrow> None \<in> set xs"
  by (induction xs) (auto split: option.splits)

lemma hourly_obj_at_present:
  "arrays_present hr \<Longrightarrow> \<exists>ob. hourly_obj_at hr it = Inr ob"
  by (auto simp: arrays_present_def hourly_obj_at_def read_field_def split: option.splits prod.splits)

lemma hourly_obj_at_temp_undefined:
  "arrays_present hr \<Longrightarrow> temperature_2m hr = Some xs \<Longrightarrow> length xs \<le> i \<Longrightarrow>
   hourly_obj_at hr (i, t) = Inr None"
  by (auto simp: arrays_present_def hourly_obj_at_def read_field_def js_at_conv split: option.splits)

subsection \<open>Properties\<close>

text \<open>
  On well-shaped input the normaliser returns one sample per entry of
  \<open>hourly.time\<close>, in order, holding that entry's time and the values at the same index
  of the parallel arrays, with UV 0 when the UV array is absent.
\<close>

lemma normalizer_samples:
  assumes "hourly_wf hr" "hourly_time hr = Some ts"
  shows "\<exists>hs. hourlyObjs hr = Inr hs \<and> length hs = length ts \<and>
           (\<forall>i < length ts. time (hs ! i) = ts ! i \<and> temp (hs ! i) = the (temperature_2m hr) ! i \<and>
              rainProb (hs ! i) = the (precipitation_probability hr) ! i \<and>
              uv (hs ! i) = (case uv_index hr of None \<Rightarrow> 0 | Some us \<Rightarrow> us ! i))"
  using hourlyObjs_wf [OF assms] by (simp add: sample_at_def)

lemma normalizer_samples_example:
  "\<exists>hs. hourlyObjs \<lparr>hourly_time = Some [''2024-05-01T08:00''], temperature_2m = Some [20],
                     relative_humidity_2m = Some [50], wind_speed_10m = Some [10], cloud_cover = Some [20],
                     precipitation_probability = Some [0], uv_index = None\<rparr> = Inr hs \<and> length hs = 1 \<and>
     (\<forall>i < 1. time (hs ! i) = [''2024-05-01T08:00''] ! i \<and> temp (hs ! i) = [20] ! i \<and>
        rainProb (hs ! i) = [0] ! i \<and> uv (hs ! i) = 0)"
  using normalizer_samples [of "\<lparr>hourly_time = Some [''2024-05-01T08:00''], temperature_2m = Some [20],
                     relative_humidity_2m = Some [50], wind_speed_10m = Some [10], cloud_cover = Some [20],
                     precipitation_probability = Some [0], uv_index = None\<rparr>" "[''2024-05-01T08:00'']"]
  by (simp add: hourly_wf_def covers_len_def)

text \<open>
  C31: the normaliser throws a \<open>TypeError\<close> when \<open>hourly.time\<close> is missing, and when
  any value array but \<open>uv_index\<close> is missing and there is at least one time, whatever
  the other arrays hold; with an empty \<open>hourly.time\<close> nothing is read, so missing value
  arrays go unnoticed and the result is empty.
\<close>

theorem normalizer_errors:
  "(hourly_time hr = None \<longrightarrow> hourlyObjs hr = Inl TypeError) \<and>
   (hourly_time hr = Some (t # ts) \<and>
      (temperature_2m hr = None \<or> relative_humidity_2m hr = None \<or> wind_speed_10m hr = None \<or>
       cloud_cover hr = None \<or> precipitation_probability hr = None) \<longrightarrow> hourlyObjs hr = Inl TypeError) \<and>
   (hourly_time hr = Some [] \<longrightarrow> hourlyObjs hr = Inr [])"
  by (auto simp: hourlyObjs_def hourly_obj_at_def read_field_def split: option.split)

theorem normalizer_errors_witness:
  "hourlyObjs \<lparr>hourly_time = None, temperature_2m = None, relative_humidity_2m = None,
                wind_speed_10m = None, cloud_cover = None, precipitation_probability = None,
                uv_index = None\<rparr> = Inl TypeError \<and>
   hourlyObjs \<lparr>hourly_time = Some [''2024-05-01T08:00''], temperature_2m = Some [20], relative_humidity_2m = Some [50],
                wind_speed_10m = None, cloud_cover = Some [20], precipitation_probability = Some [0],
                uv_index = None\<rparr> = Inl TypeError \<and>
   hourlyObjs \<lparr>hourly_time = Some [], temperature_2m = None, relative_humidity_2m = None,
                wind_speed_10m = None, cloud_cover = None, precipitation_probability = None,
                uv_index = None\<rparr> = Inr []"
proof -
  note e1 = normalizer_errors [of "\<lparr>hourly_time = None, temperature_2m = None, relative_humidity_2m = None,
                wind_speed_10m = None, cloud_cover = None, precipitation_probability = None,
                uv_index = None\<rparr>"]
  note e2 = normalizer_errors [of "\<lparr>hourly_time = Some [''2024-05-01T08:00''], temperature_2m = Some [20],
                relative_humidity_2m = Some [50], wind_speed_10m = None, cloud_cover = Some [20],
                precipitation_probability = Some [0], uv_index = None\<rparr>" "''2024-05-01T08:00''" "[]"]
  note e3 = normalizer_errors [of "\<lparr>hourly_time = Some [], temperature_2m = None, relative_humidity_2m = None,
                wind_speed_10m = None, cloud_cover = None, precipitation_probability = None,
                uv_index = None\<rparr>"]
  show ?thesis using e1 e2 e3 by simp
qed

end
