(* ===== verification/Daily.thy ===== *)
theory Daily
  imports Score Normalizer
begin

text \<open>
  The daily aggregation of \<open>processForecast\<close> (\<open>src/weather/app.js\<close>, lines 109--119,
  and the helper \<open>arrAvg\<close>, line 259): the samples of one day are those whose
  timestamp starts with the day's date string; their temperature, humidity and wind are
  averaged (0 for no sample), the rain probability is maximised with
  \<open>Math.max(...xs)\<close>, which is \<open>-Infinity\<close> on no sample (here \<open>None\<close>), and the
  day's score is \<open>calculateDryingIndex\<close> of the averages with the fixed placeholders
  cloud 20 and UV 5.
\<close>

text \<open>\<open>hourlyObjs.filter(h => h.time.startsWith(dayStr))\<close>.\<close>

definition dayHourlyData :: "js_string \<Rightarrow> hourly_obj list \<Rightarrow> hourly_obj list" where
  "dayHourlyData dayStr hs = filter (\<lambda>h. starts_with (time h) dayStr) hs"

definition arrAvg :: "real list \<Rightarrow> real" where
  "arrAvg arr = (if arr \<noteq> [] then foldl (+) 0 arr / real (length arr) else 0)"

text \<open>\<open>Math.max(...xs)\<close> over numbers: \<open>-Infinity\<close> (\<open>None\<close>) for no argument.\<close>

definition math_max :: "real list \<Rightarrow> real option" where
  "math_max xs = foldl (\<lambda>m x. Some (case m of None \<Rightarrow> x | Some y \<Rightarrow> max y x)) None xs"

text \<open>A comparison \<open>v > c\<close> where \<open>v\<close> may be \<open>-Infinity\<close>.\<close>

definition ext_gt :: "real option \<Rightarrow> real \<Rightarrow> bool" where
  "ext_gt v c \<longleftrightarrow> (case v of None \<Rightarrow> False | Some x \<Rightarrow> c < x)"

record day_stats =
  avgTemp :: real
  avgHum :: real
  avgWind :: real
  maxRain :: "real option"

definition day_stats :: "hourly_obj list \<Rightarrow> day_stats" where
  "day_stats ds =
     \<lparr>avgTemp = arrAvg (map temp ds), avgHum = arrAvg (map humidity ds),
      avgWind = arrAvg (map wind ds), maxRain = math_max (map rainProb ds)\<rparr>"

definition daily_drying_index :: "day_stats \<Rightarrow> real" where
  "daily_drying_index st = calculateDryingIndex (avgTemp st) (avgWind st) (avgHum st) 20 5"

subsection \<open>Averages and maxima\<close>

lemma arrAvg_Nil [simp]: "arrAvg [] = 0"
  by (simp add: arrAvg_def)

lemma arrAvg_mean: "xs \<noteq> [] \<Longrightarrow> arrAvg xs = sum_list xs / real (length xs)"
  by (simp add: arrAvg_def)

lemma sum_list_bounds:
  assumes "\<forall>x \<in> set xs. lo \<le> x \<and> x \<le> hi"
  shows "real (length xs) * lo \<le> sum_list xs \<and> sum_list xs \<le> real (length xs) * hi"
  using assms by (induction xs) (auto simp: algebra_simps)

lemma arrAvg_bounds:
  assumes "xs \<noteq> []" "\<forall>x \<in> set xs. lo \<le> x \<and> x \<le> hi"
  shows "lo \<le> arrAvg xs \<and> arrAvg xs \<le> hi"
proof -
  have n: "0 < real (length xs)" using assms(1) by simp
  from sum_list_bounds [OF assms(2)] n show ?thesis
    by (simp add: arrAvg_mean [OF assms(1)] pos_le_divide_eq pos_divide_le_eq mult.commute)
qed

lemma math_max_foldl_Some:
  "foldl (\<lambda>m x. Some (case m of None \<Rightarrow> x | Some y \<Rightarrow> max y x)) (Some a) xs = Some (Max (set (a # xs)))"
proof -
  have "foldl (\<lambda>m x. Some (case m of None \<Rightarrow> x | Some y \<Rightarrow> max y x)) (Some a) xs = Some (fold max xs a)"
    by (induction xs arbitrary: a) (simp_all add: max.commute)
  moreover have "fold max xs a = Max (set (a # xs))"
    by (rule Max.set_eq_fold [symmetric])
  ultimately show ?thesis by simp
qed

lemma math_max_Nil [simp]: "math_max [] = None"
  by (simp add: math_max_def)

lemma math_max_Max: "xs \<noteq> [] \<Longrightarrow> math_max xs = Some (Max (set xs))"
  by (cases xs) (simp_all add: math_max_def math_max_foldl_Some)

lemma math_max_None_iff [simp]: "math_max xs = None \<longleftrightarrow> xs = []"
  by (cases xs) (simp_all add: math_max_Max)

lemma dayHourlyData_map_time:
  "(\<And>h. time (f h) = time h) \<Longrightarrow> dayHourlyData dd (map f hs) = map f (dayHourlyData dd hs)"
  by (simp add: dayHourlyData_def filter_map comp_def)

subsection \<open>Properties\<close>

text \<open>
  C13: the day's score ignores the cloud cover and the UV index of its samples: changing
  them leaves the score unchanged, since the daily call substitutes the placeholders
  cloud 20 and UV 5 (the quirk the specification preserves).
\<close>

theorem daily_score_ignores_cloud_uv:
  "daily_drying_index (day_stats (dayHourlyData dd (map (\<lambda>h. h\<lparr>cloud := cf h, uv := uf h\<rparr>) hs)))
   = daily_drying_index (day_stats (dayHourlyData dd hs))"
  by (simp add: dayHourlyData_map_time day_stats_def comp_def)

text \<open>
  Two different date strings of the same length (as \<open>YYYY-MM-DD\<close> strings are)
  select disjoint sets of samples: no sample is counted in two days.
\<close>

lemma day_selection_disjoint:
  assumes "length d1 = length d2" "d1 \<noteq> d2"
  shows "set (dayHourlyData d1 hs) \<inter> set (dayHourlyData d2 hs) = {}"
  using assms by (auto simp: dayHourlyData_def starts_with_def)

lemma day_selection_disjoint_example:
  "set (dayHourlyData ''2024-05-01''
          [\<lparr>time = ''2024-05-01T08:00'', temp = 20, humidity = 50, wind = 10, cloud = 20, rainProb = 0, uv = 5\<rparr>,
           \<lparr>time = ''2024-05-02T08:00'', temp = 20, humidity = 50, wind = 10, cloud = 20, rainProb = 0, uv = 5\<rparr>])
   \<inter> set (dayHourlyData ''2024-05-02''
          [\<lparr>time = ''2024-05-01T08:00'', temp = 20, humidity = 50, wind = 10, cloud = 20, rainProb = 0, uv = 5\<rparr>,
           \<lparr>time = ''2024-05-02T08:00'', temp = 20, humidity = 50, wind = 10, cloud = 20, rainProb = 0, uv = 5\<rparr>]) = {}"
  by (rule day_selection_disjoint) simp_all

text \<open>
  C14: when every sample's humidity is a percentage in \<open>[0, 100]\<close>, so is the day's
  average humidity (also for a day without samples, whose average is 0).
\<close>

theorem avg_humidity_bounds:
  assumes "\<forall>h \<in> set ds. 0 \<le> humidity h \<and> humidity h \<le> 100"
  shows "0 \<le> avgHum (day_stats ds) \<and> avgHum (day_stats ds) \<le> 100"
proof (cases "ds = []")
  case True
  then show ?thesis by (simp add: day_stats_def)
next
  case False
  then have "map humidity ds \<noteq> []" by simp
  from arrAvg_bounds [OF this] assms show ?thesis by (simp add: day_stats_def)
qed

theorem avg_humidity_bounds_witness:
  "0 \<le> avgHum (day_stats [\<lparr>time = ''2024-05-01T08:00'', temp = 20, humidity = 50, wind = 10, cloud = 20, rainProb = 0, uv = 5\<rparr>,
                            \<lparr>time = ''2024-05-01T09:00'', temp = 21, humidity = 70, wind = 12, cloud = 20, rainProb = 0, uv = 5\<rparr>])
   \<and> avgHum (day_stats [\<lparr>time = ''2024-05-01T08:00'', temp = 20, humidity = 50, wind = 10, cloud = 20, rainProb = 0, uv = 5\<rparr>,
                           \<lparr>time = ''2024-05-01T09:00'', temp = 21, humidity = 70, wind = 12, cloud = 20, rainProb = 0, uv = 5\<rparr>]) \<le> 100"
  by (rule avg_humidity_bounds) simp

end
