(* ===== verification/Phases.thy ===== *)
theory Phases
  imports Daily
begin

text \<open>
  The three-phase status of a day, lines 121--152 of \<open>processForecast\<close> in
  \<open>src/weather/app.js\<close>. Each sample's hour is \<open>parseInt\<close> of characters 11--12 of
  its timestamp; its score is \<open>calculateDryingIndex\<close> of its own five values. The
  \<open>forEach\<close> pushes the score into the morning bucket for hours 8--11, the noon bucket
  for 12--14 and the afternoon bucket for 15--18 (both ends included), and no bucket
  otherwise (an unparsable hour compares false everywhere). \<open>getPhaseStatus\<close> turns a
  bucket into a colour: grey when empty, else green from a mean of 70, orange from 30,
  grey below. The \<open>status: 'gray'\<close> field of the bucket literals is never read and is
  not modelled.

  The lemmas show that the loop is the filter of the samples by a fixed hour window
  (\<open>phase_window\<close>), so that each sample lands in at most one bucket and hours outside
  8--18 in none, and characterise the three colours.
\<close>

datatype phase = Morning | Noon | Afternoon

text \<open>\<open>parseInt(h.time.substring(11, 13))\<close>.\<close>

definition hour_of :: "hourly_obj \<Rightarrow> int option" where
  "hour_of h = js_parse_int (js_substring (time h) 11 13)"

text \<open>\<open>this.calculateDryingIndex(h.temp, h.wind, h.humidity, h.cloud, h.uv)\<close>.\<close>

definition hour_score :: "hourly_obj \<Rightarrow> real" where
  "hour_score h = calculateDryingIndex (temp h) (wind h) (humidity h) (cloud h) (uv h)"

record phase_buckets =
  morning :: "real list"
  noon :: "real list"
  afternoon :: "real list"

definition empty_buckets :: phase_buckets where
  "empty_buckets = \<lparr>morning = [], noon = [], afternoon = []\<rparr>"

text \<open>The body of \<open>dayHourlyData.forEach(h => ...)\<close>.\<close>

definition phase_push :: "phase_buckets \<Rightarrow> hourly_obj \<Rightarrow> phase_buckets" where
  "phase_push ph h =
     (let hour = hour_of h; score = hour_score h
      in if nan_ge hour 8 \<and> nan_lt hour 12 then ph\<lparr>morning := morning ph @ [score]\<rparr>
         else if nan_ge hour 12 \<and> nan_lt hour 15 then ph\<lparr>noon := noon ph @ [score]\<rparr>
         else if nan_ge hour 15 \<and> nan_le hour 18 then ph\<lparr>afternoon := afternoon ph @ [score]\<rparr>
         else ph)"

definition collect_phases :: "hourly_obj list \<Rightarrow> phase_buckets" where
  "collect_phases ds = foldl phase_push empty_buckets ds"

definition getPhaseStatus :: "real list \<Rightarrow> color" where
  "getPhaseStatus scores =
     (if scores = [] then Gray
      else let avg = foldl (+) 0 scores / real (length scores)
           in if 70 \<le> avg then Green else if 30 \<le> avg then Orange else Gray)"

record phase_data =
  pMorning :: color
  pNoon :: color
  pAfternoon :: color

definition phaseData :: "hourly_obj list \<Rightarrow> phase_data" where
  "phaseData ds =
     (let ph = collect_phases ds
      in \<lparr>pMorning = getPhaseStatus (morning ph), pNoon = getPhaseStatus (noon ph),
          pAfternoon = getPhaseStatus (afternoon ph)\<rparr>)"

subsection \<open>The phase windows\<close>

text \<open>The specification of the buckets: a fixed window per phase.\<close>

definition phase_window :: "int option \<Rightarrow> phase option" where
  "phase_window hour =
     (case hour of None \<Rightarrow> None
      | Some k \<Rightarrow> if 8 \<le> k \<and> k < 12 then Some Morning else if 12 \<le> k \<and> k < 15 then Some Noon
                 else if 15 \<le> k \<and> k \<le> 18 then Some Afternoon else None)"

definition bucket :: "phase \<Rightarrow> phase_buckets \<Rightarrow> real list" where
  "bucket p ph = (case p of Morning \<Rightarrow> morning ph | Noon \<Rightarrow> noon ph | Afternoon \<Rightarrow> afternoon ph)"

definition in_phase :: "phase \<Rightarrow> hourly_obj \<Rightarrow> bool" where
  "in_phase p h \<longleftrightarrow> phase_window (hour_of h) = Some p"

lemma bucket_phase_push:
  "bucket p (phase_push ph h) = bucket p ph @ (if in_phase p h then [hour_score h] else [])"
  by (cases p; cases "hour_of h")
     (auto simp: phase_push_def bucket_def in_phase_def phase_window_def Let_def)

lemma bucket_foldl_phase_push:
  "bucket p (foldl phase_push ph ds) = bucket p ph @ map hour_score (filter (in_phase p) ds)"
  by (induction ds arbitrary: ph) (simp_all add: bucket_phase_push)

lemma bucket_collect_phases:
  "bucket p (collect_phases ds) = map hour_score (filter (in_phase p) ds)"
  using bucket_foldl_phase_push [of p empty_buckets ds]
  by (cases p) (simp_all add: collect_phases_def bucket_def empty_buckets_def)

lemma phase_window_None_outside:
  "k < 8 \<or> 18 < k \<Longrightarrow> phase_window (Some k) = None"
  by (auto simp: phase_window_def)

lemma phase_window_Some_inside:
  "8 \<le> k \<Longrightarrow> k \<le> 18 \<Longrightarrow> phase_window (Some k) \<noteq> None"
  by (simp add: phase_window_def)

subsection \<open>Phase colours\<close>

lemma getPhaseStatus_mean:
  "getPhaseStatus xs =
     (if xs = [] then Gray
      else if 70 \<le> arrAvg xs then Green else if 30 \<le> arrAvg xs then Orange else Gray)"
  by (simp add: getPhaseStatus_def arrAvg_def Let_def)

subsection \<open>Properties\<close>

text \<open>
  C7: each pass of the \<open>forEach\<close> body pushes the sample's score into exactly one
  of the three buckets when its hour is in \<open>[8, 18]\<close>, and into none when the hour is
  outside that range or unparsable: the three if-branches neither overlap nor leave a gap.
\<close>

theorem phase_push_one_bucket:
  "length (morning (phase_push ph h)) + length (noon (phase_push ph h)) + length (afternoon (phase_push ph h))
   = length (morning ph) + length (noon ph) + length (afternoon ph) +
     (if nan_ge (hour_of h) 8 \<and> nan_le (hour_of h) 18 then 1 else 0)"
  by (cases "hour_of h") (auto simp: phase_push_def Let_def)

text \<open>
  C8: the \<open>forEach\<close> that pushes the scores refines the window specification: each
  phase's colour is \<open>getPhaseStatus\<close> of the scores of exactly the samples in its
  window, in their order.
\<close>

theorem phaseData_refines:
  "phaseData ds =
     \<lparr>pMorning = getPhaseStatus (map hour_score (filter (in_phase Morning) ds)),
      pNoon = getPhaseStatus (map hour_score (filter (in_phase Noon) ds)),
      pAfternoon = getPhaseStatus (map hour_score (filter (in_phase Afternoon) ds))\<rparr>"
  using bucket_collect_phases [of Morning ds] bucket_collect_phases [of Noon ds]
    bucket_collect_phases [of Afternoon ds]
  by (simp add: phaseData_def bucket_def)

text \<open>
  C9: a phase is green exactly when it has scores averaging at least 70, orange when
  they average in \<open>[30, 70)\<close>, and grey when it is empty or averages below 30.
\<close>

theorem getPhaseStatus_classes:
  "(getPhaseStatus xs = Green \<longleftrightarrow> xs \<noteq> [] \<and> 70 \<le> arrAvg xs) \<and>
   (getPhaseStatus xs = Orange \<longleftrightarrow> xs \<noteq> [] \<and> 30 \<le> arrAvg xs \<and> arrAvg xs < 70) \<and>
   (getPhaseStatus xs = Gray \<longleftrightarrow> xs = [] \<or> arrAvg xs < 30)"
  by (auto simp: getPhaseStatus_mean)

end
