(* ===== verification/Hourly.thy ===== *)
theory Hourly
  imports Phases
begin

text \<open>
  The per-hour display records of day 0, \<open>processedHourly\<close> in \<open>processForecast\<close>
  (\<open>src/weather/app.js\<close>, lines 159--189). Each sample's own score is lowered by 30 at
  night (hour below 6 or above 19), set to 0 when the rain probability exceeds 40, and
  clamped into \<open>[0, 100]\<close> for display. The status is decided in the order of the
  source: rain first (on the rain probability, not on the score), then good from an
  adjusted score of 70, fair from 30, poor below; each status carries its colour.
\<close>

datatype hour_status = Poor | Rain | Good | Fair

record hour_rec =
  timeDisplay :: js_string
  score :: real
  hr_temp :: real
  status :: hour_status
  hr_color :: color

definition is_night :: "int option \<Rightarrow> bool" where
  "is_night hourNum \<longleftrightarrow> nan_lt hourNum 6 \<or> nan_gt hourNum 19"

text \<open>\<open>hScore\<close> after the night and rain adjustments, before the display clamp.\<close>

definition adjusted_score :: "hourly_obj \<Rightarrow> real" where
  "adjusted_score h =
     (let hScore = hour_score h;
          hScore = (if is_night (hour_of h) then hScore - 30 else hScore)
      in if 40 < rainProb h then 0 else hScore)"

definition hour_class :: "real \<Rightarrow> real \<Rightarrow> hour_status \<times> color" where
  "hour_class rain hScore =
     (if 40 < rain then (Rain, Blue)
      else if 70 \<le> hScore then (Good, Green)
      else if 30 \<le> hScore then (Fair, Orange)
      else (Poor, Gray))"

definition hour_rec_of :: "hourly_obj \<Rightarrow> hour_rec" where
  "hour_rec_of h =
     (let hScore = adjusted_score h; (st, c) = hour_class (rainProb h) hScore
      in \<lparr>timeDisplay = js_substring (time h) 11 16, score = max 0 (min 100 hScore),
          hr_temp = temp h, status = st, hr_color = c\<rparr>)"

definition processedHourly :: "hourly_obj list \<Rightarrow> hour_rec list" where
  "processedHourly ds = map hour_rec_of ds"

text \<open>The colour each status is drawn with.\<close>

fun status_color :: "hour_status \<Rightarrow> color" where
  "status_color Rain = Blue"
| "status_color Good = Green"
| "status_color Fair = Orange"
| "status_color Poor = Gray"

lemma hour_class_color: "snd (hour_class r s) = status_color (fst (hour_class r s))"
  by (simp add: hour_class_def)

lemma status_hour_rec_of: "status (hour_rec_of h) = fst (hour_class (rainProb h) (adjusted_score h))"
  by (simp add: hour_rec_of_def Let_def split: prod.split)

lemma color_hour_rec_of: "hr_color (hour_rec_of h) = status_color (status (hour_rec_of h))"
  by (simp add: hour_rec_of_def hour_class_def Let_def split: prod.split)

lemma score_hour_rec_of: "score (hour_rec_of h) = max 0 (min 100 (adjusted_score h))"
  by (simp add: hour_rec_of_def Let_def split: prod.split)

lemma timeDisplay_hour_rec_of: "timeDisplay (hour_rec_of h) = js_substring (time h) 11 16"
  by (simp add: hour_rec_of_def Let_def split: prod.split)

lemma adjusted_score_cases:
  "adjusted_score h =
     (if 40 < rainProb h then 0 else if is_night (hour_of h) then hour_score h - 30 else hour_score h)"
  by (simp add: adjusted_score_def Let_def)

lemma hour_score_bounds [simp]: "0 \<le> hour_score h" "hour_score h \<le> 100"
  by (simp_all add: hour_score_def)

lemma is_good_iff:
  "status (hour_rec_of h) = Good \<longleftrightarrow> \<not> 40 < rainProb h \<and> 70 \<le> adjusted_score h"
  by (simp add: status_hour_rec_of hour_class_def)

subsection \<open>Properties\<close>

text \<open>
  C10: the status of an hour is rain whenever its rain probability exceeds 40, whatever
  its score; otherwise good, fair or poor by the adjusted score at 70 and 30. Its colour
  is the status's colour, and the displayed score lies in \<open>[0, 100]\<close> and is 0 for a
  rainy hour.
\<close>

theorem hour_rec_spec:
  "status (hour_rec_of h) =
     (if 40 < rainProb h then Rain else if 70 \<le> adjusted_score h then Good
      else if 30 \<le> adjusted_score h then Fair else Poor) \<and>
   hr_color (hour_rec_of h) = status_color (status (hour_rec_of h)) \<and>
   0 \<le> score (hour_rec_of h) \<and> score (hour_rec_of h) \<le> 100 \<and>
   (40 < rainProb h \<longrightarrow> score (hour_rec_of h) = 0)"
  by (simp add: status_hour_rec_of color_hour_rec_of score_hour_rec_of hour_class_def adjusted_score_cases)

theorem hour_rec_spec_witness:
  "status (hour_rec_of \<lparr>time = ''2024-05-01T14:00'', temp = 25, humidity = 40, wind = 15, cloud = 10,
                        rainProb = 60, uv = 8\<rparr>) = Rain \<and>
   hr_color (hour_rec_of \<lparr>time = ''2024-05-01T14:00'', temp = 25, humidity = 40, wind = 15, cloud = 10,
                          rainProb = 60, uv = 8\<rparr>) = Blue \<and>
   score (hour_rec_of \<lparr>time = ''2024-05-01T14:00'', temp = 25, humidity = 40, wind = 15, cloud = 10,
                       rainProb = 60, uv = 8\<rparr>) = 0"
  using hour_rec_spec [of "\<lparr>time = ''2024-05-01T14:00'', temp = 25, humidity = 40, wind = 15, cloud = 10,
                             rainProb = 60, uv = 8\<rparr>"]
  by simp

text \<open>
  C11: the 30-point night penalty means that a night hour (before 6 or after 19) is
  shown as good only when its unadjusted score is the maximum, 100.
\<close>

theorem night_good_needs_full_score:
  assumes "is_night (hour_of h)" "status (hour_rec_of h) = Good"
  shows "hour_score h = 100"
proof -
  from assms(2) have "\<not> 40 < rainProb h" "70 \<le> adjusted_score h"
    by (simp_all add: is_good_iff)
  with assms(1) have "100 \<le> hour_score h" by (simp add: adjusted_score_cases)
  then show ?thesis using hour_score_bounds(2) [of h] by linarith
qed

theorem night_good_needs_full_score_witness:
  "hour_score \<lparr>time = ''2024-05-01T22:00'', temp = 25, humidity = 40, wind = 15, cloud = 10, rainProb = 0, uv = 8\<rparr> = 100"
proof (rule night_good_needs_full_score)
  show "is_night (hour_of \<lparr>time = ''2024-05-01T22:00'', temp = 25, humidity = 40, wind = 15, cloud = 10, rainProb = 0, uv = 8\<rparr>)"
    by (simp add: is_night_def hour_of_def js_defs)
  show "status (hour_rec_of \<lparr>time = ''2024-05-01T22:00'', temp = 25, humidity = 40, wind = 15, cloud = 10, rainProb = 0, uv = 8\<rparr>) = Good"
    by (simp add: is_good_iff adjusted_score_cases is_night_def hour_of_def hour_score_def score_defs js_defs)
qed

end
