(* ===== verification/Pills.thy ===== *)
theory Pills
  imports Hourly
begin

text \<open>
  The timeline pills of day 0 (\<open>src/weather/app.js\<close>, lines 191--227): a
  \<open>forEach\<close> over the hourly display records keeps at most one open pill
  (\<open>currentPill\<close>); a good hour opens one or extends it, and a pill is closed and
  emitted at the first hour that is not good or at the last index. The emitted pill
  holds its offset and width in rpx (\<open>slotWidth\<close> 120 per hour), a label
  \<open>start - end\<close> whose end is the display time of the hour after the run, or
  \<open>parseInt(start) + length\<close> followed by \<open>:00\<close> when the run reaches the end of the
  array, and \<open>isLong\<close> for runs of more than one hour.

  The abstract specification is \<open>good_runs\<close>: the maximal runs of \<open>True\<close> in a list
  of booleans as \<open>(start, length)\<close> pairs, computed by a scan \<open>runs_acc\<close> that emits a
  run when it ends. The refinement theorem \<open>drying_pills_refines\<close> shows that the loop
  emits exactly one pill per run of \<open>good_runs\<close> of the status sequence, in order; the
  lemmas on \<open>good_runs\<close> show that its runs are well formed (non-empty, in range,
  strictly increasing with a gap between two runs) and that they cover exactly the good
  hours.
\<close>

record open_pill =
  startIdx :: nat
  startTime :: js_string
  plen :: nat

record pill =
  left :: nat
  width :: nat
  label :: js_string
  isLong :: bool

record pill_state =
  currentPill :: "open_pill option"
  dryingPills :: "pill list"

definition slotWidth :: nat where
  "slotWidth = 120"

text \<open>\<open>endTime\<close>: the display time of the hour after the run if there is one, else
  \<open>`${parseInt(startTime) + length}:00`\<close>.\<close>

definition pill_end_time :: "hour_rec list \<Rightarrow> nat \<Rightarrow> js_string \<Rightarrow> nat \<Rightarrow> js_string" where
  "pill_end_time hs sIdx sTime len =
     (let endHourIndex = sIdx + len
      in case js_at hs endHourIndex of
           Some h \<Rightarrow> timeDisplay h
         | None \<Rightarrow> js_num_str (map_option (\<lambda>n. n + int len) (js_parse_int sTime)) @ '':00'')"

definition close_pill :: "hour_rec list \<Rightarrow> nat \<Rightarrow> js_string \<Rightarrow> nat \<Rightarrow> pill" where
  "close_pill hs sIdx sTime len =
     \<lparr>left = sIdx * slotWidth, width = len * slotWidth,
      label = sTime @ '' - '' @ pill_end_time hs sIdx sTime len, isLong = 1 < len\<rparr>"

text \<open>The body of \<open>processedHourly.forEach((hour, index) => ...)\<close>.\<close>

definition pill_step :: "hour_rec list \<Rightarrow> pill_state \<Rightarrow> nat \<times> hour_rec \<Rightarrow> pill_state" where
  "pill_step hs st ih =
     (case ih of (index, hour) \<Rightarrow>
        let isGood = (status hour = Good);
            cur = (if isGood
                   then Some (case currentPill st of
                                None \<Rightarrow> \<lparr>startIdx = index, startTime = timeDisplay hour, plen = 1\<rparr>
                              | Some p \<Rightarrow> p\<lparr>plen := Suc (plen p)\<rparr>)
                   else currentPill st)
        in case cur of
             Some p \<Rightarrow>
               if \<not> isGood \<or> index = length hs - 1
               then \<lparr>currentPill = None,
                     dryingPills = dryingPills st @ [close_pill hs (startIdx p) (startTime p) (plen p)]\<rparr>
               else \<lparr>currentPill = cur, dryingPills = dryingPills st\<rparr>
           | None \<Rightarrow> \<lparr>currentPill = None, dryingPills = dryingPills st\<rparr>)"

definition drying_pills :: "hour_rec list \<Rightarrow> pill list" where
  "drying_pills hs =
     dryingPills (foldl (pill_step hs) \<lparr>currentPill = None, dryingPills = []\<rparr> (enumerate 0 hs))"

subsection \<open>The abstract specification: maximal runs\<close>

text \<open>A scan that carries the open run \<open>(start, length)\<close> and emits it when it ends.\<close>

fun runs_acc :: "(nat \<times> nat) option \<Rightarrow> nat \<Rightarrow> bool list \<Rightarrow> (nat \<times> nat) list" where
  "runs_acc None i [] = []"
| "runs_acc (Some r) i [] = [r]"
| "runs_acc None i (b # bs) =
     (if b then runs_acc (Some (i, 1)) (Suc i) bs else runs_acc None (Suc i) bs)"
| "runs_acc (Some (s, k)) i (b # bs) =
     (if b then runs_acc (Some (s, Suc k)) (Suc i) bs else (s, k) # runs_acc None (Suc i) bs)"

definition good_runs :: "bool list \<Rightarrow> (nat \<times> nat) list" where
  "good_runs bs = runs_acc None 0 bs"

definition is_good :: "hour_rec \<Rightarrow> bool" where
  "is_good h \<longleftrightarrow> status h = Good"

text \<open>The pill the code emits for the run \<open>(s, k)\<close>.\<close>

definition mk_pill :: "hour_rec list \<Rightarrow> nat \<times> nat \<Rightarrow> pill" where
  "mk_pill hs r = (case r of (s, k) \<Rightarrow> close_pill hs s (timeDisplay (hs ! s)) k)"

text \<open>How the loop state corresponds to the open run of the scan.\<close>

definition pill_rel :: "hour_rec list \<Rightarrow> open_pill option \<Rightarrow> (nat \<times> nat) option \<Rightarrow> bool" where
  "pill_rel hs cur acc \<longleftrightarrow>
     (case cur of
        None \<Rightarrow> acc = None
      | Some p \<Rightarrow> acc = Some (startIdx p, plen p) \<and> startTime p = timeDisplay (hs ! startIdx p))"

text \<open>One step of the scan: the runs it emits and the run it leaves open.\<close>

fun runs_step :: "(nat \<times> nat) option \<Rightarrow> nat \<Rightarrow> bool \<Rightarrow> (nat \<times> nat) list \<times> (nat \<times> nat) option" where
  "runs_step None i b = (if b then ([], Some (i, 1)) else ([], None))"
| "runs_step (Some (s, k)) i b = (if b then ([], Some (s, Suc k)) else ([(s, k)], None))"

text \<open>Auxiliary notions for the properties of the runs: the hours a run list covers,
  the invariant of the open run, and the gap between two consecutive runs.\<close>

definition covered :: "(nat \<times> nat) list \<Rightarrow> nat \<Rightarrow> bool" where
  "covered rs j \<longleftrightarrow> (\<exists>r \<in> set rs. fst r \<le> j \<and> j < fst r + snd r)"

definition run_open :: "(nat \<times> nat) option \<Rightarrow> nat \<Rightarrow> bool" where
  "run_open acc i \<longleftrightarrow> (case acc of None \<Rightarrow> True | Some (s, k) \<Rightarrow> 0 < k \<and> s + k = i)"

definition open_covers :: "(nat \<times> nat) option \<Rightarrow> nat \<Rightarrow> bool" where
  "open_covers acc j \<longleftrightarrow> (case acc of None \<Rightarrow> False | Some (s, k) \<Rightarrow> s \<le> j \<and> j < s + k)"

definition run_gap :: "nat \<times> nat \<Rightarrow> nat \<times> nat \<Rightarrow> bool" where
  "run_gap r r' \<longleftrightarrow> fst r + snd r < fst r'"

definition open_start :: "(nat \<times> nat) option \<Rightarrow> nat \<Rightarrow> nat" where
  "open_start acc i = (case acc of None \<Rightarrow> i | Some (s, k) \<Rightarrow> s)"

text \<open>A test day of five samples, 08:00 to 12:00, whose hours are poor, good, good,
  poor, good: a good hour scores 100, a poor one 0.\<close>

definition demo_samples :: "hourly_obj list" where
  "demo_samples =
     [\<lparr>time = ''2024-05-01T08:00'', temp = 0, humidity = 100, wind = 0, cloud = 100, rainProb = 0, uv = 0\<rparr>,
      \<lparr>time = ''2024-05-01T09:00'', temp = 25, humidity = 40, wind = 15, cloud = 10, rainProb = 0, uv = 8\<rparr>,
      \<lparr>time = ''2024-05-01T10:00'', temp = 25, humidity = 40, wind = 15, cloud = 10, rainProb = 0, uv = 8\<rparr>,
      \<lparr>time = ''2024-05-01T11:00'', temp = 0, humidity = 100, wind = 0, cloud = 100, rainProb = 0, uv = 0\<rparr>,
      \<lparr>time = ''2024-05-01T12:00'', temp = 25, humidity = 40, wind = 15, cloud = 10, rainProb = 0, uv = 8\<rparr>]"

subsection \<open>Refinement\<close>

lemma runs_acc_Cons:
  "runs_acc acc i (b # bs) = fst (runs_step acc i b) @ runs_acc (snd (runs_step acc i b)) (Suc i) bs"
  by (cases acc) auto

lemma pill_step_last:
  assumes "pill_rel hs (currentPill st) acc" "Suc i = length hs"
  shows "dryingPills (pill_step hs st (i, hs ! i))
           = dryingPills st @ map (mk_pill hs) (runs_acc acc i [is_good (hs ! i)])"
  using assms
  by (cases acc) (auto simp: pill_step_def pill_rel_def mk_pill_def is_good_def split: option.splits)

lemma pill_step_inner:
  assumes "pill_rel hs (currentPill st) acc" "Suc i < length hs"
  shows "pill_rel hs (currentPill (pill_step hs st (i, hs ! i))) (snd (runs_step acc i (is_good (hs ! i))))
         \<and> dryingPills (pill_step hs st (i, hs ! i))
             = dryingPills st @ map (mk_pill hs) (fst (runs_step acc i (is_good (hs ! i))))"
  using assms
  by (cases acc; cases "is_good (hs ! i)")
     (auto simp: pill_step_def pill_rel_def mk_pill_def is_good_def split: option.splits)

lemma pill_loop_refines:
  assumes "pill_rel hs (currentPill st) acc" "rest = drop i hs" "rest \<noteq> []"
  shows "dryingPills (foldl (pill_step hs) st (enumerate i rest))
           = dryingPills st @ map (mk_pill hs) (runs_acc acc i (map is_good rest))"
  using assms
proof (induction rest arbitrary: i st acc)
  case Nil
  then show ?case by simp
next
  case (Cons x xs)
  have x: "x = hs ! i" and i: "i < length hs" and xs: "xs = drop (Suc i) hs"
    using Cons.prems(2) by (metis Cons_nth_drop_Suc drop_all list.inject not_le_imp_less neq_Nil_conv)+
  show ?case
  proof (cases xs)
    case Nil
    with xs i have "Suc i = length hs" by simp
    with Cons.prems(1) show ?thesis
      by (simp add: enumerate_simps x Nil pill_step_last)
  next
    case (Cons y ys)
    with xs have "Suc i < length hs" by (metis drop_all list.distinct(1) not_le_imp_less)
    from pill_step_inner [OF Cons.prems(1) this]
    have rel: "pill_rel hs (currentPill (pill_step hs st (i, hs ! i))) (snd (runs_step acc i (is_good (hs ! i))))"
      and out: "dryingPills (pill_step hs st (i, hs ! i))
                  = dryingPills st @ map (mk_pill hs) (fst (runs_step acc i (is_good (hs ! i))))"
      by blast+
    have "dryingPills (foldl (pill_step hs) (pill_step hs st (i, hs ! i)) (enumerate (Suc i) xs))
            = dryingPills (pill_step hs st (i, hs ! i))
              @ map (mk_pill hs) (runs_acc (snd (runs_step acc i (is_good (hs ! i)))) (Suc i) (map is_good xs))"
      using Cons.IH [OF rel xs] Cons by simp
    then show ?thesis
      by (simp add: enumerate_simps x out runs_acc_Cons)
  qed
qed

lemma drying_pills_runs:
  "drying_pills hs = map (mk_pill hs) (good_runs (map is_good hs))"
proof (cases hs)
  case Nil
  then show ?thesis by (simp add: drying_pills_def good_runs_def)
next
  case (Cons h hs')
  have "pill_rel hs (currentPill \<lparr>currentPill = None, dryingPills = []\<rparr>) None"
    by (simp add: pill_rel_def)
  from pill_loop_refines [OF this, of hs 0] Cons show ?thesis
    by (simp add: drying_pills_def good_runs_def)
qed

subsection \<open>The runs are maximal: coverage and order\<close>

lemma covered_Cons: "covered (r # rs) j \<longleftrightarrow> (fst r \<le> j \<and> j < fst r + snd r) \<or> covered rs j"
  by (cases r) (auto simp: covered_def)

lemma covered_runs_acc:
  "run_open acc i \<Longrightarrow>
   covered (runs_acc acc i bs) j \<longleftrightarrow> open_covers acc j \<or> (i \<le> j \<and> j < i + length bs \<and> bs ! (j - i))"
proof (induction acc i bs rule: runs_acc.induct)
  case (1 i)
  then show ?case by (simp add: covered_def open_covers_def)
next
  case (2 r i)
  then show ?case by (cases r) (auto simp: covered_def open_covers_def)
next
  case (3 i b bs)
  then show ?case
    by (auto simp: run_open_def open_covers_def nth_Cons' covered_Cons)
next
  case (4 s k i b bs)
  then show ?case
    by (auto simp: run_open_def open_covers_def nth_Cons' covered_Cons)
qed

lemma runs_acc_bounds:
  "run_open acc i \<Longrightarrow> r \<in> set (runs_acc acc i bs) \<Longrightarrow>
   0 < snd r \<and> fst r + snd r \<le> i + length bs \<and> open_start acc i \<le> fst r"
proof (induction acc i bs arbitrary: r rule: runs_acc.induct)
  case (1 i)
  then show ?case by simp
next
  case (2 r i)
  then show ?case by (auto simp: run_open_def open_start_def)
next
  case (3 i b bs)
  show ?case
  proof (cases b)
    case True
    with "3.prems" have "r \<in> set (runs_acc (Some (i, 1)) (Suc i) bs)" by simp
    with "3.IH"(1) True show ?thesis by (simp add: run_open_def open_start_def)
  next
    case False
    with "3.prems" have "r \<in> set (runs_acc None (Suc i) bs)" by simp
    with "3.IH"(2) [of r] False show ?thesis by (simp add: run_open_def open_start_def)
  qed
next
  case (4 s k i b bs)
  show ?case
  proof (cases b)
    case True
    with "4.prems" have "r \<in> set (runs_acc (Some (s, Suc k)) (Suc i) bs)" by simp
    with "4.IH"(1) True "4.prems"(1) show ?thesis by (simp add: run_open_def open_start_def)
  next
    case False
    with "4.prems" have "r = (s, k) \<or> r \<in> set (runs_acc None (Suc i) bs)" by simp
    then show ?thesis
    proof
      assume "r = (s, k)"
      with "4.prems"(1) show ?thesis by (simp add: run_open_def open_start_def)
    next
      assume "r \<in> set (runs_acc None (Suc i) bs)"
      with "4.IH"(2) [of r] False "4.prems"(1) show ?thesis by (simp add: run_open_def open_start_def)
    qed
  qed
qed

lemma runs_acc_sorted:
  "run_open acc i \<Longrightarrow> sorted_wrt run_gap (runs_acc acc i bs)"
proof (induction acc i bs rule: runs_acc.induct)
  case (4 s k i b bs)
  have "\<forall>r \<in> set (runs_acc None (Suc i) bs). s + k < fst r"
    using runs_acc_bounds [of None "Suc i" _ bs] "4.prems"
    by (fastforce simp: run_open_def open_start_def)
  with 4 show ?case
    by (auto simp: run_open_def run_gap_def)
qed (auto simp: run_open_def)

lemma covered_good_runs: "covered (good_runs bs) j \<longleftrightarrow> j < length bs \<and> bs ! j"
  using covered_runs_acc [of None 0 bs j]
  by (simp add: good_runs_def run_open_def open_covers_def)

lemma good_runs_bounds: "r \<in> set (good_runs bs) \<Longrightarrow> 0 < snd r \<and> fst r + snd r \<le> length bs"
  using runs_acc_bounds [of None 0 r bs] by (simp add: good_runs_def run_open_def)

lemma good_runs_sorted: "sorted_wrt run_gap (good_runs bs)"
  using runs_acc_sorted [of None 0 bs] by (simp add: good_runs_def run_open_def)

lemma mk_pill_fields [simp]:
  "left (mk_pill hs r) = fst r * slotWidth" "width (mk_pill hs r) = snd r * slotWidth"
  "isLong (mk_pill hs r) \<longleftrightarrow> 1 < snd r"
  by (cases r; simp add: mk_pill_def close_pill_def)+

lemma times120_less: "(a :: nat) * 120 < b * 120 + c * 120 \<longleftrightarrow> a < b + c"
  by arith

lemmas hour_eval_defs = processedHourly_def hour_rec_of_def adjusted_score_def hour_class_def
  hour_score_def hour_of_def is_night_def score_defs

subsection \<open>Properties of the emitted pills\<close>

text \<open>
  C3: the pill loop emits, in order, one pill per maximal run \<open>(s, k)\<close> of good hours:
  offset \<open>120 s\<close>, width \<open>120 k\<close>, label from the start hour's display time to the
  end time, and \<open>isLong\<close> exactly for runs longer than one hour.
\<close>

theorem drying_pills_refines:
  "drying_pills hs =
     map (\<lambda>(s, k). \<lparr>left = s * 120, width = k * 120,
                     label = timeDisplay (hs ! s) @ '' - '' @ pill_end_time hs s (timeDisplay (hs ! s)) k,
                     isLong = 1 < k\<rparr>)
         (good_runs (map is_good hs))"
  by (simp add: drying_pills_runs mk_pill_def close_pill_def slotWidth_def case_prod_beta)

text \<open>
  C4: an hour of the timeline lies under some pill exactly when its status is good:
  the pills cover the good hours and nothing else.
\<close>

theorem pills_cover_good_hours:
  assumes "j < length hs"
  shows "(\<exists>p \<in> set (drying_pills hs). left p \<le> j * slotWidth \<and> j * slotWidth < left p + width p)
         \<longleftrightarrow> status (hs ! j) = Good"
proof -
  have "(\<exists>p \<in> set (drying_pills hs). left p \<le> j * slotWidth \<and> j * slotWidth < left p + width p)
        \<longleftrightarrow> covered (good_runs (map is_good hs)) j"
    by (auto simp: drying_pills_runs covered_def slotWidth_def times120_less)
  also have "\<dots> \<longleftrightarrow> status (hs ! j) = Good"
    using assms by (simp add: covered_good_runs is_good_def)
  finally show ?thesis .
qed

text \<open>
  C5: the pills are non-empty, lie within the timeline, and are strictly ordered with a
  gap between any two: two pills never overlap or touch, so each is a maximal run.
\<close>

theorem pills_ordered:
  "sorted_wrt (\<lambda>p q. left p + width p < left q) (drying_pills hs) \<and>
   (\<forall>p \<in> set (drying_pills hs). 0 < width p \<and> left p + width p \<le> length hs * slotWidth)"
proof
  have "sorted_wrt (\<lambda>r r'. left (mk_pill hs r) + width (mk_pill hs r) < left (mk_pill hs r'))
          (good_runs (map is_good hs))"
    by (rule sorted_wrt_mono_rel [OF _ good_runs_sorted]) (simp add: run_gap_def slotWidth_def)
  then show "sorted_wrt (\<lambda>p q. left p + width p < left q) (drying_pills hs)"
    by (simp add: drying_pills_runs sorted_wrt_map)
next
  show "\<forall>p \<in> set (drying_pills hs). 0 < width p \<and> left p + width p \<le> length hs * slotWidth"
    using good_runs_bounds [of _ "map is_good hs"]
    by (fastforce simp: drying_pills_runs slotWidth_def)
qed

text \<open>
  C6: the label of every pill is the display time of its first hour, \<open>' - '\<close>, and
  the display time of the hour right after the run, \<open>processedHourly[startIdx + length]\<close>;
  a pill that reaches the end of the timeline has no such hour, and its end is
  \<open>parseInt(startTime) + length\<close> followed by \<open>:00\<close>, unpadded (\<open>NaN:00\<close> when the
  start does not parse).
\<close>

theorem pill_labels:
  assumes "p \<in> set (drying_pills hs)"
  shows "\<exists>s k. 0 < k \<and> s + k \<le> length hs \<and> left p = s * 120 \<and> width p = k * 120 \<and>
           label p = timeDisplay (hs ! s) @ '' - '' @
             (if s + k < length hs then timeDisplay (hs ! (s + k))
              else js_num_str (map_option (\<lambda>n. n + int k) (js_parse_int (timeDisplay (hs ! s)))) @ '':00'')"
proof -
  from assms obtain s k where r: "(s, k) \<in> set (good_runs (map is_good hs))" and p: "p = mk_pill hs (s, k)"
    by (auto simp: drying_pills_runs)
  from good_runs_bounds [OF r] have "0 < k" "s + k \<le> length hs" by simp_all
  then show ?thesis using p
    by (intro exI [of _ s] exI [of _ k]) (simp add: mk_pill_def close_pill_def pill_end_time_def slotWidth_def js_at_conv)
qed

theorem pills_ordered_witness:
  "sorted_wrt (\<lambda>p q. left p + width p < left q) (drying_pills (processedHourly demo_samples)) \<and>
   list_all (\<lambda>p. 0 < width p \<and> left p + width p \<le> length (processedHourly demo_samples) * slotWidth)
     (drying_pills (processedHourly demo_samples))"
  using pills_ordered [of "processedHourly demo_samples"] by (simp add: list_all_iff)

theorem pills_cover_good_hours_witness:
  "(\<exists>p \<in> set (drying_pills (processedHourly demo_samples)).
      left p \<le> 2 * slotWidth \<and> 2 * slotWidth < left p + width p)
   \<longleftrightarrow> status (processedHourly demo_samples ! 2) = Good"
proof -
  have "2 < length (processedHourly demo_samples)"
    by (simp add: demo_samples_def processedHourly_def)
  then show ?thesis by (rule pills_cover_good_hours)
qed

text \<open>
  The example of the specification. For the statuses poor, good, good, poor, good
  the loop emits two pills, at index 1 of length 2 and at index 4 of length 1. The
  first ends at the display time of the hour after it (\<open>11:00\<close>); the second reaches
  the end of the array, so its end is synthesised as \<open>parseInt(''12:00'') + 1\<close>
  followed by \<open>:00\<close>.
\<close>

lemma pills_spec_example:
  "drying_pills (processedHourly demo_samples) =
     [\<lparr>left = 120, width = 240, label = ''09:00 - 11:00'', isLong = True\<rparr>,
      \<lparr>left = 480, width = 120, label = ''12:00 - 13:00'', isLong = False\<rparr>]"
  by (simp add: demo_samples_def drying_pills_def hour_eval_defs pill_step_def close_pill_def
        pill_end_time_def slotWidth_def enumerate_simps js_defs)

theorem pill_labels_witness:
  "\<lparr>left = 480, width = 120, label = ''12:00 - 13:00'', isLong = False\<rparr> \<in> set (drying_pills (processedHourly demo_samples)) \<and>
   (\<exists>s k. 0 < k \<and> s + k \<le> length (processedHourly demo_samples) \<and> (480::nat) = s * 120 \<and> (120::nat) = k * 120 \<and>
      ''12:00 - 13:00'' = timeDisplay (processedHourly demo_samples ! s) @ '' - '' @
        (if s + k < length (processedHourly demo_samples) then timeDisplay (processedHourly demo_samples ! (s + k))
         else js_num_str (map_option (\<lambda>n. n + int k) (js_parse_int (timeDisplay (processedHourly demo_samples ! s)))) @ '':00''))"
  using pill_labels [of "\<lparr>left = 480, width = 120, label = ''12:00 - 13:00'', isLong = False\<rparr>" "processedHourly demo_samples"]
  by (simp add: pills_spec_example)

end
