(* ===== verification/Recommend.thy ===== *)
theory Recommend
  imports Daily
begin

text \<open>
  The recommendation of a day (\<open>src/weather/app.js\<close>, lines 230--235): the text and
  colour start as ``not suitable'' in red and are overwritten by the first branch that
  applies: a maximal rain probability above 50 (rain risk, blue), then a daily score of
  at least 70 (very suitable, green), then at least 30 (suitable, orange). The maximal
  rain probability of a day without samples is \<open>-Infinity\<close> (\<open>None\<close>), for which the
  rain test is false. The four texts are the Chinese strings of the source, kept as their
  UTF-8 bytes in \<open>rec_text\<close>.
\<close>

datatype recommendation = NotSuitable | RainRisk | VerySuitable | Suitable

text \<open>The strings of the source: \<open>NotSuitable\<close> is the UTF-8 encoding of the source's
  ``not suitable for drying'', \<open>RainRisk\<close> ``risk of rain'', \<open>VerySuitable\<close> ``very
  suitable'', \<open>Suitable\<close> ``can be dried''.\<close>

primrec rec_text :: "recommendation \<Rightarrow> js_string" where
  "rec_text NotSuitable = [CHR 0xE4, CHR 0xB8, CHR 0x8D, CHR 0xE9, CHR 0x80, CHR 0x82, CHR 0xE5,
     CHR 0x90, CHR 0x88, CHR 0xE6, CHR 0x99, CHR 0xBE, CHR 0xE6, CHR 0x99, CHR 0x92]"
| "rec_text RainRisk = [CHR 0xE6, CHR 0x9C, CHR 0x89, CHR 0xE9, CHR 0x9B, CHR 0xA8, CHR 0xE9,
     CHR 0xA3, CHR 0x8E, CHR 0xE9, CHR 0x99, CHR 0xA9]"
| "rec_text VerySuitable = [CHR 0xE9, CHR 0x9D, CHR 0x9E, CHR 0xE5, CHR 0xB8, CHR 0xB8, CHR 0xE9,
     CHR 0x80, CHR 0x82, CHR 0xE5, CHR 0x90, CHR 0x88]"
| "rec_text Suitable = [CHR 0xE5, CHR 0x8F, CHR 0xAF, CHR 0xE4, CHR 0xBB, CHR 0xA5, CHR 0xE6,
     CHR 0x99, CHR 0xBE, CHR 0xE6, CHR 0x99, CHR 0x92]"

definition recommend :: "real \<Rightarrow> real option \<Rightarrow> recommendation \<times> color" where
  "recommend dryIdx maxR =
     (if ext_gt maxR 50 then (RainRisk, Blue)
      else if 70 \<le> dryIdx then (VerySuitable, Green)
      else if 30 \<le> dryIdx then (Suitable, Orange)
      else (NotSuitable, Red))"

lemma rec_text_inj: "rec_text a = rec_text b \<longleftrightarrow> a = b"
  by (cases a; cases b) simp_all

text \<open>
  C12: a maximal rain probability above 50 yields ``rain risk'' in blue whatever the
  day's score (the specification's example: score 90, rain 60).
\<close>

theorem rain_overrides_score:
  assumes "50 < r"
  shows "recommend s (Some r) = (RainRisk, Blue)"
  using assms by (simp add: recommend_def ext_gt_def)

theorem rain_overrides_score_witness: "recommend 90 (Some 60) = (RainRisk, Blue)"
  by (rule rain_overrides_score) simp

end
