(* ===== verification/DateLabel.thy ===== *)
theory DateLabel
  imports Prelude
begin

text \<open>
  \<open>formatDateDisplay\<close> of \<open>src/weather/app.js\<close> (lines 260--265). The code parses the
  daily date string with \<open>new Date(dateStr)\<close>, which reads a date-only ISO string
  \<open>YYYY-MM-DD\<close> as midnight UTC, and then reads the day and month in the device's
  local time zone; it answers ``today'' when the local day of the month equals that of
  \<open>new Date()\<close>, and otherwise the month and day. The model takes the two ambient
  inputs as parameters: the local UTC offset in minutes (east positive, assumed between
  \<open>-1440\<close> and \<open>1440\<close>, which covers every real zone) and the local day of the month
  of the current time. A string that is not a valid date (and \<open>undefined\<close>) gives an
  invalid date, printed \<open>NaN\<close> month \<open>NaN\<close> day.
\<close>

record ymd =
  year :: int
  month :: nat
  mday :: nat

definition leap_year :: "int \<Rightarrow> bool" where
  "leap_year yr \<longleftrightarrow> (4 dvd yr \<and> \<not> 100 dvd yr) \<or> 400 dvd yr"

definition days_in_month :: "int \<Rightarrow> nat \<Rightarrow> nat" where
  "days_in_month yr mo =
     (if mo = 2 then (if leap_year yr then 29 else 28)
      else if mo \<in> {4, 6, 9, 11} then 30 else 31)"

definition digits_nat :: "js_string \<Rightarrow> nat option" where
  "digits_nat s =
     (if s \<noteq> [] \<and> length (digit_run 10 s) = length s then Some (digits_value 10 (digit_run 10 s))
      else None)"

text \<open>The date-only form of the ECMAScript date-time string format: four year digits,
  two month digits, two day digits, the day within the month.\<close>

definition parse_iso_date :: "js_string \<Rightarrow> ymd option" where
  "parse_iso_date s =
     (if length s = 10 \<and> s ! 4 = CHR ''-'' \<and> s ! 7 = CHR ''-'' then
        (case (digits_nat (take 4 s), digits_nat (take 2 (drop 5 s)), digits_nat (drop 8 s)) of
           (Some yr, Some mo, Some dy) \<Rightarrow>
             if 1 \<le> mo \<and> mo \<le> 12 \<and> 1 \<le> dy \<and> dy \<le> days_in_month (int yr) mo
             then Some \<lparr>year = int yr, month = mo, mday = dy\<rparr> else None
         | _ \<Rightarrow> None)
      else None)"

definition prev_day :: "ymd \<Rightarrow> ymd" where
  "prev_day t =
     (if 1 < mday t then t\<lparr>mday := mday t - 1\<rparr>
      else if 1 < month t then \<lparr>year = year t, month = month t - 1, mday = days_in_month (year t) (month t - 1)\<rparr>
      else \<lparr>year = year t - 1, month = 12, mday = 31\<rparr>)"

text \<open>The local calendar date of midnight UTC of the given date.\<close>

definition local_date :: "int \<Rightarrow> ymd \<Rightarrow> ymd" where
  "local_date tz t = (if tz < 0 then prev_day t else t)"

definition valid_ymd :: "ymd \<Rightarrow> bool" where
  "valid_ymd t \<longleftrightarrow> 1 \<le> month t \<and> month t \<le> 12 \<and> 1 \<le> mday t \<and> mday t \<le> days_in_month (year t) (month t)"

datatype date_display = Today | MonthDay nat nat | InvalidDate

definition formatDateDisplay :: "int \<Rightarrow> nat \<Rightarrow> js_string option \<Rightarrow> date_display" where
  "formatDateDisplay tz nowDay dateStr =
     (case dateStr of
        None \<Rightarrow> InvalidDate
      | Some s \<Rightarrow>
          (case parse_iso_date s of
             None \<Rightarrow> InvalidDate
           | Some t \<Rightarrow> let ld = local_date tz t
                       in if mday ld = nowDay then Today else MonthDay (month ld) (mday ld)))"

text \<open>The string the page shows: the UTF-8 bytes of ``today'', or month, the month
  character, day and the day character.\<close>

definition render_date :: "date_display \<Rightarrow> js_string" where
  "render_date dd =
     (let yue = [CHR 0xE6, CHR 0x9C, CHR 0x88]; ri = [CHR 0xE6, CHR 0x97, CHR 0xA5]
      in case dd of
           Today \<Rightarrow> [CHR 0xE4, CHR 0xBB, CHR 0x8A, CHR 0xE5, CHR 0xA4, CHR 0xA9]
         | MonthDay mo dy \<Rightarrow> show_nat mo @ yue @ show_nat dy @ ri
         | InvalidDate \<Rightarrow> ''NaN'' @ yue @ ''NaN'' @ ri)"

lemma days_in_month_pos: "0 < days_in_month yr mo"
  by (simp add: days_in_month_def)

lemma days_in_month_12 [simp]: "days_in_month yr 12 = 31"
  by (simp add: days_in_month_def)

lemma prev_day_valid:
  assumes "valid_ymd t"
  shows "valid_ymd (prev_day t)"
proof (cases "1 < mday t")
  case True
  with assms show ?thesis by (auto simp: valid_ymd_def prev_day_def)
next
  case False
  show ?thesis
  proof (cases "1 < month t")
    case True
    have "prev_day t = \<lparr>year = year t, month = month t - 1, mday = days_in_month (year t) (month t - 1)\<rparr>"
      using False True by (simp add: prev_day_def)
    moreover have "1 \<le> days_in_month (year t) (month t - 1)"
      using days_in_month_pos by (simp add: Suc_le_eq)
    ultimately show ?thesis
      using True assms by (auto simp: valid_ymd_def)
  next
    case False
    with \<open>\<not> 1 < mday t\<close> show ?thesis by (simp add: valid_ymd_def prev_day_def)
  qed
qed

lemma parse_iso_date_valid: "parse_iso_date s = Some t \<Longrightarrow> valid_ymd t"
  by (auto simp: parse_iso_date_def valid_ymd_def split: if_splits option.splits)
lemma parse_iso_date_2024_05_01: "parse_iso_date ''2024-05-01'' = Some \<lparr>year = 2024, month = 5, mday = 1\<rparr>"
  by (simp add: parse_iso_date_def digits_nat_def days_in_month_def leap_year_def js_defs)

lemma parse_iso_date_2024_06_15: "parse_iso_date ''2024-06-15'' = Some \<lparr>year = 2024, month = 6, mday = 15\<rparr>"
  by (simp add: parse_iso_date_def digits_nat_def days_in_month_def leap_year_def js_defs)

subsection \<open>Properties\<close>

text \<open>
  C29: at or east of UTC the label of a valid date is ``today'' exactly when its day of
  the month equals the current local day of the month, and otherwise its own month and
  day: the comparison ignores month and year, so a date one month ahead with the same
  day number is also labelled ``today'' (the ambiguity the specification records).
\<close>

theorem date_label_east_of_utc:
  assumes "0 \<le> tz" "parse_iso_date s = Some t"
  shows "formatDateDisplay tz nowDay (Some s) =
           (if mday t = nowDay then Today else MonthDay (month t) (mday t))"
  using assms by (simp add: formatDateDisplay_def local_date_def Let_def)

theorem date_label_east_of_utc_witness:
  "formatDateDisplay 480 15 (Some ''2024-06-15'') = Today"
  using date_label_east_of_utc [OF _ parse_iso_date_2024_06_15, of 480 15] by simp

text \<open>
  C30: west of UTC the label is that of the previous day: \<open>new Date(''YYYY-MM-DD'')\<close>
  is midnight UTC, which is still the previous evening in local time. On 1 May in a
  zone at UTC-5, the entry for 1 May is labelled 30 April instead of ``today''.
\<close>

theorem date_label_west_of_utc:
  assumes "tz < 0" "parse_iso_date s = Some t"
  shows "formatDateDisplay tz nowDay (Some s) =
           (if mday (prev_day t) = nowDay then Today else MonthDay (month (prev_day t)) (mday (prev_day t)))"
  using assms by (simp add: formatDateDisplay_def local_date_def Let_def)

theorem date_label_west_of_utc_witness:
  "formatDateDisplay (-300) 1 (Some ''2024-05-01'') = MonthDay 4 30"
  using date_label_west_of_utc [OF _ parse_iso_date_2024_05_01, of "-300" 1]
  by (simp add: prev_day_def days_in_month_def)

end
