(* ===== verification/Forecast.thy ===== *)
theory Forecast
  imports Pills Recommend DateLabel
begin

text \<open>
  The whole of \<open>processForecast\<close> (\<open>src/weather/app.js\<close>, lines 91--256): the hourly
  samples are normalised once, then the loop \<open>for (let i = 0; i < 5; i++)\<close> builds one
  forecast record per day from the samples of that day: the averages and the daily
  score (\<open>Daily\<close>), the phase colours (\<open>Phases\<close>, for every day), the hourly display
  records and the pills (\<open>Hourly\<close>, \<open>Pills\<close>, for day 0 only), the recommendation
  (\<open>Recommend\<close>), the date label (\<open>DateLabel\<close>) and the day's extreme temperatures read
  from the daily series. The loop runs exactly five times whatever the length of
  \<open>daily.time\<close>: an index past its end reads \<open>undefined\<close>, whose date string is
  \<open>''undefined''\<close> for \<open>startsWith\<close>. Reading a daily array that is missing throws a
  \<open>TypeError\<close>, which escapes \<open>processForecast\<close>.
\<close>

record forecast =
  date :: "js_string option"
  dateDisplay :: date_display
  drying_index :: real
  drying_index_display :: int
  avg_temp_display :: js_string
  avg_humidity_display :: int
  avg_wind_display :: js_string
  rain_probability_display :: "int option"
  fc_recommendation :: recommendation
  fc_color :: color
  phases :: phase_data
  hourly_data :: "hour_rec list"
  drying_pills_data :: "pill list"
  temp_max :: "real option"
  temp_min :: "real option"

text \<open>\<open>h.time.startsWith(dayStr)\<close> converts an \<open>undefined\<close> \<open>dayStr\<close> to a string.\<close>

definition day_key :: "js_string option \<Rightarrow> js_string" where
  "day_key v = (case v of None \<Rightarrow> ''undefined'' | Some s \<Rightarrow> s)"

text \<open>The object the loop pushes for day \<open>i\<close> (lines 110--253), given the values read
  from the daily series; \<open>tz\<close> and \<open>nowDay\<close> are the ambient inputs of
  \<open>formatDateDisplay\<close>.\<close>

definition build_forecast :: "int \<Rightarrow> nat \<Rightarrow> hourly_obj list \<Rightarrow> nat \<Rightarrow> js_string option \<Rightarrow>
    real option \<Rightarrow> real option \<Rightarrow> forecast" where
  "build_forecast tz nowDay hs i dayStr tmax tmin =
     (let dayHourly = dayHourlyData (day_key dayStr) hs;
          st = day_stats dayHourly;
          dryingIndex = daily_drying_index st;
          phaseD = phaseData dayHourly;
          processed = (if i = 0 then processedHourly dayHourly else []);
          pills = (if i = 0 then drying_pills processed else []);
          rc = recommend dryingIndex (maxRain st)
      in \<lparr>date = dayStr, dateDisplay = formatDateDisplay tz nowDay dayStr,
          drying_index = dryingIndex, drying_index_display = js_round dryingIndex,
          avg_temp_display = to_fixed1 (avgTemp st), avg_humidity_display = js_round (avgHum st),
          avg_wind_display = to_fixed1 (avgWind st),
          rain_probability_display = map_option js_round (maxRain st),
          fc_recommendation = fst rc, fc_color = snd rc, phases = phaseD,
          hourly_data = processed, drying_pills_data = pills, temp_max = tmax, temp_min = tmin\<rparr>)"

text \<open>One iteration of the day loop: the reads of \<open>daily.time[i]\<close>,
  \<open>daily.temperature_2m_max[i]\<close> and \<open>daily.temperature_2m_min[i]\<close>, each of which
  throws when its array is missing. (The computation between them is pure, so reading
  the two temperature arrays before building the record is unobservable.)\<close>

definition forecast_day :: "int \<Rightarrow> nat \<Rightarrow> daily_raw \<Rightarrow> hourly_obj list \<Rightarrow> nat \<Rightarrow> js_error + forecast" where
  "forecast_day tz nowDay dl hs i =
     ebind (read_field (daily_time dl) i) (\<lambda>dayStr.
     ebind (read_field (temperature_2m_max dl) i) (\<lambda>tmax.
     ebind (read_field (temperature_2m_min dl) i) (\<lambda>tmin.
       Inr (build_forecast tz nowDay hs i dayStr tmax tmin))))"

definition processForecast :: "int \<Rightarrow> nat \<Rightarrow> weather_data \<Rightarrow> js_error + forecast list" where
  "processForecast tz nowDay data =
     (let dl = daily_or_empty data
      in ebind (hourlyObjs (hourly_or_empty data)) (\<lambda>hs. emap (forecast_day tz nowDay dl hs) [0..<5]))"

text \<open>Well-shaped daily input: the three daily arrays are present.\<close>

definition daily_wf :: "daily_raw \<Rightarrow> bool" where
  "daily_wf dl \<longleftrightarrow> daily_time dl \<noteq> None \<and> temperature_2m_max dl \<noteq> None \<and> temperature_2m_min dl \<noteq> None"

text \<open>The record one iteration builds on well-shaped daily input.\<close>

definition day_record :: "int \<Rightarrow> nat \<Rightarrow> daily_raw \<Rightarrow> hourly_obj list \<Rightarrow> nat \<Rightarrow> forecast" where
  "day_record tz nowDay dl hs i =
     build_forecast tz nowDay hs i (js_at (the (daily_time dl)) i)
       (js_at (the (temperature_2m_max dl)) i) (js_at (the (temperature_2m_min dl)) i)"

lemma read_field_Some: "arr = Some xs \<Longrightarrow> read_field arr i = Inr (js_at xs i)"
  by (simp add: read_field_def)

lemma read_field_None: "read_field None i = Inl TypeError"
  by (simp add: read_field_def)

lemma forecast_day_wf:
  assumes "daily_wf dl"
  shows "forecast_day tz nowDay dl hs i = Inr (day_record tz nowDay dl hs i)"
  using assms by (auto simp: daily_wf_def day_record_def forecast_day_def read_field_def)

lemma build_forecast_fields:
  "date (build_forecast tz nowDay hs i ds tmax tmin) = ds"
  "drying_index (build_forecast tz nowDay hs i ds tmax tmin)
     = daily_drying_index (day_stats (dayHourlyData (day_key ds) hs))"
  "hourly_data (build_forecast tz nowDay hs i ds tmax tmin)
     = (if i = 0 then processedHourly (dayHourlyData (day_key ds) hs) else [])"
  "drying_pills_data (build_forecast tz nowDay hs i ds tmax tmin)
     = (if i = 0 then drying_pills (processedHourly (dayHourlyData (day_key ds) hs)) else [])"
  "rain_probability_display (build_forecast tz nowDay hs i ds tmax tmin)
     = map_option js_round (maxRain (day_stats (dayHourlyData (day_key ds) hs)))"
  "phases (build_forecast tz nowDay hs i ds tmax tmin) = phaseData (dayHourlyData (day_key ds) hs)"
  "fc_recommendation (build_forecast tz nowDay hs i ds tmax tmin)
     = fst (recommend (daily_drying_index (day_stats (dayHourlyData (day_key ds) hs)))
                      (maxRain (day_stats (dayHourlyData (day_key ds) hs))))"
  "fc_color (build_forecast tz nowDay hs i ds tmax tmin)
     = snd (recommend (daily_drying_index (day_stats (dayHourlyData (day_key ds) hs)))
                      (maxRain (day_stats (dayHourlyData (day_key ds) hs))))"
  "temp_max (build_forecast tz nowDay hs i ds tmax tmin) = tmax"
  "temp_min (build_forecast tz nowDay hs i ds tmax tmin) = tmin"
  by (simp_all add: build_forecast_def Let_def)

lemma processForecast_wf:
  assumes "hourly_wf (hourly_or_empty data)" "hourly_time (hourly_or_empty data) = Some ts"
    and "daily_wf (daily_or_empty data)"
  shows "processForecast tz nowDay data
           = Inr (map (day_record tz nowDay (daily_or_empty data) (map (sample_at (hourly_or_empty data) ts) [0..<length ts])) [0..<5])"
  using assms
  by (simp add: processForecast_def hourlyObjs_wf emap_all_Inr forecast_day_wf)

lemma forecast_day_Inr_wf: "forecast_day tz nowDay dl hs i = Inr f \<Longrightarrow> daily_wf dl"
  by (auto simp: forecast_day_def read_field_def daily_wf_def split: option.splits)

lemma processForecast_Inr:
  assumes "processForecast tz nowDay data = Inr fs"
  obtains hs where "hourlyObjs (hourly_or_empty data) = Inr hs" "daily_wf (daily_or_empty data)"
    "fs = map (day_record tz nowDay (daily_or_empty data) hs) [0..<5]"
proof -
  from assms obtain hs where hs: "hourlyObjs (hourly_or_empty data) = Inr hs"
    and em: "emap (forecast_day tz nowDay (daily_or_empty data) hs) [0..<5] = Inr fs"
    by (auto simp: processForecast_def ebind_eq_Inr_iff)
  from em have all: "list_all2 (\<lambda>i f. forecast_day tz nowDay (daily_or_empty data) hs i = Inr f) [0..<5] fs"
    by (simp add: emap_Inr_iff)
  then have "length fs = 5" by (auto dest: list_all2_lengthD)
  with all have "forecast_day tz nowDay (daily_or_empty data) hs 0 = Inr (fs ! 0)"
    by (auto simp: list_all2_conv_all_nth)
  then have wf: "daily_wf (daily_or_empty data)" by (rule forecast_day_Inr_wf)
  have "fs = map (day_record tz nowDay (daily_or_empty data) hs) [0..<5]"
  proof (rule nth_equalityI)
    show "length fs = length (map (day_record tz nowDay (daily_or_empty data) hs) [0..<5])"
      using \<open>length fs = 5\<close> by simp
  next
    fix i assume "i < length fs"
    with all wf show "fs ! i = map (day_record tz nowDay (daily_or_empty data) hs) [0..<5] ! i"
      by (auto simp: list_all2_conv_all_nth forecast_day_wf)
  qed
  with hs wf show ?thesis by (rule that)
qed

lemma day_record_fields:
  "date (day_record tz nowDay dl hs i) = js_at (the (daily_time dl)) i"
  "drying_index (day_record tz nowDay dl hs i)
     = daily_drying_index (day_stats (dayHourlyData (day_key (date (day_record tz nowDay dl hs i))) hs))"
  "hourly_data (day_record tz nowDay dl hs i)
     = (if i = 0 then processedHourly (dayHourlyData (day_key (date (day_record tz nowDay dl hs i))) hs) else [])"
  "drying_pills_data (day_record tz nowDay dl hs i)
     = (if i = 0 then drying_pills (hourly_data (day_record tz nowDay dl hs i)) else [])"
  "rain_probability_display (day_record tz nowDay dl hs i)
     = map_option js_round (maxRain (day_stats (dayHourlyData (day_key (date (day_record tz nowDay dl hs i))) hs)))"
  "phases (day_record tz nowDay dl hs i) = phaseData (dayHourlyData (day_key (date (day_record tz nowDay dl hs i))) hs)"
  "fc_recommendation (day_record tz nowDay dl hs i)
     = fst (recommend (drying_index (day_record tz nowDay dl hs i))
         (maxRain (day_stats (dayHourlyData (day_key (date (day_record tz nowDay dl hs i))) hs))))"
  "fc_color (day_record tz nowDay dl hs i)
     = snd (recommend (drying_index (day_record tz nowDay dl hs i))
         (maxRain (day_stats (dayHourlyData (day_key (date (day_record tz nowDay dl hs i))) hs))))"
  "drying_index_display (day_record tz nowDay dl hs i) = js_round (drying_index (day_record tz nowDay dl hs i))"
  by (simp_all add: day_record_def build_forecast_fields) (simp add: build_forecast_def Let_def)

lemma processForecast_missing_max:
  assumes "hourlyObjs (hourly_or_empty data) = Inr hs" "temperature_2m_max (daily_or_empty data) = None"
  shows "processForecast tz nowDay data = Inl TypeError"
proof -
  have "forecast_day tz nowDay (daily_or_empty data) hs 0 = Inl TypeError"
    using assms(2) by (cases "daily_time (daily_or_empty data)") (simp_all add: forecast_day_def read_field_def)
  moreover have "[0..<5] = 0 # [1..<5]" by (simp add: upt_rec)
  ultimately show ?thesis
    using assms(1) by (simp add: processForecast_def)
qed

end
