(* ===== verification/Fetch.thy ===== *)
theory Fetch
  imports Normalizer
begin

text \<open>
  \<open>fetchWeather(lat, lon)\<close> of \<open>src/weather/app.js\<close> (lines 29--65). It builds the
  Open-Meteo URL from an ordered parameter object, issues \<open>wx.request\<close> and returns the
  response body when the status is 200 and the body is present; on any other status, on
  an absent body and on a failed request (the rejected promise, caught) it returns the
  synthetic series of \<open>getMockWeatherData\<close>. The network is a parameter: a function
  from the URL to the outcome of the request. The coordinates are given as the strings
  \<open>`${lat}`\<close> and \<open>`${lon}`\<close> that the template interpolation produces.
\<close>

datatype wx_result = RequestFailed | Response int "weather_data option"

definition openMeteoUrl :: js_string where
  "openMeteoUrl = ''https://api.open-meteo.com/v1/forecast''"

text \<open>The \<open>params\<close> object, in the order of its keys.\<close>

definition weather_params :: "js_string \<Rightarrow> js_string \<Rightarrow> (js_string \<times> js_string) list" where
  "weather_params lat lon =
     [(''latitude'', lat), (''longitude'', lon),
      (''hourly'', ''temperature_2m,relative_humidity_2m,wind_speed_10m,cloud_cover,precipitation_probability,uv_index''),
      (''daily'', ''temperature_2m_max,temperature_2m_min,precipitation_sum,uv_index_max''),
      (''timezone'', ''auto''), (''forecast_days'', ''5'')]"

text \<open>\<open>arr.join(sep)\<close>.\<close>

fun js_join :: "js_string \<Rightarrow> js_string list \<Rightarrow> js_string" where
  "js_join sep [] = []"
| "js_join sep [x] = x"
| "js_join sep (x # xs) = x @ sep @ js_join sep xs"

definition query_string :: "(js_string \<times> js_string) list \<Rightarrow> js_string" where
  "query_string ps = js_join ''&'' (map (\<lambda>(k, v). k @ ''='' @ v) ps)"

definition weather_url :: "js_string \<Rightarrow> js_string \<Rightarrow> js_string" where
  "weather_url lat lon = openMeteoUrl @ ''?'' @ query_string (weather_params lat lon)"

definition fetchWeather ::
    "(js_string \<Rightarrow> wx_result) \<Rightarrow> weather_data \<Rightarrow> js_string \<Rightarrow> js_string \<Rightarrow> weather_data" where
  "fetchWeather request mock lat lon =
     (case request (weather_url lat lon) of
        RequestFailed \<Rightarrow> mock
      | Response statusCode body \<Rightarrow>
          (case body of Some d \<Rightarrow> if statusCode = 200 then d else mock | None \<Rightarrow> mock))"

subsection \<open>Properties\<close>

text \<open>
  \<open>fetchWeather\<close> never fails: it returns the response body exactly when the
  request answered status 200 with a body, and the fallback series in every other case.
\<close>

lemma fetchWeather_result:
  "fetchWeather request mock lat lon =
     (if \<exists>d. request (weather_url lat lon) = Response 200 (Some d)
      then the (case request (weather_url lat lon) of Response _ b \<Rightarrow> b | RequestFailed \<Rightarrow> None)
      else mock)"
  by (cases "request (weather_url lat lon)") (auto simp: fetchWeather_def split: option.splits)

text \<open>
  The URL requested for Beijing's default coordinates: the six parameters in the
  order of the \<open>params\<close> object, joined with \<open>&\<close>.
\<close>

lemma weather_url_example:
  "weather_url ''39.9'' ''116.4'' =
     ''https://api.open-meteo.com/v1/forecast?latitude=39.9&longitude=116.4&hourly=temperature_2m,relative_humidity_2m,wind_speed_10m,cloud_cover,precipitation_probability,uv_index&daily=temperature_2m_max,temperature_2m_min,precipitation_sum,uv_index_max&timezone=auto&forecast_days=5''"
  by (simp add: weather_url_def openMeteoUrl_def query_string_def weather_params_def)

end
