(* ===== verification/IndexPage.thy ===== *)
theory IndexPage
  imports Forecast Fetch
begin

text \<open>
  The index page, \<open>src/weather/pages/index/index.js\<close>. The page data is a record;
  \<open>onLoad\<close> reads the stored location, or asks \<open>handleChooseLocation\<close>, whose picker
  outcome is an input (a chosen place is stored in the page, the storage and
  \<open>app.globalData\<close>; a cancelled pick on a page without location falls back to
  Beijing). The \<open>fetchWeather\<close> handler returns the trace of the states after each
  \<open>setData\<close>, so that the order of the updates is explicit: first
  \<open>loading: true, error: null\<close>, then, after the awaited \<open>app.fetchWeather\<close>, either
  the five forecasts with \<open>loading: false\<close> or, when \<open>processForecast\<close> throws,
  \<open>loading: false\<close> and the network-error message; without a location it does nothing.
  The awaited \<open>app.fetchWeather\<close> is a parameter (the series it resolves to); it never
  rejects, since it catches every failure itself. \<open>goToForecast\<close> hands the forecasts
  to the forecast page through \<open>app.globalData.forecastsData\<close> when there are any.
  Coordinates are kept as the strings \<open>`${lat}`\<close> and \<open>`${lon}`\<close> that
  \<open>fetchWeather\<close> interpolates.
\<close>

record location =
  lat :: js_string
  lon :: js_string
  address :: js_string

record index_data =
  ix_location :: "location option"
  todayForecast :: "forecast option"
  ix_forecasts :: "forecast list"
  loading :: bool
  ix_error :: "js_string option"

text \<open>The message of the \<open>catch\<close> branch (``network error, cannot get the weather''),
  as UTF-8 bytes.\<close>

definition network_error_msg :: js_string where
  "network_error_msg =
     [CHR 0xE7, CHR 0xBD, CHR 0x91, CHR 0xE7, CHR 0xBB, CHR 0x9C, CHR 0xE9, CHR 0x94, CHR 0x99, CHR 0xE8,
      CHR 0xAF, CHR 0xAF, CHR 0xEF, CHR 0xBC, CHR 0x8C, CHR 0xE6, CHR 0x97, CHR 0xA0, CHR 0xE6, CHR 0xB3,
      CHR 0x95, CHR 0xE8, CHR 0x8E, CHR 0xB7, CHR 0xE5, CHR 0x8F, CHR 0x96, CHR 0xE5, CHR 0xA4, CHR 0xA9,
      CHR 0xE6, CHR 0xB0, CHR 0x94]"

text \<open>\<open>fetchWeather()\<close> of the page: \<open>appFetch\<close> is the series \<open>app.fetchWeather\<close>
  resolves to for a location, \<open>tz\<close> and \<open>nowDay\<close> the ambient inputs of the date labels.
  The result is the list of states after each \<open>setData\<close>.\<close>

definition index_fetchWeather ::
    "(location \<Rightarrow> weather_data) \<Rightarrow> int \<Rightarrow> nat \<Rightarrow> index_data \<Rightarrow> index_data list" where
  "index_fetchWeather appFetch tz nowDay st =
     (case ix_location st of
        None \<Rightarrow> []
      | Some loc \<Rightarrow>
          let st1 = st\<lparr>loading := True, ix_error := None\<rparr>
          in case processForecast tz nowDay (appFetch loc) of
               Inr fs \<Rightarrow> [st1, st1\<lparr>todayForecast := js_at fs 0, ix_forecasts := fs, loading := False\<rparr>]
             | Inl _ \<Rightarrow> [st1, st1\<lparr>loading := False, ix_error := Some network_error_msg\<rparr>])"

text \<open>\<open>goToForecast()\<close>: the forecasts stored in \<open>app.globalData.forecastsData\<close> before
  switching tab, or nothing when the page has none.\<close>

definition goToForecast :: "index_data \<Rightarrow> forecast list option" where
  "goToForecast st = (if ix_forecasts st \<noteq> [] then Some (ix_forecasts st) else None)"

text \<open>The final state of a trace.\<close>

definition final_state :: "index_data \<Rightarrow> index_data list \<Rightarrow> index_data" where
  "final_state st tr = (if tr = [] then st else last tr)"

text \<open>The page data as the page opens (\<open>slotWidth\<close> is the constant of \<open>Pills\<close>).\<close>

definition index_initial :: index_data where
  "index_initial = \<lparr>ix_location = None, todayForecast = None, ix_forecasts = [], loading = False, ix_error = None\<rparr>"

text \<open>The page together with the \<open>location\<close> entry of the storage and
  \<open>app.globalData.location\<close>; the outcome of \<open>wx.chooseLocation\<close> (the coordinates as
  the strings \<open>fetchWeather\<close> interpolates, and the place name), or its cancellation.\<close>

record index_world =
  ix_page :: index_data
  ix_stored_loc :: "location option"
  ix_global_loc :: "location option"

datatype choose_result = Chosen js_string js_string js_string | Cancelled

text \<open>The default location of the \<open>fail\<close> callback; its address is ``Beijing (default)'' in
  Chinese, as UTF-8 bytes.\<close>

definition default_location :: location where
  "default_location =
     \<lparr>lat = ''39.9'', lon = ''116.4'',
      address = [CHR 0xE5, CHR 0x8C, CHR 0x97, CHR 0xE4, CHR 0xBA, CHR 0xAC, CHR '' '', CHR ''('', CHR 0xE9,
                 CHR 0xBB, CHR 0x98, CHR 0xE8, CHR 0xAE, CHR 0xA4, CHR '')'']\<rparr>"

text \<open>\<open>this.fetchWeather()\<close> run to its end, as the callers leave it.\<close>

definition run_fetch :: "(location \<Rightarrow> weather_data) \<Rightarrow> int \<Rightarrow> nat \<Rightarrow> index_world \<Rightarrow> index_world" where
  "run_fetch appFetch tz nowDay w =
     w\<lparr>ix_page := final_state (ix_page w) (index_fetchWeather appFetch tz nowDay (ix_page w))\<rparr>"

definition handleChooseLocation ::
    "(location \<Rightarrow> weather_data) \<Rightarrow> int \<Rightarrow> nat \<Rightarrow> choose_result \<Rightarrow> index_world \<Rightarrow> index_world" where
  "handleChooseLocation appFetch tz nowDay res w =
     (case res of
        Chosen la lo nm \<Rightarrow>
          let loc = \<lparr>lat = la, lon = lo, address = nm\<rparr>
          in run_fetch appFetch tz nowDay
               (w\<lparr>ix_page := (ix_page w)\<lparr>ix_location := Some loc\<rparr>, ix_stored_loc := Some loc, ix_global_loc := Some loc\<rparr>)
      | Cancelled \<Rightarrow>
          if ix_location (ix_page w) = None
          then run_fetch appFetch tz nowDay (w\<lparr>ix_page := (ix_page w)\<lparr>ix_location := Some default_location\<rparr>\<rparr>)
          else w)"

definition index_onLoad ::
    "(location \<Rightarrow> weather_data) \<Rightarrow> int \<Rightarrow> nat \<Rightarrow> choose_result \<Rightarrow> index_world \<Rightarrow> index_world" where
  "index_onLoad appFetch tz nowDay res w =
     (case ix_stored_loc w of
        Some loc \<Rightarrow> run_fetch appFetch tz nowDay (w\<lparr>ix_page := (ix_page w)\<lparr>ix_location := Some loc\<rparr>\<rparr>)
      | None \<Rightarrow> handleChooseLocation appFetch tz nowDay res w)"

lemma final_state_fetch:
  assumes "ix_location st = Some loc"
  shows "final_state st (index_fetchWeather appFetch tz nowDay st) =
           (case processForecast tz nowDay (appFetch loc) of
              Inr fs \<Rightarrow> st\<lparr>todayForecast := js_at fs 0, ix_forecasts := fs, loading := False, ix_error := None\<rparr>
            | Inl e \<Rightarrow> st\<lparr>loading := False, ix_error := Some network_error_msg\<rparr>)"
  using assms by (simp add: index_fetchWeather_def final_state_def Let_def split: sum.split)

subsection \<open>Properties\<close>

text \<open>
  C32: with a location, the handler performs exactly two updates: the first sets the
  loading flag and clears the error, the second clears the loading flag again, so the
  page never stays in the loading state; without a location it performs none.
\<close>

theorem index_fetch_trace:
  "(ix_location st = None \<longrightarrow> index_fetchWeather appFetch tz nowDay st = []) \<and>
   (ix_location st \<noteq> None \<longrightarrow>
      length (index_fetchWeather appFetch tz nowDay st) = 2 \<and>
      loading (hd (index_fetchWeather appFetch tz nowDay st)) \<and>
      ix_error (hd (index_fetchWeather appFetch tz nowDay st)) = None \<and>
      \<not> loading (last (index_fetchWeather appFetch tz nowDay st)))"
  by (auto simp: index_fetchWeather_def Let_def split: sum.splits)

text \<open>
  When \<open>processForecast\<close> throws on the series the app returned, the page ends with
  the network-error message and keeps its previous forecasts; when it returns, the page
  shows its five forecasts, day 0 as today's, and no error.
\<close>

lemma index_fetch_outcome:
  assumes "ix_location st = Some loc"
  shows "(processForecast tz nowDay (appFetch loc) = Inl e \<longrightarrow>
            final_state st (index_fetchWeather appFetch tz nowDay st)
              = st\<lparr>loading := False, ix_error := Some network_error_msg\<rparr>) \<and>
         (processForecast tz nowDay (appFetch loc) = Inr fs \<longrightarrow>
            final_state st (index_fetchWeather appFetch tz nowDay st)
              = st\<lparr>todayForecast := js_at fs 0, ix_forecasts := fs, loading := False, ix_error := None\<rparr>)"
  by (simp add: final_state_fetch [OF assms])


text \<open>After a run of the handler from a page that is not loading and has no forecasts:
  a location, no loading flag, and either the forecasts or the error message.\<close>

lemma run_fetch_settles:
  assumes "ix_location (ix_page w) = Some loc" "ix_forecasts (ix_page w) = []"
  shows "ix_location (ix_page (run_fetch appFetch tz nowDay w)) \<noteq> None \<and>
         \<not> loading (ix_page (run_fetch appFetch tz nowDay w)) \<and>
         (ix_error (ix_page (run_fetch appFetch tz nowDay w)) = None \<longleftrightarrow>
          ix_forecasts (ix_page (run_fetch appFetch tz nowDay w)) \<noteq> [])"
proof (cases "processForecast tz nowDay (appFetch loc)")
  case (Inl e)
  then show ?thesis using assms by (simp add: run_fetch_def final_state_fetch [OF assms(1)])
next
  case (Inr fs)
  then obtain hs where "fs = map (day_record tz nowDay (daily_or_empty (appFetch loc)) hs) [0..<5]"
    by (rule processForecast_Inr)
  then have "fs \<noteq> []" by simp
  with Inr show ?thesis using assms by (simp add: run_fetch_def final_state_fetch [OF assms(1)])
qed

text \<open>
  C33: loading the index page always settles: whether a location was stored, picked or
  the picker was cancelled, the page ends with a location, not loading, and showing
  either its forecasts or the network-error message, never both and never neither.
\<close>

theorem index_onLoad_settles:
  assumes "ix_page w = index_initial"
  shows "let p = ix_page (index_onLoad appFetch tz nowDay res w)
         in ix_location p \<noteq> None \<and> \<not> loading p \<and> (ix_error p = None \<longleftrightarrow> ix_forecasts p \<noteq> [])"
proof (cases "ix_stored_loc w")
  case (Some loc)
  then show ?thesis using run_fetch_settles [of "w\<lparr>ix_page := (ix_page w)\<lparr>ix_location := Some loc\<rparr>\<rparr>" loc]
    assms by (simp add: index_onLoad_def index_initial_def)
next
  case None
  show ?thesis
  proof (cases res)
    case (Chosen la lo nm)
    then show ?thesis using None assms
      run_fetch_settles [of "w\<lparr>ix_page := (ix_page w)\<lparr>ix_location := Some \<lparr>lat = la, lon = lo, address = nm\<rparr>\<rparr>,
         ix_stored_loc := Some \<lparr>lat = la, lon = lo, address = nm\<rparr>, ix_global_loc := Some \<lparr>lat = la, lon = lo, address = nm\<rparr>\<rparr>"]
      by (simp add: index_onLoad_def handleChooseLocation_def index_initial_def Let_def)
  next
    case Cancelled
    then show ?thesis using None assms
      run_fetch_settles [of "w\<lparr>ix_page := (ix_page w)\<lparr>ix_location := Some default_location\<rparr>\<rparr>"]
      by (simp add: index_onLoad_def handleChooseLocation_def index_initial_def)
  qed
qed

end
