(* ===== verification/JsNumber.thy ===== *)
theory JsNumber
  imports Prelude
begin

text \<open>
  JavaScript numbers with their special values, for the chart code of
  \<open>src/weather/pages/forecast/forecast.js\<close>, which computes with \<open>NaN\<close> and the
  infinities that missing data produce. A number is a finite real, \<open>NaN\<close> or a signed
  infinity; the operations follow ECMAScript (6.1.6.1) on exact reals: \<open>NaN\<close> absorbs
  every operation, \<open>\<infinity> - \<infinity>\<close>, \<open>\<infinity> \<times> 0\<close>, \<open>0 / 0\<close> and \<open>\<infinity> / \<infinity>\<close> are \<open>NaN\<close>,
  a non-zero finite number divided by zero is an infinity of its sign. Signed zero is
  not modelled (every zero is \<open>+0\<close>), nor is rounding to binary64. Also here:
  \<open>parseFloat\<close>, \<open>x.toFixed(0)\<close>, \<open>String.prototype.replace\<close> with a string pattern and
  \<open>trim\<close>, and the values a property read can give (number, string, \<open>undefined\<close>).
\<close>

datatype jsnum = Fin real | NaN | PosInf | NegInf

datatype jsval = JNum jsnum | JStr js_string | JUndef

definition signed_inf :: "bool \<Rightarrow> jsnum" where
  "signed_inf pos = (if pos then PosInf else NegInf)"

fun jn_neg :: "jsnum \<Rightarrow> jsnum" where
  "jn_neg (Fin x) = Fin (- x)"
| "jn_neg NaN = NaN"
| "jn_neg PosInf = NegInf"
| "jn_neg NegInf = PosInf"

fun jn_add :: "jsnum \<Rightarrow> jsnum \<Rightarrow> jsnum" where
  "jn_add NaN b = NaN"
| "jn_add a NaN = NaN"
| "jn_add PosInf NegInf = NaN"
| "jn_add NegInf PosInf = NaN"
| "jn_add PosInf b = PosInf"
| "jn_add NegInf b = NegInf"
| "jn_add (Fin x) PosInf = PosInf"
| "jn_add (Fin x) NegInf = NegInf"
| "jn_add (Fin x) (Fin y) = Fin (x + y)"

definition jn_sub :: "jsnum \<Rightarrow> jsnum \<Rightarrow> jsnum" where
  "jn_sub a b = jn_add a (jn_neg b)"

fun jn_mul :: "jsnum \<Rightarrow> jsnum \<Rightarrow> jsnum" where
  "jn_mul NaN b = NaN"
| "jn_mul a NaN = NaN"
| "jn_mul (Fin x) (Fin y) = Fin (x * y)"
| "jn_mul (Fin x) PosInf = (if x = 0 then NaN else signed_inf (0 < x))"
| "jn_mul (Fin x) NegInf = (if x = 0 then NaN else signed_inf (x < 0))"
| "jn_mul PosInf (Fin y) = (if y = 0 then NaN else signed_inf (0 < y))"
| "jn_mul NegInf (Fin y) = (if y = 0 then NaN else signed_inf (y < 0))"
| "jn_mul PosInf PosInf = PosInf"
| "jn_mul NegInf NegInf = PosInf"
| "jn_mul PosInf NegInf = NegInf"
| "jn_mul NegInf PosInf = NegInf"

fun jn_div :: "jsnum \<Rightarrow> jsnum \<Rightarrow> jsnum" where
  "jn_div NaN b = NaN"
| "jn_div a NaN = NaN"
| "jn_div (Fin x) (Fin y) = (if y = 0 then (if x = 0 then NaN else signed_inf (0 < x)) else Fin (x / y))"
| "jn_div (Fin x) PosInf = Fin 0"
| "jn_div (Fin x) NegInf = Fin 0"
| "jn_div PosInf (Fin y) = signed_inf (0 \<le> y)"
| "jn_div NegInf (Fin y) = signed_inf (y < 0)"
| "jn_div a b = NaN"

text \<open>\<open>Math.floor\<close>, \<open>Math.ceil\<close>; the binary \<open>Math.min\<close> and \<open>Math.max\<close>, and their
  spread forms \<open>Math.min(...xs)\<close> (\<open>+\<infinity>\<close> on no argument) and \<open>Math.max(...xs)\<close>.\<close>

fun jn_floor :: "jsnum \<Rightarrow> jsnum" where
  "jn_floor (Fin x) = Fin (of_int \<lfloor>x\<rfloor>)"
| "jn_floor a = a"

fun jn_ceil :: "jsnum \<Rightarrow> jsnum" where
  "jn_ceil (Fin x) = Fin (of_int \<lceil>x\<rceil>)"
| "jn_ceil a = a"

fun jn_min :: "jsnum \<Rightarrow> jsnum \<Rightarrow> jsnum" where
  "jn_min NaN b = NaN"
| "jn_min a NaN = NaN"
| "jn_min NegInf b = NegInf"
| "jn_min a NegInf = NegInf"
| "jn_min PosInf b = b"
| "jn_min a PosInf = a"
| "jn_min (Fin x) (Fin y) = Fin (min x y)"

fun jn_max :: "jsnum \<Rightarrow> jsnum \<Rightarrow> jsnum" where
  "jn_max NaN b = NaN"
| "jn_max a NaN = NaN"
| "jn_max PosInf b = PosInf"
| "jn_max a PosInf = PosInf"
| "jn_max NegInf b = b"
| "jn_max a NegInf = a"
| "jn_max (Fin x) (Fin y) = Fin (max x y)"

definition math_min_spread :: "jsnum list \<Rightarrow> jsnum" where
  "math_min_spread xs = foldl jn_min PosInf xs"

definition math_max_spread :: "jsnum list \<Rightarrow> jsnum" where
  "math_max_spread xs = foldl jn_max NegInf xs"

text \<open>\<open>isNaN(v)\<close> and the truthiness of a number (\<open>a || b\<close>).\<close>

definition jn_is_nan :: "jsnum \<Rightarrow> bool" where
  "jn_is_nan a \<longleftrightarrow> a = NaN"

fun jn_truthy :: "jsnum \<Rightarrow> bool" where
  "jn_truthy (Fin x) \<longleftrightarrow> x \<noteq> 0"
| "jn_truthy NaN \<longleftrightarrow> False"
| "jn_truthy PosInf \<longleftrightarrow> True"
| "jn_truthy NegInf \<longleftrightarrow> True"

definition jn_or :: "jsnum \<Rightarrow> jsnum \<Rightarrow> jsnum" where
  "jn_or a b = (if jn_truthy a then a else b)"

text \<open>\<open>x.toFixed(0)\<close> (ECMAScript 21.1.3.3, below \<open>10^21\<close>): a minus sign for negative
  \<open>x\<close>, then the integer nearest to \<open>\<bar>x\<bar>\<close>, the larger one on a tie.\<close>

fun to_fixed0 :: "jsnum \<Rightarrow> js_string" where
  "to_fixed0 (Fin x) = (if x < 0 then ''-'' else []) @ show_nat (nat \<lfloor>\<bar>x\<bar> + 1 / 2\<rfloor>)"
| "to_fixed0 NaN = ''NaN''"
| "to_fixed0 PosInf = ''Infinity''"
| "to_fixed0 NegInf = ''-Infinity''"

subsection \<open>\<open>parseFloat\<close>\<close>

text \<open>The exponent part of a \<open>StrDecimalLiteral\<close>: \<open>e\<close> or \<open>E\<close>, an optional sign and
  at least one digit; anything else contributes exponent 0 (the prefix read stops).\<close>

definition js_exponent :: "js_string \<Rightarrow> int" where
  "js_exponent r =
     (case r of
        c # r1 \<Rightarrow>
          if c = CHR ''e'' \<or> c = CHR ''E'' then
            (let (sg, r2) = (case r1 of
                               d # r3 \<Rightarrow> if d = CHR ''-'' then (-1 :: int, r3)
                                         else if d = CHR ''+'' then (1, r3) else (1, r1)
                             | [] \<Rightarrow> (1, r1));
                 ds = digit_run 10 r2
             in if ds = [] then 0 else sg * int (digits_value 10 ds))
          else 0
      | [] \<Rightarrow> 0)"

definition exp10 :: "int \<Rightarrow> real" where
  "exp10 e = (if 0 \<le> e then 10 ^ nat e else inverse (10 ^ nat (- e)))"

text \<open>\<open>parseFloat(s)\<close> (ECMAScript 19.2.4): skip leading white space, then read the
  longest prefix that is a \<open>StrDecimalLiteral\<close>: an optional sign, then
  \<open>Infinity\<close>, or digits with an optional fraction and exponent, at least one digit
  before or after the point; no such prefix gives \<open>NaN\<close>.\<close>

definition js_parse_float :: "js_string \<Rightarrow> jsnum" where
  "js_parse_float s =
     (let s1 = dropWhile js_ws s;
          (sg, s2) = (case s1 of
                        c # r \<Rightarrow> if c = CHR ''-'' then (-1 :: real, r)
                                 else if c = CHR ''+'' then (1, r) else (1, s1)
                      | [] \<Rightarrow> (1, s1))
      in if take 8 s2 = ''Infinity'' then signed_inf (0 < sg)
         else
           let ip = digit_run 10 s2; r1 = drop (length ip) s2;
               (fp, r2) = (case r1 of
                             c # r \<Rightarrow> if c = CHR ''.'' then (digit_run 10 r, drop (length (digit_run 10 r)) r)
                                      else ([], r1)
                           | [] \<Rightarrow> ([], r1))
           in if ip = [] \<and> fp = [] then NaN
              else Fin (sg * (real (digits_value 10 ip) + real (digits_value 10 fp) / 10 ^ length fp)
                        * exp10 (js_exponent r2)))"

subsection \<open>Strings\<close>

text \<open>\<open>s.replace(pat, rep)\<close> with a string pattern: the first occurrence only.\<close>

fun js_replace_first :: "js_string \<Rightarrow> js_string \<Rightarrow> js_string \<Rightarrow> js_string" where
  "js_replace_first pat rep [] = (if pat = [] then rep else [])"
| "js_replace_first pat rep (c # cs) =
     (if take (length pat) (c # cs) = pat then rep @ drop (length pat) (c # cs)
      else c # js_replace_first pat rep cs)"

definition js_trim :: "js_string \<Rightarrow> js_string" where
  "js_trim s = rev (dropWhile js_ws (rev (dropWhile js_ws s)))"

declare signed_inf_def [js_defs] jn_sub_def [js_defs] math_min_spread_def [js_defs]
  math_max_spread_def [js_defs] jn_is_nan_def [js_defs] jn_or_def [js_defs]
  js_exponent_def [js_defs] exp10_def [js_defs] js_parse_float_def [js_defs] js_trim_def [js_defs]

subsection \<open>Lemmas\<close>

lemma jn_sub_Fin [simp]: "jn_sub (Fin x) (Fin y) = Fin (x - y)"
  by (simp add: jn_sub_def)

lemma jn_sub_NaN [simp]: "jn_sub NaN b = NaN" "jn_sub a NaN = NaN"
  by (simp_all add: jn_sub_def) (cases a; simp)

lemma jn_add_NaN2 [simp]: "jn_add a NaN = NaN"
  by (cases a) simp_all

lemma jn_mul_NaN2 [simp]: "jn_mul a NaN = NaN"
  by (cases a) simp_all

lemma jn_div_NaN2 [simp]: "jn_div a NaN = NaN"
  by (cases a) simp_all

lemma jn_div_Fin_nz [simp]: "y \<noteq> 0 \<Longrightarrow> jn_div (Fin x) (Fin y) = Fin (x / y)"
  by simp

lemma jn_min_NaN2 [simp]: "jn_min a NaN = NaN"
  by (cases a) simp_all

lemma jn_max_NaN2 [simp]: "jn_max a NaN = NaN"
  by (cases a) simp_all

lemma foldl_jn_min_NaN [simp]: "foldl jn_min NaN xs = NaN"
  by (induction xs) simp_all

lemma foldl_jn_max_NaN [simp]: "foldl jn_max NaN xs = NaN"
  by (induction xs) simp_all

text \<open>On finite arguments the spread forms are the minimum and maximum of the set;
  one \<open>NaN\<close> among the arguments makes them \<open>NaN\<close>.\<close>

lemma foldl_jn_min_Fin: "foldl jn_min (Fin a) (map Fin xs) = Fin (fold min xs a)"
  by (induction xs arbitrary: a) (simp_all add: min.commute)

lemma foldl_jn_max_Fin: "foldl jn_max (Fin a) (map Fin xs) = Fin (fold max xs a)"
  by (induction xs arbitrary: a) (simp_all add: max.commute)

lemma fold_min_Min: "fold min xs (a :: real) = Min (insert a (set xs))"
  using Min.set_eq_fold [of a xs] by simp

lemma fold_max_Max: "fold max xs (a :: real) = Max (insert a (set xs))"
  using Max.set_eq_fold [of a xs] by simp

lemma math_min_spread_Fin:
  "xs \<noteq> [] \<Longrightarrow> math_min_spread (map Fin xs) = Fin (Min (set xs))"
  by (cases xs) (simp_all add: math_min_spread_def foldl_jn_min_Fin fold_min_Min)

lemma math_max_spread_Fin:
  "xs \<noteq> [] \<Longrightarrow> math_max_spread (map Fin xs) = Fin (Max (set xs))"
  by (cases xs) (simp_all add: math_max_spread_def foldl_jn_max_Fin fold_max_Max)

lemma foldl_jn_min_NaN_mem: "NaN \<in> set xs \<Longrightarrow> foldl jn_min a xs = NaN"
proof (induction xs arbitrary: a)
  case Nil
  then show ?case by simp
next
  case (Cons x xs)
  then show ?case by (cases "x = NaN") auto
qed

lemma foldl_jn_max_NaN_mem: "NaN \<in> set xs \<Longrightarrow> foldl jn_max a xs = NaN"
proof (induction xs arbitrary: a)
  case Nil
  then show ?case by simp
next
  case (Cons x xs)
  then show ?case by (cases "x = NaN") auto
qed


text \<open>\<open>parseFloat(String(i)) = i\<close> on integers.\<close>

lemma js_parse_float_show_nat_sign:
  assumes "sg \<in> {[], ''-''}"
  shows "js_parse_float (sg @ show_nat n) = Fin ((if sg = [] then 1 else -1) * real n)"
proof -
  obtain d r where hd: "show_nat n = digit_char d # r" "d < 10"
    using show_nat_hd_digit by blast
  have dc: "digit_char d \<in> set ''0123456789''" using hd(2) by (rule digit_char_cases)
  have nws: "\<not> js_ws (digit_char d)" "digit_char d \<noteq> CHR ''-''" "digit_char d \<noteq> CHR ''+''"
      "digit_char d \<noteq> CHR ''I''"
    using dc by (auto simp: js_ws_def)
  have dr: "digit_run 10 (show_nat n) = map (the \<circ> digit_val 10) (show_nat n)"
    using digit_run_show_nat [of n "[]"] by simp
  show ?thesis
    using assms nws dr digits_value_show_nat [of n]
    by (auto simp: js_parse_float_def hd js_ws_def js_exponent_def exp10_def Let_def)
qed

lemma js_parse_float_show_int: "js_parse_float (show_int i) = Fin (of_int i)"
  using js_parse_float_show_nat_sign [of "[]" "nat i"] js_parse_float_show_nat_sign [of "''-''" "nat (- i)"]
  by (auto simp: show_int_def)


text \<open>\<open>parseFloat(x.toFixed(1))\<close> is \<open>x\<close> rounded to one decimal.\<close>

lemma js_parse_float_fixed1_sign:
  assumes "sg \<in> {[], ''-''}" "d < 10"
  shows "js_parse_float (sg @ show_nat a @ ''.'' @ [digit_char d])
           = Fin ((if sg = [] then 1 else -1) * (real a + real d / 10))"
proof -
  obtain e r where hd: "show_nat a = digit_char e # r" "e < 10"
    using show_nat_hd_digit by blast
  have dc: "digit_char e \<in> set ''0123456789''" using hd(2) by (rule digit_char_cases)
  have nws: "\<not> js_ws (digit_char e)" "digit_char e \<noteq> CHR ''-''" "digit_char e \<noteq> CHR ''+''"
      "digit_char e \<noteq> CHR ''I''"
    using dc by (auto simp: js_ws_def)
  have dot: "digit_val 10 (CHR ''.'') = None" by (simp add: digit_val_def)
  have dr: "digit_run 10 (show_nat a @ ''.'' @ [digit_char d]) = map (the \<circ> digit_val 10) (show_nat a)"
    using digit_run_show_nat [of a "''.'' @ [digit_char d]"] dot by simp
  have dd: "digit_run 10 [digit_char d] = [d]" using assms(2) by simp
  have len: "length (map (the \<circ> digit_val 10) (show_nat a)) = length (show_nat a)" by simp
  show ?thesis
    using assms nws dr dd digits_value_show_nat [of a]
    by (auto simp: js_parse_float_def hd js_ws_def js_exponent_def exp10_def Let_def digits_value_def)
qed

lemma js_parse_float_to_fixed1:
  "js_parse_float (to_fixed1 x) = Fin ((if x < 0 then -1 else 1) * real (nat \<lfloor>\<bar>x\<bar> * 10 + 1 / 2\<rfloor>) / 10)"
proof -
  define n where "n = nat \<lfloor>\<bar>x\<bar> * 10 + 1 / 2\<rfloor>"
  have e: "real n = real (n div 10) * 10 + real (n mod 10)"
    by (metis div_mult_mod_eq of_nat_add of_nat_mult of_nat_numeral)
  have "real (n div 10) + real (n mod 10) / 10 = real n / 10"
    using e by (simp add: field_simps)
  then show ?thesis
    using js_parse_float_fixed1_sign [of "if x < 0 then ''-'' else []" "n mod 10" "n div 10"]
    by (simp add: to_fixed1_def n_def [symmetric] Let_def split: if_splits)
qed

end
