(* ===== verification/Charts.thy ===== *)
theory Charts
  imports Forecast JsNumber
begin

text \<open>
  The forecast page, \<open>src/weather/pages/forecast/forecast.js\<close>: \<open>onShow\<close> takes the
  forecasts the index page left in \<open>app.globalData.forecastsData\<close> and draws two
  line charts on canvases, the daily maximum and minimum temperatures
  (\<open>drawTempChart\<close>) and the rain probability and mean humidity
  (\<open>drawHumidityChart\<close>), both through \<open>drawSingleLine\<close> and \<open>drawLegend\<close>. A
  drawing is the list of the canvas-context calls it makes, in order (\<open>canvas_op\<close>);
  coordinates are JavaScript numbers, since the code computes them with \<open>NaN\<close> and
  infinities when data are missing. The size of each canvas node, the result of the
  asynchronous \<open>boundingClientRect\<close> query, is a parameter (\<open>None\<close> when the node is
  not found). A canvas ignores path and arc calls with a non-finite coordinate, so a
  point with a \<open>NaN\<close> or infinite coordinate is not drawn. The grid loops are the
  counted loop \<open>js_for_le\<close> of the prelude; \<open>goBack\<close> is with the navigation
  between the pages, in \<open>Navigation\<close>.
\<close>

datatype canvas_op =
    ClearRect real real real real
  | SetStrokeStyle js_string
  | SetLineWidth real
  | BeginPath
  | MoveTo jsnum jsnum
  | LineTo jsnum jsnum
  | Stroke
  | SetFillStyle js_string
  | SetFontSize real
  | FillText js_string jsnum jsnum
  | SetTextAlign js_string
  | Arc jsnum jsnum real real real
  | Fill
  | FillRect real real real real
  | Draw

text \<open>The four keys \<open>drawSingleLine\<close> is called with, and \<open>forecast[key]\<close>: the daily
  temperatures are \<open>undefined\<close> where the daily array was short, the rain display is
  \<open>Math.round(-Infinity)\<close> for a day without samples.\<close>

datatype forecast_key = KTempMax | KTempMin | KRainProb | KAvgHumidity

definition forecast_get :: "forecast \<Rightarrow> forecast_key \<Rightarrow> jsval" where
  "forecast_get f key =
     (case key of
        KTempMax \<Rightarrow> (case temp_max f of None \<Rightarrow> JUndef | Some x \<Rightarrow> JNum (Fin x))
      | KTempMin \<Rightarrow> (case temp_min f of None \<Rightarrow> JUndef | Some x \<Rightarrow> JNum (Fin x))
      | KRainProb \<Rightarrow> (case rain_probability_display f of None \<Rightarrow> JNum NegInf | Some k \<Rightarrow> JNum (Fin (of_int k)))
      | KAvgHumidity \<Rightarrow> JNum (Fin (of_int (avg_humidity_display f))))"

text \<open>\<open>parseFloat(v)\<close> of a property value: a number reads back as itself,
  \<open>undefined\<close> as \<open>NaN\<close>.\<close>

definition parse_float_val :: "jsval \<Rightarrow> jsnum" where
  "parse_float_val v = (case v of JNum n \<Rightarrow> n | JStr s \<Rightarrow> js_parse_float s | JUndef \<Rightarrow> NaN)"

text \<open>The value \<open>drawSingleLine\<close> plots: a string loses its first \<open>%\<close> and is parsed,
  and a value that is \<open>NaN\<close> (or \<open>undefined\<close>, for which \<open>isNaN\<close> holds) becomes
  \<open>minVal\<close>.\<close>

definition plot_value :: "jsnum \<Rightarrow> jsval \<Rightarrow> jsnum" where
  "plot_value minVal v =
     (case v of
        JNum n \<Rightarrow> if jn_is_nan n then minVal else n
      | JStr s \<Rightarrow> (let n = js_parse_float (js_replace_first ''%'' [] s) in if jn_is_nan n then minVal else n)
      | JUndef \<Rightarrow> minVal)"

text \<open>\<open>padding + chartHeight - ((val - minVal) / range) * chartHeight\<close>.\<close>

definition point_y :: "real \<Rightarrow> real \<Rightarrow> jsnum \<Rightarrow> jsnum \<Rightarrow> jsnum \<Rightarrow> jsnum" where
  "point_y padding chartHeight minVal rng val =
     jn_sub (Fin (padding + chartHeight)) (jn_mul (jn_div (jn_sub val minVal) rng) (Fin chartHeight))"

text \<open>The point of the \<open>i\<close>-th forecast, computed alike in both passes of
  \<open>drawSingleLine\<close>: equally spaced, or centred when there is one forecast.\<close>

definition line_point ::
    "forecast list \<Rightarrow> forecast_key \<Rightarrow> jsnum \<Rightarrow> jsnum \<Rightarrow> real \<Rightarrow> real \<Rightarrow> real \<Rightarrow> nat \<Rightarrow> forecast \<Rightarrow> jsnum \<times> jsnum" where
  "line_point fs key minVal rng padding chartWidth chartHeight i f =
     (let xStep = (if 1 < length fs then chartWidth / real (length fs - 1) else 0);
          x = (if length fs = 1 then padding + chartWidth / 2 else padding + xStep * real i);
          val = plot_value minVal (forecast_get f key)
      in (Fin x, point_y padding chartHeight minVal rng val))"

definition drawSingleLine ::
    "forecast list \<Rightarrow> forecast_key \<Rightarrow> js_string \<Rightarrow> jsnum \<Rightarrow> jsnum \<Rightarrow> real \<Rightarrow> real \<Rightarrow> real \<Rightarrow> canvas_op list" where
  "drawSingleLine fs key color minVal rng padding chartWidth chartHeight =
     (let pt = line_point fs key minVal rng padding chartWidth chartHeight
      in [SetStrokeStyle color, SetLineWidth 2, BeginPath] @
         map (\<lambda>(i, f). case pt i f of (x, y) \<Rightarrow> if i = 0 then MoveTo x y else LineTo x y) (enumerate 0 fs) @
         [Stroke, SetFillStyle color] @
         concat (map (\<lambda>(i, f). case pt i f of (x, y) \<Rightarrow> [BeginPath, Arc x y 3 0 (2 * pi), Fill]) (enumerate 0 fs)))"

text \<open>The legend texts, as UTF-8 bytes: maximum and minimum temperature, rain
  probability and mean humidity; and the degree sign and the ``today'' label.\<close>

definition txt_max_temp :: js_string where
  "txt_max_temp = [CHR 0xE6, CHR 0x9C, CHR 0x80, CHR 0xE9, CHR 0xAB, CHR 0x98, CHR 0xE6, CHR 0xB0, CHR 0x94, CHR 0xE6, CHR 0xB8, CHR 0xA9]"

definition txt_min_temp :: js_string where
  "txt_min_temp = [CHR 0xE6, CHR 0x9C, CHR 0x80, CHR 0xE4, CHR 0xBD, CHR 0x8E, CHR 0xE6, CHR 0xB0, CHR 0x94, CHR 0xE6, CHR 0xB8, CHR 0xA9]"

definition txt_rain_prob :: js_string where
  "txt_rain_prob = [CHR 0xE9, CHR 0x99, CHR 0x8D, CHR 0xE9, CHR 0x9B, CHR 0xA8, CHR 0xE6, CHR 0xA6, CHR 0x82, CHR 0xE7, CHR 0x8E, CHR 0x87]"

definition txt_avg_hum :: js_string where
  "txt_avg_hum = [CHR 0xE5, CHR 0xB9, CHR 0xB3, CHR 0xE5, CHR 0x9D, CHR 0x87, CHR 0xE6, CHR 0xB9, CHR 0xBF, CHR 0xE5, CHR 0xBA, CHR 0xA6]"

definition txt_degree :: js_string where
  "txt_degree = [CHR 0xC2, CHR 0xB0]"

definition txt_today :: js_string where
  "txt_today = [CHR 0xE4, CHR 0xBB, CHR 0x8A, CHR 0xE5, CHR 0xA4, CHR 0xA9]"

definition drawLegend :: "real \<Rightarrow> canvas_op list" where
  "drawLegend canvasWidth =
     [SetTextAlign ''left'', SetFontSize 10,
      SetFillStyle ''#ff7675'', FillRect (canvasWidth - 140) 8 10 10,
      SetFillStyle ''#333'', FillText txt_max_temp (Fin (canvasWidth - 125)) (Fin 17),
      SetFillStyle ''#74b9ff'', FillRect (canvasWidth - 70) 8 10 10,
      SetFillStyle ''#333'', FillText txt_min_temp (Fin (canvasWidth - 55)) (Fin 17)]"

text \<open>One horizontal grid line with its axis label, the body of the \<open>for\<close> loops of both
  charts.\<close>

definition grid_line :: "real \<Rightarrow> real \<Rightarrow> real \<Rightarrow> js_string \<Rightarrow> canvas_op list" where
  "grid_line padding canvasWidth y lbl =
     [BeginPath, MoveTo (Fin padding) (Fin y), LineTo (Fin (canvasWidth - padding)) (Fin y), Stroke,
      SetFillStyle ''#999'', SetFontSize 10, FillText lbl (Fin 5) (Fin (y + 4))]"

text \<open>The x-axis label of a forecast: its date label without ``today''.\<close>

definition date_label :: "forecast \<Rightarrow> js_string" where
  "date_label f = js_trim (js_replace_first txt_today [] (render_date (dateDisplay f)))"

definition x_label :: "jsnum \<Rightarrow> real \<Rightarrow> real \<Rightarrow> forecast \<Rightarrow> canvas_op list" where
  "x_label x padding canvasHeight f =
     [SetFillStyle ''#666'', SetFontSize 11, SetTextAlign ''center'',
      FillText (date_label f) x (Fin (canvasHeight - padding + 20))]"

definition temp_series :: "forecast list \<Rightarrow> jsnum list" where
  "temp_series fs =
     concat (map (\<lambda>f. [parse_float_val (forecast_get f KTempMin), parse_float_val (forecast_get f KTempMax)]) fs)"

text \<open>\<open>minTemp\<close>, \<open>maxTemp\<close> and \<open>tempRange\<close> of \<open>drawTempChart\<close>.\<close>

definition temp_min_axis :: "forecast list \<Rightarrow> jsnum" where
  "temp_min_axis fs = jn_floor (jn_sub (math_min_spread (temp_series fs)) (Fin 2))"

definition temp_max_axis :: "forecast list \<Rightarrow> jsnum" where
  "temp_max_axis fs = jn_ceil (jn_add (math_max_spread (temp_series fs)) (Fin 2))"

definition temp_range :: "forecast list \<Rightarrow> jsnum" where
  "temp_range fs = jn_or (jn_sub (temp_max_axis fs) (temp_min_axis fs)) (Fin 1)"

text \<open>The grid loop of \<open>drawTempChart\<close> (\<open>gridLines = 5\<close>): for \<open>i = 0, \<dots>, gridLines\<close>
  a line at \<open>padding + (chartHeight / gridLines) * i\<close> labelled with
  \<open>(maxTemp - (tempRange / gridLines) * i).toFixed(0) + '\<degree>'\<close>. The loop is
  \<open>js_for_le\<close>, which returns for every bound (\<open>js_for_le_fold\<close>); the chart
  draws what it returns.\<close>

definition temp_grid :: "real \<Rightarrow> real \<Rightarrow> real \<Rightarrow> jsnum \<Rightarrow> jsnum \<Rightarrow> canvas_op list option" where
  "temp_grid padding canvasWidth chartHeight maxTemp tempRange =
     (let gridLines = 5
      in js_for_le 0 gridLines
           (\<lambda>i ops. ops @ grid_line padding canvasWidth (padding + chartHeight / real_of_int gridLines * real_of_int i)
              (to_fixed0 (jn_sub maxTemp (jn_mul (jn_div tempRange (Fin (real_of_int gridLines))) (Fin (real_of_int i))))
               @ txt_degree))
           [])"

text \<open>The grid loop of \<open>drawHumidityChart\<close> (\<open>gridLines = 4\<close>), labelled
  \<open>(maxValue - (valueRange / gridLines) * i).toFixed(0) + '%'\<close>.\<close>

definition humidity_grid :: "real \<Rightarrow> real \<Rightarrow> real \<Rightarrow> real \<Rightarrow> real \<Rightarrow> canvas_op list option" where
  "humidity_grid padding canvasWidth chartHeight maxValue valueRange =
     (let gridLines = 4
      in js_for_le 0 gridLines
           (\<lambda>i ops. ops @ grid_line padding canvasWidth (padding + chartHeight / real_of_int gridLines * real_of_int i)
              (to_fixed0 (Fin (maxValue - valueRange / real_of_int gridLines * real_of_int i)) @ ''%''))
           [])"

definition drawTempChart :: "(real \<times> real) option \<Rightarrow> forecast list \<Rightarrow> canvas_op list" where
  "drawTempChart rect fs =
     (case rect of
        None \<Rightarrow> []
      | Some (canvasWidth, canvasHeight) \<Rightarrow>
          if canvasWidth = 0 \<or> canvasHeight = 0 \<or> fs = [] then []
          else
            let padding = 30; chartWidth = canvasWidth - padding * 2; chartHeight = canvasHeight - padding * 2;
                minTemp = temp_min_axis fs; maxTemp = temp_max_axis fs; tempRange = temp_range fs;
                xStep = (if 1 < length fs then chartWidth / real (length fs - 1) else 0)
            in [ClearRect 0 0 canvasWidth canvasHeight, SetStrokeStyle ''#f0f0f0'', SetLineWidth 1] @
               the (temp_grid padding canvasWidth chartHeight maxTemp tempRange) @
               concat (map (\<lambda>(i, f). x_label (Fin (if 1 < length fs then padding + xStep * real i else canvasWidth / 2))
                                       padding canvasHeight f)
                        (enumerate 0 fs)) @
               drawSingleLine fs KTempMax ''#ff7675'' minTemp tempRange padding chartWidth chartHeight @
               drawSingleLine fs KTempMin ''#74b9ff'' minTemp tempRange padding chartWidth chartHeight @
               drawLegend canvasWidth @ [Draw])"

text \<open>\<open>drawHumidityChart\<close>: the value axis is fixed to \<open>[0, 100]\<close> with four grid
  intervals; the x-axis labels are spaced by \<open>chartWidth / (forecasts.length - 1)\<close>
  without the guard of the temperature chart.\<close>

definition drawHumidityChart :: "(real \<times> real) option \<Rightarrow> forecast list \<Rightarrow> canvas_op list" where
  "drawHumidityChart rect fs =
     (case rect of
        None \<Rightarrow> []
      | Some (canvasWidth, canvasHeight) \<Rightarrow>
          if canvasWidth = 0 \<or> canvasHeight = 0 \<or> fs = [] then []
          else
            let padding = 30; chartWidth = canvasWidth - padding * 2; chartHeight = canvasHeight - padding * 2;
                minValue = 0; maxValue = 100; valueRange = maxValue - minValue
            in [ClearRect 0 0 canvasWidth canvasHeight, SetStrokeStyle ''#f0f0f0'', SetLineWidth 1] @
               the (humidity_grid padding canvasWidth chartHeight maxValue valueRange) @
               concat (map (\<lambda>(i, f). x_label (jn_add (Fin padding)
                                                (jn_mul (jn_div (Fin chartWidth) (Fin (real (length fs) - 1))) (Fin (real i))))
                                       padding canvasHeight f)
                        (enumerate 0 fs)) @
               drawSingleLine fs KRainProb ''#4facfe'' (Fin minValue) (Fin valueRange) padding chartWidth chartHeight @
               drawSingleLine fs KAvgHumidity ''#00b894'' (Fin minValue) (Fin valueRange) padding chartWidth chartHeight @
               [SetTextAlign ''left'', SetFontSize 10,
                SetFillStyle ''#4facfe'', FillRect (canvasWidth - 140) 8 10 10,
                SetFillStyle ''#333'', FillText txt_rain_prob (Fin (canvasWidth - 125)) (Fin 17),
                SetFillStyle ''#00b894'', FillRect (canvasWidth - 70) 8 10 10,
                SetFillStyle ''#333'', FillText txt_avg_hum (Fin (canvasWidth - 55)) (Fin 17),
                Draw])"

text \<open>\<open>onShow()\<close>: with forecasts in \<open>app.globalData.forecastsData\<close>, store them in the
  page data and, in the \<open>setData\<close> callback, draw both charts from the page data.\<close>

record forecast_page =
  fp_forecasts :: "forecast list"

definition forecast_onShow ::
    "forecast list option \<Rightarrow> (real \<times> real) option \<Rightarrow> (real \<times> real) option \<Rightarrow> forecast_page
     \<Rightarrow> forecast_page \<times> canvas_op list \<times> canvas_op list" where
  "forecast_onShow forecastsData tempRect humRect st =
     (case forecastsData of
        Some fs \<Rightarrow>
          if fs \<noteq> [] then
            let st' = st\<lparr>fp_forecasts := fs\<rparr>
            in (st', drawTempChart tempRect (fp_forecasts st'), drawHumidityChart humRect (fp_forecasts st'))
          else (st, [], [])
      | None \<Rightarrow> (st, [], []))"

subsection \<open>Points of a drawing\<close>

text \<open>The coordinates a drawing hands to \<open>moveTo\<close>, \<open>lineTo\<close> and \<open>arc\<close>, and the
  plot area they should lie in.\<close>

fun op_points :: "canvas_op \<Rightarrow> (jsnum \<times> jsnum) list" where
  "op_points (MoveTo x y) = [(x, y)]"
| "op_points (LineTo x y) = [(x, y)]"
| "op_points (Arc x y r a b) = [(x, y)]"
| "op_points _ = []"

definition plotted_points :: "canvas_op list \<Rightarrow> (jsnum \<times> jsnum) list" where
  "plotted_points ops = concat (map op_points ops)"

fun in_box :: "real \<Rightarrow> real \<Rightarrow> real \<Rightarrow> real \<Rightarrow> jsnum \<times> jsnum \<Rightarrow> bool" where
  "in_box x0 x1 y0 y1 (Fin a, Fin b) \<longleftrightarrow> x0 \<le> a \<and> a \<le> x1 \<and> y0 \<le> b \<and> b \<le> y1"
| "in_box x0 x1 y0 y1 _ \<longleftrightarrow> False"


text \<open>Whether the temperature chart has both temperatures of every day, and whether
  a forecast's humidity and rain displays are percentages.\<close>

definition temp_vals :: "forecast list \<Rightarrow> real list" where
  "temp_vals fs = concat (map (\<lambda>f. [the (temp_min f), the (temp_max f)]) fs)"

definition temps_present :: "forecast list \<Rightarrow> bool" where
  "temps_present fs \<longleftrightarrow> list_all (\<lambda>f. temp_max f \<noteq> None \<and> temp_min f \<noteq> None) fs"

definition humidity_ok :: "forecast \<Rightarrow> bool" where
  "humidity_ok f \<longleftrightarrow> 0 \<le> avg_humidity_display f \<and> avg_humidity_display f \<le> 100 \<and>
     (case rain_probability_display f of None \<Rightarrow> True | Some r \<Rightarrow> 0 \<le> r \<and> r \<le> 100)"

subsection \<open>Lemmas\<close>

lemma plotted_points_append [simp]: "plotted_points (a @ b) = plotted_points a @ plotted_points b"
  by (simp add: plotted_points_def)

lemma plotted_points_simps [simp]:
  "plotted_points [] = []"
  "plotted_points (op # ops) = op_points op @ plotted_points ops"
  by (simp_all add: plotted_points_def)

lemma plotted_points_grid_line [simp]:
  "plotted_points (grid_line p w y l) = [(Fin p, Fin y), (Fin (w - p), Fin y)]"
  by (simp add: grid_line_def)

lemma plotted_points_x_label [simp]: "plotted_points (x_label x p h f) = []"
  by (simp add: x_label_def)

lemma plotted_points_drawLegend [simp]: "plotted_points (drawLegend w) = []"
  by (simp add: drawLegend_def)

lemma plotted_points_concat: "plotted_points (concat xs) = concat (map plotted_points xs)"
  by (induction xs) simp_all

lemma plotted_points_drawSingleLine:
  "plotted_points (drawSingleLine fs key c m r p cw ch)
     = map (\<lambda>(i, f). line_point fs key m r p cw ch i f) (enumerate 0 fs)
       @ map (\<lambda>(i, f). line_point fs key m r p cw ch i f) (enumerate 0 fs)"
proof -
  have a: "plotted_points (map (\<lambda>(i, f). case g i f of (x, y) \<Rightarrow> if i = 0 then MoveTo x y else LineTo x y) xs)
           = map (\<lambda>(i, f). g i f) xs" for g :: "nat \<Rightarrow> forecast \<Rightarrow> jsnum \<times> jsnum" and xs
    by (induction xs) (auto split: prod.splits)
  have b: "plotted_points (concat (map (\<lambda>(i, f). case g i f of (x, y) \<Rightarrow> [BeginPath, Arc x y 3 0 (2 * pi), Fill]) xs))
           = map (\<lambda>(i, f). g i f) xs" for g :: "nat \<Rightarrow> forecast \<Rightarrow> jsnum \<times> jsnum" and xs
    by (induction xs) (auto split: prod.splits)
  show ?thesis by (simp add: drawSingleLine_def Let_def a b)
qed

lemma line_point_x:
  "fst (line_point fs key m r p cw ch i f)
     = Fin (if length fs = 1 then p + cw / 2 else p + (if 1 < length fs then cw / real (length fs - 1) else 0) * real i)"
  by (simp add: line_point_def Let_def)

lemma line_point_y:
  "snd (line_point fs key m r p cw ch i f) = point_y p ch m r (plot_value m (forecast_get f key))"
  by (simp add: line_point_def Let_def)

lemma line_point_x_bounds:
  assumes "0 \<le> cw" "i < length fs"
  shows "p \<le> (if length fs = 1 then p + cw / 2 else p + (if 1 < length fs then cw / real (length fs - 1) else 0) * real i)
         \<and> (if length fs = 1 then p + cw / 2 else p + (if 1 < length fs then cw / real (length fs - 1) else 0) * real i) \<le> p + cw"
proof (cases "1 < length fs")
  case True
  have "real i \<le> real (length fs - 1)" using assms(2) by simp
  then have "cw / real (length fs - 1) * real i \<le> cw / real (length fs - 1) * real (length fs - 1)"
    using assms(1) by (intro mult_left_mono) simp_all
  also have "\<dots> = cw" using True by simp
  finally show ?thesis using True assms(1) by auto
next
  case False
  with assms show ?thesis by auto
qed

lemma point_y_Fin:
  "r \<noteq> 0 \<Longrightarrow> point_y p ch (Fin m) (Fin r) (Fin v) = Fin (p + ch - (v - m) / r * ch)"
  by (simp add: point_y_def)

lemma point_y_bounds:
  assumes "0 \<le> (ch :: real)" "0 < r" "m \<le> v" "v \<le> m + r"
  shows "p \<le> p + ch - (v - m) / r * ch \<and> p + ch - (v - m) / r * ch \<le> p + ch"
proof -
  have "0 \<le> (v - m) / r" "(v - m) / r \<le> 1" using assms by simp_all
  then have "0 \<le> (v - m) / r * ch" "(v - m) / r * ch \<le> ch"
    using assms(1) mult_left_le_one_le [of ch "(v - m) / r"] by (simp_all only: mult.commute zero_le_mult_iff) auto
  then show ?thesis by linarith
qed

lemma line_point_in_box:
  assumes "0 \<le> cw" "0 \<le> ch" "i < length fs" "0 < r"
    and "plot_value (Fin m) (forecast_get f key) = Fin v" "m \<le> v" "v \<le> m + r"
  shows "in_box p (p + cw) p (p + ch) (line_point fs key (Fin m) (Fin r) p cw ch i f)"
proof -
  have "line_point fs key (Fin m) (Fin r) p cw ch i f = (fst (line_point fs key (Fin m) (Fin r) p cw ch i f),
          snd (line_point fs key (Fin m) (Fin r) p cw ch i f))" by simp
  then show ?thesis
    using line_point_x_bounds [OF assms(1,3), of p] point_y_bounds [OF assms(2,4,6,7), of p] assms(4,5)
    by (simp only: line_point_x line_point_y point_y_Fin) simp
qed


lemma plotted_points_x_labels [simp]:
  "plotted_points (concat (map (\<lambda>(i, f). x_label (g i f) p h f) xs)) = []"
  by (induction xs) auto

lemma temp_series_present:
  "temps_present fs \<Longrightarrow> temp_series fs = map Fin (temp_vals fs)"
  by (induction fs) (auto simp: temp_series_def temp_vals_def temps_present_def forecast_get_def parse_float_val_def)

lemma temp_vals_nonempty: "fs \<noteq> [] \<Longrightarrow> temp_vals fs \<noteq> []"
  by (cases fs) (simp_all add: temp_vals_def)

lemma temp_axes_present:
  assumes "temps_present fs" "fs \<noteq> []"
  defines "lo \<equiv> Min (set (temp_vals fs))" and "hi \<equiv> Max (set (temp_vals fs))"
  shows "temp_min_axis fs = Fin (of_int \<lfloor>lo - 2\<rfloor>)" "temp_max_axis fs = Fin (of_int \<lceil>hi + 2\<rceil>)"
    "temp_range fs = Fin (of_int \<lceil>hi + 2\<rceil> - of_int \<lfloor>lo - 2\<rfloor>)"
proof -
  have ne: "temp_vals fs \<noteq> []" using assms(2) by (rule temp_vals_nonempty)
  show a: "temp_min_axis fs = Fin (of_int \<lfloor>lo - 2\<rfloor>)"
    using ne by (simp add: temp_min_axis_def temp_series_present [OF assms(1)] math_min_spread_Fin lo_def)
  show b: "temp_max_axis fs = Fin (of_int \<lceil>hi + 2\<rceil>)"
    using ne by (simp add: temp_max_axis_def temp_series_present [OF assms(1)] math_max_spread_Fin hi_def)
  obtain x where "x \<in> set (temp_vals fs)" using ne by (cases "temp_vals fs") auto
  then have "lo \<le> hi" unfolding lo_def hi_def
    using Min_le [OF finite_set] Max_ge [OF finite_set] order_trans by blast
  then have "(of_int \<lfloor>lo - 2\<rfloor> :: real) < of_int \<lceil>hi + 2\<rceil>"
    by linarith
  then show "temp_range fs = Fin (of_int \<lceil>hi + 2\<rceil> - of_int \<lfloor>lo - 2\<rfloor>)"
    by (simp add: temp_range_def a b jn_or_def)
qed

lemma temp_value_present:
  assumes "temps_present fs" "f \<in> set fs" "key \<in> {KTempMax, KTempMin}"
  shows "\<exists>v. plot_value m (forecast_get f key) = Fin v \<and> v \<in> set (temp_vals fs)"
proof -
  obtain a b where ab: "temp_max f = Some a" "temp_min f = Some b"
    using assms(1,2) by (auto simp: temps_present_def list_all_iff)
  have "a \<in> set (temp_vals fs)" "b \<in> set (temp_vals fs)"
    using ab assms(2) by (force simp: temp_vals_def)+
  then show ?thesis
    using assms(3) ab by (auto simp: forecast_get_def plot_value_def jn_is_nan_def)
qed

lemma temp_line_in_box:
  assumes "temps_present fs" "fs \<noteq> []" "0 \<le> cw" "0 \<le> ch" "key \<in> {KTempMax, KTempMin}"
    and "pt \<in> set (map (\<lambda>(i, f). line_point fs key (temp_min_axis fs) (temp_range fs) p cw ch i f) (enumerate 0 fs))"
  shows "in_box p (p + cw) p (p + ch) pt"
proof -
  define lo where "lo = Min (set (temp_vals fs))"
  define hi where "hi = Max (set (temp_vals fs))"
  obtain i where i: "i < length fs" "pt = line_point fs key (temp_min_axis fs) (temp_range fs) p cw ch i (fs ! i)"
    using assms(6) by (auto simp: in_set_enumerate_eq)
  obtain v where v: "plot_value (Fin (of_int \<lfloor>lo - 2\<rfloor>)) (forecast_get (fs ! i) key) = Fin v" "v \<in> set (temp_vals fs)"
    using temp_value_present [OF assms(1) nth_mem [OF i(1)] assms(5)] by blast
  have fin: "finite (set (temp_vals fs))" by simp
  have "lo \<le> v" "v \<le> hi" using v(2) fin by (simp_all add: lo_def hi_def)
  then have "of_int \<lfloor>lo - 2\<rfloor> \<le> v" "v \<le> of_int \<lfloor>lo - 2\<rfloor> + (of_int \<lceil>hi + 2\<rceil> - of_int \<lfloor>lo - 2\<rfloor>)"
    by linarith+
  moreover have "0 < (of_int \<lceil>hi + 2\<rceil> - of_int \<lfloor>lo - 2\<rfloor> :: real)" using \<open>lo \<le> v\<close> \<open>v \<le> hi\<close> by linarith
  ultimately show ?thesis
    using line_point_in_box [OF assms(3,4) i(1) _ v(1)] i(2)
    by (simp add: temp_axes_present [OF assms(1,2)] lo_def hi_def)
qed

lemma grid_point_in_box:
  assumes "60 \<le> w" "60 \<le> h" "0 < n" "real i \<le> n"
  shows "in_box 30 (w - 30) 30 (h - 30) (Fin 30, Fin (30 + (h - 60) / n * real i))"
    "in_box 30 (w - 30) 30 (h - 30) (Fin (w - 30), Fin (30 + (h - 60) / n * real i))"
proof -
  have "(h - 60) / n * real i \<le> (h - 60) / n * n" using assms by (intro mult_left_mono) simp_all
  then have "(h - 60) / n * real i \<le> h - 60" using assms(3) by simp
  moreover have "0 \<le> (h - 60) / n * real i" using assms by simp
  ultimately show "in_box 30 (w - 30) 30 (h - 30) (Fin 30, Fin (30 + (h - 60) / n * real i))"
    "in_box 30 (w - 30) 30 (h - 30) (Fin (w - 30), Fin (30 + (h - 60) / n * real i))"
    using assms(1) by simp_all
qed

lemma grid_points_in_box:
  assumes "60 \<le> w" "60 \<le> h" "0 < k"
    and "pt \<in> set (concat (map (\<lambda>i. [(Fin 30, Fin (30 + (h - 60) / real k * real i)),
                                   (Fin (w - 30), Fin (30 + (h - 60) / real k * real i))]) [0..<Suc k]))"
  shows "in_box 30 (w - 30) 30 (h - 30) pt"
proof -
  from assms(4) have "pt \<in> (\<Union>i \<in> {0..<Suc k}. set [(Fin 30, Fin (30 + (h - 60) / real k * real i)),
                                   (Fin (w - 30), Fin (30 + (h - 60) / real k * real i))])"
    by (simp only: set_concat set_map image_image set_upt)
  then obtain i where i: "i \<in> {0..<Suc k}"
    and pt: "pt \<in> set [(Fin 30, Fin (30 + (h - 60) / real k * real i)), (Fin (w - 30), Fin (30 + (h - 60) / real k * real i))]"
    by (rule UN_E)
  have "real i \<le> real k" using i by simp
  with pt show ?thesis using grid_point_in_box [OF assms(1,2), of "real k" i] assms(3) by auto
qed

lemma plotted_points_case_x_label [simp]:
  "plotted_points (case p of (i, f) \<Rightarrow> x_label (g i f) a b f) = []"
  by (cases p) simp

lemma plotted_points_temp_grid [simp]:
  "plotted_points (the (temp_grid p w ch mx rg)) =
     concat (map (\<lambda>i. [(Fin p, Fin (p + ch / 5 * real i)), (Fin (w - p), Fin (p + ch / 5 * real i))]) [0..<6])"
  by (simp add: temp_grid_def js_for_le_append plotted_points_concat o_def)

lemma plotted_points_humidity_grid [simp]:
  "plotted_points (the (humidity_grid p w ch mx rg)) =
     concat (map (\<lambda>i. [(Fin p, Fin (p + ch / 4 * real i)), (Fin (w - p), Fin (p + ch / 4 * real i))]) [0..<5])"
  by (simp add: humidity_grid_def js_for_le_append plotted_points_concat o_def)

lemma plotted_points_drawTempChart:
  assumes "w \<noteq> 0" "h \<noteq> 0" "fs \<noteq> []"
  shows "plotted_points (drawTempChart (Some (w, h)) fs) =
           concat (map (\<lambda>i. [(Fin 30, Fin (30 + (h - 60) / 5 * real i)), (Fin (w - 30), Fin (30 + (h - 60) / 5 * real i))]) [0..<6])
           @ map (\<lambda>(i, f). line_point fs KTempMax (temp_min_axis fs) (temp_range fs) 30 (w - 60) (h - 60) i f) (enumerate 0 fs)
           @ map (\<lambda>(i, f). line_point fs KTempMax (temp_min_axis fs) (temp_range fs) 30 (w - 60) (h - 60) i f) (enumerate 0 fs)
           @ map (\<lambda>(i, f). line_point fs KTempMin (temp_min_axis fs) (temp_range fs) 30 (w - 60) (h - 60) i f) (enumerate 0 fs)
           @ map (\<lambda>(i, f). line_point fs KTempMin (temp_min_axis fs) (temp_range fs) 30 (w - 60) (h - 60) i f) (enumerate 0 fs)"
  using assms by (simp add: drawTempChart_def Let_def plotted_points_concat plotted_points_drawSingleLine o_def)

text \<open>
  C19: when every forecast carries both daily temperatures, every point the temperature
  chart draws (grid lines and both data lines, path and dots) is finite and lies in the
  plot area, the canvas less its 30-pixel padding: the axis runs from two degrees below
  the lowest to two above the highest temperature, rounded outwards.
\<close>

theorem temp_chart_in_plot_area:
  assumes "60 \<le> w" "60 \<le> h" "temps_present fs"
  shows "list_all (in_box 30 (w - 30) 30 (h - 30)) (plotted_points (drawTempChart (Some (w, h)) fs))"
proof (cases "fs = []")
  case True
  then show ?thesis by (simp add: drawTempChart_def)
next
  case False
  have grid: "in_box 30 (w - 30) 30 (h - 30) pt"
    if "pt \<in> set (concat (map (\<lambda>i. [(Fin 30, Fin (30 + (h - 60) / 5 * real i)),
                                  (Fin (w - 30), Fin (30 + (h - 60) / 5 * real i))]) [0..<6]))" for pt
    using grid_points_in_box [OF assms(1,2), of 5 pt] that by simp
  have line: "in_box 30 (w - 30) 30 (h - 30) pt"
    if "key \<in> {KTempMax, KTempMin}"
       "pt \<in> set (map (\<lambda>(i, f). line_point fs key (temp_min_axis fs) (temp_range fs) 30 (w - 60) (h - 60) i f) (enumerate 0 fs))"
    for key pt
    using temp_line_in_box [OF assms(3) False _ _ that(1) that(2)] assms(1,2) by simp
  have "w \<noteq> 0" "h \<noteq> 0" using assms(1,2) by simp_all
  note pts = plotted_points_drawTempChart [OF this False]
  show ?thesis
    unfolding pts list_all_iff set_append ball_Un
    using grid line [of KTempMax] line [of KTempMin] by blast
qed


lemma point_y_NaN_min [simp]: "point_y p ch NaN r v = NaN"
  by (simp add: point_y_def jn_sub_def)

lemma temp_series_missing:
  "f \<in> set fs \<Longrightarrow> temp_max f = None \<or> temp_min f = None \<Longrightarrow> NaN \<in> set (temp_series fs)"
  by (auto simp: temp_series_def forecast_get_def parse_float_val_def intro!: bexI [where x = f])

lemma temp_min_axis_missing:
  "f \<in> set fs \<Longrightarrow> temp_max f = None \<or> temp_min f = None \<Longrightarrow> temp_min_axis fs = NaN"
  using temp_series_missing foldl_jn_min_NaN_mem
  by (simp add: temp_min_axis_def math_min_spread_def)

text \<open>
  C20: one missing daily temperature (a daily array shorter than five entries) makes
  \<open>Math.min\<close> of the temperatures \<open>NaN\<close>, and with it the bottom of the axis: every
  point of both temperature lines then has a \<open>NaN\<close> ordinate and is not drawn, and
  only the twelve end points of the grid lines remain.
\<close>

theorem temp_chart_missing_temp_blank:
  assumes "w \<noteq> 0" "h \<noteq> 0" "f \<in> set fs" "temp_max f = None \<or> temp_min f = None"
  shows "filter (\<lambda>pt. snd pt \<noteq> NaN) (plotted_points (drawTempChart (Some (w, h)) fs)) =
           concat (map (\<lambda>i. [(Fin 30, Fin (30 + (h - 60) / 5 * real i)), (Fin (w - 30), Fin (30 + (h - 60) / 5 * real i))]) [0..<6])"
proof -
  have ne: "fs \<noteq> []" using assms(3) by auto
  have nan: "snd (line_point fs key (temp_min_axis fs) r p cw ch i g) = NaN" for key r p cw ch i g
    by (simp add: line_point_y temp_min_axis_missing [OF assms(3,4)])
  have drop: "filter (\<lambda>pt. snd pt \<noteq> NaN) (map (\<lambda>(i, g). line_point fs key (temp_min_axis fs) r p cw ch i g) xs) = []"
    for key r p cw ch xs
    using nan by (induction xs) auto
  show ?thesis
    by (simp add: plotted_points_drawTempChart [OF assms(1,2) ne] drop filter_concat o_def)
qed

lemma snd_set_enumerate: "snd ` set (enumerate n xs) = set xs"
proof -
  have "map snd (enumerate n xs) = xs" by (simp add: enumerate_eq_zip)
  then show ?thesis by (metis set_map)
qed

lemma bex_enumerate_snd: "(\<exists>ig \<in> set (enumerate n xs). P (snd ig)) \<longleftrightarrow> (\<exists>x \<in> set xs. P x)"
proof -
  have "(\<exists>x \<in> set xs. P x) \<longleftrightarrow> (\<exists>x \<in> snd ` set (enumerate n xs). P x)"
    by (simp only: snd_set_enumerate)
  then show ?thesis by auto
qed

lemma plotted_points_drawHumidityChart:
  assumes "w \<noteq> 0" "h \<noteq> 0" "fs \<noteq> []"
  shows "plotted_points (drawHumidityChart (Some (w, h)) fs) =
           concat (map (\<lambda>i. [(Fin 30, Fin (30 + (h - 60) / 4 * real i)), (Fin (w - 30), Fin (30 + (h - 60) / 4 * real i))]) [0..<5])
           @ map (\<lambda>(i, f). line_point fs KRainProb (Fin 0) (Fin 100) 30 (w - 60) (h - 60) i f) (enumerate 0 fs)
           @ map (\<lambda>(i, f). line_point fs KRainProb (Fin 0) (Fin 100) 30 (w - 60) (h - 60) i f) (enumerate 0 fs)
           @ map (\<lambda>(i, f). line_point fs KAvgHumidity (Fin 0) (Fin 100) 30 (w - 60) (h - 60) i f) (enumerate 0 fs)
           @ map (\<lambda>(i, f). line_point fs KAvgHumidity (Fin 0) (Fin 100) 30 (w - 60) (h - 60) i f) (enumerate 0 fs)"
  using assms by (simp add: drawHumidityChart_def Let_def plotted_points_concat plotted_points_drawSingleLine o_def)

lemma rain_none_point:
  assumes "rain_probability_display f = None" "0 < ch"
  shows "snd (line_point fs KRainProb (Fin 0) (Fin 100) p cw ch i f) = PosInf"
  using assms by (simp add: line_point_y forecast_get_def plot_value_def jn_is_nan_def point_y_def
      jn_sub_def signed_inf_def)

lemma humidity_line_point:
  assumes "humidity_ok f" "key \<in> {KRainProb, KAvgHumidity}" "i < length fs" "0 \<le> cw" "0 < ch"
  shows "in_box p (p + cw) p (p + ch) (line_point fs key (Fin 0) (Fin 100) p cw ch i f)
         \<or> (key = KRainProb \<and> rain_probability_display f = None
            \<and> snd (line_point fs key (Fin 0) (Fin 100) p cw ch i f) = PosInf)"
proof (cases "key = KRainProb \<and> rain_probability_display f = None")
  case True
  then show ?thesis using rain_none_point [of f ch fs p cw i] assms(5) by simp
next
  case False
  then obtain v where v: "plot_value (Fin 0) (forecast_get f key) = Fin v" "0 \<le> v" "v \<le> 100"
    using assms(1,2) by (auto simp: humidity_ok_def forecast_get_def plot_value_def jn_is_nan_def split: option.splits)
  show ?thesis using line_point_in_box [OF assms(4) _ assms(3) _ v(1)] v(2,3) assms(5) by simp
qed

lemma in_box_finite: "in_box a b c d pt \<Longrightarrow> snd pt \<noteq> PosInf"
proof -
  assume box: "in_box a b c d pt"
  obtain x y where "pt = (x, y)" by (cases pt)
  with box show ?thesis by (cases x; cases y) auto
qed

lemma humidity_line_points:
  assumes "60 \<le> w" "60 < h" "list_all humidity_ok fs"
    and "key \<in> {KRainProb, KAvgHumidity}"
    and "pt \<in> set (map (\<lambda>(i, f). line_point fs key (Fin 0) (Fin 100) 30 (w - 60) (h - 60) i f) (enumerate 0 fs))"
  shows "in_box 30 (w - 30) 30 (h - 30) pt \<or> (list_ex (\<lambda>f. rain_probability_display f = None) fs \<and> snd pt = PosInf)"
proof -
  obtain ig where ig_in: "ig \<in> set (enumerate 0 fs)"
    and pt: "pt = line_point fs key (Fin 0) (Fin 100) 30 (w - 60) (h - 60) (fst ig) (snd ig)"
    using assms(5) by (auto simp: case_prod_beta)
  have ig: "fst ig < length fs" "fs ! fst ig = snd ig" using ig_in by (auto simp: in_set_enumerate_eq)
  then have mem: "snd ig \<in> set fs" by (metis nth_mem)
  then have "humidity_ok (snd ig)" using assms(3) by (simp add: list_all_iff)
  then show ?thesis
    using ig mem pt humidity_line_point [of "snd ig" key "fst ig" fs "w - 60" "h - 60" 30] assms(1,2,4)
    by (auto simp: list_ex_iff)
qed

lemma humidity_posinf_point:
  assumes "60 < h" "f \<in> set fs" "rain_probability_display f = None"
  shows "\<exists>pt \<in> set (map (\<lambda>(i, f). line_point fs KRainProb (Fin 0) (Fin 100) 30 (w - 60) (h - 60) i f) (enumerate 0 fs)).
           snd pt = PosInf"
proof -
  obtain ig where ig: "ig \<in> set (enumerate 0 fs)" "snd ig = f"
    using assms(2) snd_set_enumerate [of 0 fs] by (metis imageE)
  have "line_point fs KRainProb (Fin 0) (Fin 100) 30 (w - 60) (h - 60) (fst ig) (snd ig)
          \<in> set (map (\<lambda>(i, f). line_point fs KRainProb (Fin 0) (Fin 100) 30 (w - 60) (h - 60) i f) (enumerate 0 fs))"
    using ig(1) by (auto simp: case_prod_beta)
  moreover have "snd (line_point fs KRainProb (Fin 0) (Fin 100) 30 (w - 60) (h - 60) (fst ig) (snd ig)) = PosInf"
    using rain_none_point [of f "h - 60"] ig(2) assms(1,3) by simp
  ultimately show ?thesis by blast
qed

text \<open>
  C21: for humidities and rain probabilities in \<open>[0, 100]\<close>, every point of the humidity
  chart lies in the plot area, except the rain points of days without any sample, whose
  rain display is \<open>Math.round(-Infinity)\<close> and whose ordinate is \<open>+Infinity\<close>; such
  points occur exactly when such a day is charted.
\<close>

theorem humidity_chart_points:
  assumes "60 \<le> w" "60 < h" "list_all humidity_ok fs"
  shows "list_all (\<lambda>pt. in_box 30 (w - 30) 30 (h - 30) pt \<or> snd pt = PosInf)
           (plotted_points (drawHumidityChart (Some (w, h)) fs))
         \<and> (list_ex (\<lambda>pt. snd pt = PosInf) (plotted_points (drawHumidityChart (Some (w, h)) fs))
            \<longleftrightarrow> list_ex (\<lambda>f. rain_probability_display f = None) fs)"
proof (cases "fs = []")
  case True
  then show ?thesis by (simp add: drawHumidityChart_def)
next
  case False
  have "w \<noteq> 0" "h \<noteq> 0" using assms(1,2) by simp_all
  note pts = plotted_points_drawHumidityChart [OF this False]
  have grid: "in_box 30 (w - 30) 30 (h - 30) pt"
    if "pt \<in> set (concat (map (\<lambda>i. [(Fin 30, Fin (30 + (h - 60) / 4 * real i)),
                                  (Fin (w - 30), Fin (30 + (h - 60) / 4 * real i))]) [0..<5]))" for pt
    using grid_points_in_box [OF assms(1), of h 4 pt] that assms(2) by simp
  note line = humidity_line_points [OF assms]
  show ?thesis
  proof
    show "list_all (\<lambda>pt. in_box 30 (w - 30) 30 (h - 30) pt \<or> snd pt = PosInf)
            (plotted_points (drawHumidityChart (Some (w, h)) fs))"
      unfolding pts list_all_iff set_append ball_Un
      using grid line [of KRainProb] line [of KAvgHumidity] by blast
  next
    show "list_ex (\<lambda>pt. snd pt = PosInf) (plotted_points (drawHumidityChart (Some (w, h)) fs))
          \<longleftrightarrow> list_ex (\<lambda>f. rain_probability_display f = None) fs"
    proof
      assume "list_ex (\<lambda>pt. snd pt = PosInf) (plotted_points (drawHumidityChart (Some (w, h)) fs))"
      then show "list_ex (\<lambda>f. rain_probability_display f = None) fs"
        unfolding pts list_ex_iff set_append bex_Un
        using grid line [of KRainProb] line [of KAvgHumidity] in_box_finite by (simp only: list_ex_iff) blast
    next
      assume "list_ex (\<lambda>f. rain_probability_display f = None) fs"
      then obtain f where "f \<in> set fs" "rain_probability_display f = None" by (auto simp: list_ex_iff)
      then show "list_ex (\<lambda>pt. snd pt = PosInf) (plotted_points (drawHumidityChart (Some (w, h)) fs))"
        unfolding pts list_ex_iff set_append bex_Un
        using humidity_posinf_point [OF assms(2), of f fs w] by blast
    qed
  qed
qed

text \<open>
  C22: with a single forecast the humidity chart places its date label at \<open>x = NaN\<close>
  (\<open>chartWidth / 0 * 0\<close>), so the label is not drawn, while the temperature chart,
  which guards that case, centres it.
\<close>

theorem humidity_single_label_nan:
  assumes "w \<noteq> 0" "h \<noteq> 0"
  shows "FillText (date_label f) NaN (Fin (h - 30 + 20)) \<in> set (drawHumidityChart (Some (w, h)) [f]) \<and>
         FillText (date_label f) (Fin (w / 2)) (Fin (h - 30 + 20)) \<in> set (drawTempChart (Some (w, h)) [f])"
  using assms by (simp add: drawHumidityChart_def drawTempChart_def Let_def x_label_def signed_inf_def)

end
