(* ===== verification/Mock.thy ===== *)
theory Mock
  imports Phases
begin

text \<open>
  The synthetic fallback series, \<open>getMockWeatherData\<close> of \<open>src/weather/app.js\<close>
  (lines 266--287), and the part of \<open>Date\<close> it uses. The clock is a parameter: \<open>now\<close>
  in milliseconds since the epoch. \<open>toISOString\<close> prints the UTC date and time as
  \<open>YYYY-MM-DDTHH:mm:ss.sssZ\<close> (ECMAScript 21.4.4.36); the calendar date of a day
  number is the days-to-civil conversion of the proleptic Gregorian calendar, with
  floor division. Years outside \<open>[0, 9999]\<close> print with a sign and six digits.
  \<open>d.setDate(d.getDate() + i)\<close> moves a date by \<open>i\<close> local days; without a daylight
  saving change that is \<open>i \<times> 86400000\<close> milliseconds, which the model takes it to be.
  The returned object also carries \<open>latitude\<close> and \<open>longitude\<close>, which nothing reads
  and the record of the series does not hold.
\<close>

text \<open>The calendar date (year, month, day) of a day number, day 0 being 1970-01-01.\<close>

definition civil_from_days :: "int \<Rightarrow> int \<times> nat \<times> nat" where
  "civil_from_days z0 =
     (let z = z0 + 719468; era = z div 146097; doe = z - era * 146097;
          yoe = (doe - doe div 1460 + doe div 36524 - doe div 146096) div 365;
          y = yoe + era * 400; doy = doe - (365 * yoe + yoe div 4 - yoe div 100);
          mp = (5 * doy + 2) div 153; d = doy - (153 * mp + 2) div 5 + 1;
          m = (if mp < 10 then mp + 3 else mp - 9)
      in (if m \<le> 2 then y + 1 else y, nat m, nat d))"

text \<open>A number printed with exactly \<open>k\<close> digits, as the fixed-width fields of
  \<open>toISOString\<close> are.\<close>

definition digits_fixed :: "nat \<Rightarrow> nat \<Rightarrow> js_string" where
  "digits_fixed k n = map (\<lambda>j. digit_char (n div 10 ^ (k - 1 - j) mod 10)) [0..<k]"

definition year_str :: "int \<Rightarrow> js_string" where
  "year_str y =
     (if 0 \<le> y \<and> y \<le> 9999 then digits_fixed 4 (nat y)
      else (if y < 0 then ''-'' else ''+'') @ digits_fixed 6 (nat \<bar>y\<bar>))"

definition iso_string :: "int \<Rightarrow> js_string" where
  "iso_string t =
     (let days = t div 86400000; ms = t mod 86400000; (y, m, d) = civil_from_days days
      in year_str y @ ''-'' @ digits_fixed 2 m @ ''-'' @ digits_fixed 2 d @ ''T'' @
         digits_fixed 2 (nat (ms div 3600000)) @ '':'' @ digits_fixed 2 (nat (ms mod 3600000 div 60000)) @ '':'' @
         digits_fixed 2 (nat (ms mod 60000 div 1000)) @ ''.'' @ digits_fixed 3 (nat (ms mod 1000)) @ ''Z'')"

text \<open>\<open>s.split('T')[0]\<close>.\<close>

definition before_T :: "js_string \<Rightarrow> js_string" where
  "before_T s = takeWhile (\<lambda>c. c \<noteq> CHR ''T'') s"

definition mock_day :: "int \<Rightarrow> nat \<Rightarrow> js_string" where
  "mock_day now i = before_T (iso_string (now + int i * 86400000))"

definition mock_hourly :: "int \<Rightarrow> hourly_raw" where
  "mock_hourly now =
     \<lparr>hourly_time = Some (map (\<lambda>i. iso_string (now + int i * 3600000)) [0..<120]),
      temperature_2m = Some (map (\<lambda>i. 20 + sin (real i / 10) * 5) [0..<120]),
      relative_humidity_2m = Some (replicate 120 50), wind_speed_10m = Some (replicate 120 10),
      cloud_cover = Some (replicate 120 20), precipitation_probability = Some (replicate 120 0),
      uv_index = Some (map (\<lambda>i. if 8 < i mod 24 \<and> i mod 24 < 18 then 5 else 0) [0..<120])\<rparr>"

definition getMockWeatherData :: "int \<Rightarrow> weather_data" where
  "getMockWeatherData now =
     \<lparr>hourly = Some (mock_hourly now),
      daily = Some \<lparr>daily_time = Some (map (mock_day now) [0..<5]),
                    temperature_2m_max = None, temperature_2m_min = None\<rparr>\<rparr>"


subsection \<open>Lemmas\<close>

lemma digits_fixed_length [simp]: "length (digits_fixed k n) = k"
  by (simp add: digits_fixed_def)

lemma digits_fixed_2: "digits_fixed 2 n = [digit_char (n div 10 mod 10), digit_char (n mod 10)]"
  by (simp add: digits_fixed_def numeral_2_eq_2 upt_rec)

lemma digit_char_props:
  assumes "d < 10"
  shows "\<not> js_ws (digit_char d)" "digit_char d \<noteq> CHR ''-''" "digit_char d \<noteq> CHR ''+''"
    "digit_char d \<noteq> CHR ''x''" "digit_char d \<noteq> CHR ''X''"
  using digit_char_cases [OF assms] by (auto simp: js_ws_def)

lemma parse_int_digits_fixed_2:
  assumes "n < 100"
  shows "js_parse_int (digits_fixed 2 n) = Some (int n)"
proof -
  have a: "n div 10 mod 10 < 10" "n mod 10 < 10" by simp_all
  have v: "(n div 10 mod 10) * 10 + n mod 10 = n" using assms by simp
  show ?thesis
    using digit_char_props [OF a(1)] digit_char_props [OF a(2)] v
    by (simp add: js_parse_int_def digits_fixed_2 digits_value_def Let_def)
qed

lemma iso_string_prefix:
  assumes "0 \<le> fst (civil_from_days (t div 86400000))" "fst (civil_from_days (t div 86400000)) \<le> 9999"
  shows "js_substring (iso_string t) 11 13 = digits_fixed 2 (nat (t mod 86400000 div 3600000))"
proof -
  obtain y m d where c: "civil_from_days (t div 86400000) = (y, m, d)" by (cases "civil_from_days (t div 86400000)") auto
  have y: "length (year_str y) = 4" using assms c by (simp add: year_str_def)
  show ?thesis
    using y c by (simp add: iso_string_def js_substring_def Let_def)
qed

text \<open>
  C27: the timestamps of the fallback series read back as their hours: for a time in the
  years 0 to 9999, \<open>parseInt\<close> of characters 11--12 of \<open>toISOString()\<close>, the hour
  the phase classifier and the night test use, is the UTC hour of that time.
\<close>

theorem mock_hour_roundtrip:
  assumes "time h = iso_string t"
    and "0 \<le> fst (civil_from_days (t div 86400000))" "fst (civil_from_days (t div 86400000)) \<le> 9999"
  shows "hour_of h = Some (t mod 86400000 div 3600000)"
proof -
  define k where "k = t mod 86400000 div 3600000"
  have lo: "0 \<le> k" by (simp add: k_def)
  have "t mod 86400000 \<le> 86399999" by simp
  then have "k \<le> 86399999 div 3600000" unfolding k_def by (rule zdiv_mono1) simp
  then have hi: "nat k < 100" by simp
  have "hour_of h = js_parse_int (digits_fixed 2 (nat k))"
    using iso_string_prefix [OF assms(2,3)] assms(1) by (simp add: hour_of_def k_def)
  then show ?thesis using parse_int_digits_fixed_2 [OF hi] lo by (simp add: k_def)
qed

lemma mock_hourly_wf: "hourly_wf (hourly_or_empty (getMockWeatherData now))"
  by (simp add: hourly_wf_def covers_len_def getMockWeatherData_def mock_hourly_def hourly_or_empty_def)

lemma mock_fields:
  "hourly_time (hourly_or_empty (getMockWeatherData now)) = Some (map (\<lambda>i. iso_string (now + int i * 3600000)) [0..<120])"
  "daily_time (daily_or_empty (getMockWeatherData now)) = Some (map (mock_day now) [0..<5])"
  "temperature_2m_max (daily_or_empty (getMockWeatherData now)) = None"
  "temperature_2m_min (daily_or_empty (getMockWeatherData now)) = None"
  by (simp_all add: getMockWeatherData_def mock_hourly_def hourly_or_empty_def daily_or_empty_def)

lemma mock_hourlyObjs: "\<exists>hs. hourlyObjs (hourly_or_empty (getMockWeatherData now)) = Inr hs"
  using hourlyObjs_wf [OF mock_hourly_wf mock_fields(1)] by blast

lemma civil_from_days_2024_05_01: "civil_from_days 19844 = (2024, 5, 1)"
  by code_simp

theorem mock_hour_roundtrip_witness:
  "hour_of \<lparr>time = iso_string 1714550400000, temp = 20, humidity = 50, wind = 10, cloud = 20, rainProb = 0, uv = 0\<rparr>
     = Some (1714550400000 mod 86400000 div 3600000)"
  by (rule mock_hour_roundtrip) (simp_all add: civil_from_days_2024_05_01)

end
