(* ===== verification/Settings.thy ===== *)
theory Settings
  imports Prelude
begin

text \<open>
  The settings page, \<open>src/weather/pages/settings/settings.js\<close>, with the preferences of
  \<open>app.globalData\<close> (\<open>src/weather/app.js\<close>, lines 18--22) it reads and writes. The
  state is the page data, the \<open>preferences\<close> entry of the storage (\<open>None\<close> when
  absent, for which \<open>wx.getStorageSync\<close> returns the falsy \<open>''\<close>) and the global
  preferences. Each handler is one case of \<open>settings_step\<close>, which returns the new
  state and the UI calls it makes (toasts, the confirmation modal, the delayed
  \<open>navigateBack\<close>); the modal's answer is part of the reset event. The reachable
  states are an inductive relation over all events, with slider values in
  \<open>[0, 10]\<close>. The texts are the Chinese strings of the source as UTF-8 bytes: the short
  ``balanced mode'' of the initial data, the three preference descriptions (safety
  first, balanced, speed first), and the save and reset messages.
\<close>

definition txt_balanced_short :: js_string where
  "txt_balanced_short =
     [CHR 0xE5, CHR 0xB9, CHR 0xB3, CHR 0xE8, CHR 0xA1, CHR 0xA1, CHR 0xE6, CHR 0xA8, CHR 0xA1, CHR 0xE5,
      CHR 0xBC, CHR 0x8F]"

definition txt_safety :: js_string where
  "txt_safety =
     [CHR 0xE5, CHR 0xAE, CHR 0x89, CHR 0xE5, CHR 0x85, CHR 0xA8, CHR 0xE4, CHR 0xBC, CHR 0x98, CHR 0xE5,
      CHR 0x85, CHR 0x88, CHR 0xEF, CHR 0xBC, CHR 0x88, CHR 0xE6, CHR 0x85, CHR 0xA2, CHR 0xE5, CHR 0xB9,
      CHR 0xB2, CHR 0xE4, CHR 0xBD, CHR 0x86, CHR 0xE7, CHR 0xA8, CHR 0xB3, CHR 0xE5, CHR 0xA6, CHR 0xA5,
      CHR 0xEF, CHR 0xBC, CHR 0x89]"

definition txt_balanced :: js_string where
  "txt_balanced =
     [CHR 0xE5, CHR 0xB9, CHR 0xB3, CHR 0xE8, CHR 0xA1, CHR 0xA1, CHR 0xE6, CHR 0xA8, CHR 0xA1, CHR 0xE5,
      CHR 0xBC, CHR 0x8F, CHR 0xEF, CHR 0xBC, CHR 0x88, CHR 0xE5, CHR 0x85, CHR 0xBC, CHR 0xE9, CHR 0xA1,
      CHR 0xBE, CHR 0xE9, CHR 0x80, CHR 0x9F, CHR 0xE5, CHR 0xBA, CHR 0xA6, CHR 0xE5, CHR 0x92, CHR 0x8C,
      CHR 0xE5, CHR 0xAE, CHR 0x89, CHR 0xE5, CHR 0x85, CHR 0xA8, CHR 0xEF, CHR 0xBC, CHR 0x89]"

definition txt_speed :: js_string where
  "txt_speed =
     [CHR 0xE9, CHR 0x80, CHR 0x9F, CHR 0xE5, CHR 0xBA, CHR 0xA6, CHR 0xE4, CHR 0xBC, CHR 0x98, CHR 0xE5,
      CHR 0x85, CHR 0x88, CHR 0xEF, CHR 0xBC, CHR 0x88, CHR 0xE5, CHR 0xBF, CHR 0xAB, CHR 0xE9, CHR 0x80,
      CHR 0x9F, CHR 0xE6, CHR 0x99, CHR 0xBE, CHR 0xE6, CHR 0x99, CHR 0x92, CHR 0xE4, CHR 0xBD, CHR 0x86,
      CHR 0xE6, CHR 0x9C, CHR 0x89, CHR 0xE9, CHR 0xA3, CHR 0x8E, CHR 0xE9, CHR 0x99, CHR 0xA9, CHR 0xEF,
      CHR 0xBC, CHR 0x89]"

definition txt_saved :: js_string where
  "txt_saved =
     [CHR 0xE8, CHR 0xAE, CHR 0xBE, CHR 0xE7, CHR 0xBD, CHR 0xAE, CHR 0xE4, CHR 0xBF, CHR 0x9D, CHR 0xE5,
      CHR 0xAD, CHR 0x98, CHR 0xE6, CHR 0x88, CHR 0x90, CHR 0xE5, CHR 0x8A, CHR 0x9F]"

definition txt_reset_title :: js_string where
  "txt_reset_title =
     [CHR 0xE7, CHR 0xA1, CHR 0xAE, CHR 0xE8, CHR 0xAE, CHR 0xA4, CHR 0xE6, CHR 0x81, CHR 0xA2, CHR 0xE5,
      CHR 0xA4, CHR 0x8D, CHR 0xE9, CHR 0xBB, CHR 0x98, CHR 0xE8, CHR 0xAE, CHR 0xA4]"

definition txt_reset_content :: js_string where
  "txt_reset_content =
     [CHR 0xE7, CHR 0xA1, CHR 0xAE, CHR 0xE5, CHR 0xAE, CHR 0x9A, CHR 0xE8, CHR 0xA6, CHR 0x81, CHR 0xE6,
      CHR 0x81, CHR 0xA2, CHR 0xE5, CHR 0xA4, CHR 0x8D, CHR 0xE6, CHR 0x89, CHR 0x80, CHR 0xE6, CHR 0x9C,
      CHR 0x89, CHR 0xE8, CHR 0xAE, CHR 0xBE, CHR 0xE7, CHR 0xBD, CHR 0xAE, CHR 0xE4, CHR 0xB8, CHR 0xBA,
      CHR 0xE9, CHR 0xBB, CHR 0x98, CHR 0xE8, CHR 0xAE, CHR 0xA4, CHR 0xE5, CHR 0x80, CHR 0xBC, CHR 0xE5,
      CHR 0x90, CHR 0x97, CHR 0xEF, CHR 0xBC, CHR 0x9F]"

definition txt_reset_done :: js_string where
  "txt_reset_done =
     [CHR 0xE5, CHR 0xB7, CHR 0xB2, CHR 0xE6, CHR 0x81, CHR 0xA2, CHR 0xE5, CHR 0xA4, CHR 0x8D, CHR 0xE9,
      CHR 0xBB, CHR 0x98, CHR 0xE8, CHR 0xAE, CHR 0xA4, CHR 0xE8, CHR 0xAE, CHR 0xBE, CHR 0xE7, CHR 0xBD,
      CHR 0xAE]"

record preferences =
  pr_workStart :: js_string
  pr_workEnd :: js_string
  preference :: real

text \<open>\<open>globalData.preferences\<close> of \<open>app.js\<close>.\<close>

definition default_prefs :: preferences where
  "default_prefs = \<lparr>pr_workStart = ''09:00'', pr_workEnd = ''18:00'', preference = 0.5\<rparr>"

text \<open>\<open>App.onLaunch()\<close>: the stored user info, when there is one, and the system
  info the \<open>wx.getSystemInfo\<close> callback delivers, copied into \<open>globalData\<close>; the
  preferences keep their defaults.\<close>

record ('u, 's) app_global =
  userInfo :: "'u option"
  systemInfo :: "'s option"
  gd_preferences :: preferences

definition app_global_initial :: "('u, 's) app_global" where
  "app_global_initial = \<lparr>userInfo = None, systemInfo = None, gd_preferences = default_prefs\<rparr>"

definition onLaunch :: "'u option \<Rightarrow> 's option \<Rightarrow> ('u, 's) app_global \<Rightarrow> ('u, 's) app_global" where
  "onLaunch storedUser sysInfo g =
     (let g1 = (case storedUser of Some u \<Rightarrow> g\<lparr>userInfo := Some u\<rparr> | None \<Rightarrow> g)
      in case sysInfo of Some r \<Rightarrow> g1\<lparr>systemInfo := Some r\<rparr> | None \<Rightarrow> g1)"

record settings_data =
  workStart :: js_string
  workEnd :: js_string
  preferenceValue :: real
  preferenceText :: js_string

definition initial_settings :: settings_data where
  "initial_settings = \<lparr>workStart = ''09:00'', workEnd = ''18:00'', preferenceValue = 5,
                        preferenceText = txt_balanced_short\<rparr>"

definition getPreferenceText :: "real \<Rightarrow> js_string" where
  "getPreferenceText p = (if p \<le> 0.3 then txt_safety else if p \<le> 0.7 then txt_balanced else txt_speed)"

record settings_world =
  page :: settings_data
  stored :: "preferences option"
  global_prefs :: preferences

datatype ui_effect = Toast js_string | ShowModal js_string js_string | NavigateBack

datatype settings_event =
    Load
  | WorkStartChange js_string
  | WorkEndChange js_string
  | PreferenceChange real
  | Save
  | Reset bool

text \<open>\<open>loadSettings()\<close> (also the body of \<open>onLoad\<close>).\<close>

definition loadSettings :: "settings_world \<Rightarrow> settings_world" where
  "loadSettings w =
     (let prefs = (case stored w of Some p \<Rightarrow> p | None \<Rightarrow> global_prefs w)
      in w\<lparr>page := (page w)\<lparr>workStart := pr_workStart prefs, workEnd := pr_workEnd prefs,
                             preferenceValue := preference prefs * 10,
                             preferenceText := getPreferenceText (preference prefs)\<rparr>\<rparr>)"

definition onPreferenceChange :: "real \<Rightarrow> settings_world \<Rightarrow> settings_world" where
  "onPreferenceChange value w =
     (let pref = value / 10
      in w\<lparr>page := (page w)\<lparr>preferenceValue := value, preferenceText := getPreferenceText pref\<rparr>\<rparr>)"

text \<open>\<open>saveSettings()\<close>: storage and global preferences, the toast, and
  \<open>navigateBack\<close> 1.5 seconds later.\<close>

definition saveSettings :: "settings_world \<Rightarrow> settings_world \<times> ui_effect list" where
  "saveSettings w =
     (let prefs = \<lparr>pr_workStart = workStart (page w), pr_workEnd = workEnd (page w),
                   preference = preferenceValue (page w) / 10\<rparr>
      in (w\<lparr>stored := Some prefs, global_prefs := prefs\<rparr>, [Toast txt_saved, NavigateBack]))"

text \<open>\<open>resetSettings()\<close>: the modal, then on confirmation the default value and
  work hours (the preference text is not reset) and a toast.\<close>

definition resetSettings :: "bool \<Rightarrow> settings_world \<Rightarrow> settings_world \<times> ui_effect list" where
  "resetSettings confirm w =
     (if confirm
      then (w\<lparr>page := (page w)\<lparr>preferenceValue := 5, workStart := ''09:00'', workEnd := ''18:00''\<rparr>\<rparr>,
            [ShowModal txt_reset_title txt_reset_content, Toast txt_reset_done])
      else (w, [ShowModal txt_reset_title txt_reset_content]))"

fun settings_step :: "settings_event \<Rightarrow> settings_world \<Rightarrow> settings_world \<times> ui_effect list" where
  "settings_step Load w = (loadSettings w, [])"
| "settings_step (WorkStartChange v) w = (w\<lparr>page := (page w)\<lparr>workStart := v\<rparr>\<rparr>, [])"
| "settings_step (WorkEndChange v) w = (w\<lparr>page := (page w)\<lparr>workEnd := v\<rparr>\<rparr>, [])"
| "settings_step (PreferenceChange v) w = (onPreferenceChange v w, [])"
| "settings_step Save w = saveSettings w"
| "settings_step (Reset c) w = resetSettings c w"

text \<open>The slider of the page produces values in \<open>[0, 10]\<close>; a stored preference is a
  fraction in \<open>[0, 1]\<close>.\<close>

fun event_ok :: "settings_event \<Rightarrow> bool" where
  "event_ok (PreferenceChange v) \<longleftrightarrow> 0 \<le> v \<and> v \<le> 10"
| "event_ok _ \<longleftrightarrow> True"

definition prefs_ok :: "preferences \<Rightarrow> bool" where
  "prefs_ok p \<longleftrightarrow> 0 \<le> preference p \<and> preference p \<le> 1"

inductive settings_reach :: "settings_world \<Rightarrow> bool" where
  init: "(case sto of None \<Rightarrow> True | Some p \<Rightarrow> prefs_ok p) \<Longrightarrow>
         settings_reach \<lparr>page = initial_settings, stored = sto, global_prefs = default_prefs\<rparr>"
| step: "settings_reach w \<Longrightarrow> event_ok ev \<Longrightarrow> settings_reach (fst (settings_step ev w))"

text \<open>The page's text describes its slider value.\<close>

definition text_consistent :: "settings_data \<Rightarrow> bool" where
  "text_consistent d \<longleftrightarrow> preferenceText d = getPreferenceText (preferenceValue d / 10)"

text \<open>A run of events from a state, with the UI calls in order.\<close>

fun settings_run :: "settings_event list \<Rightarrow> settings_world \<Rightarrow> settings_world \<times> ui_effect list" where
  "settings_run [] w = (w, [])"
| "settings_run (ev # evs) w =
     (let (w1, e1) = settings_step ev w; (w2, e2) = settings_run evs w1 in (w2, e1 @ e2))"


text \<open>The page as it opens, with nothing stored yet.\<close>

definition settings_start :: settings_world where
  "settings_start = \<lparr>page = initial_settings, stored = None, global_prefs = default_prefs\<rparr>"

text \<open>The ranges of the state.\<close>

definition settings_ok :: "settings_world \<Rightarrow> bool" where
  "settings_ok w \<longleftrightarrow> 0 \<le> preferenceValue (page w) \<and> preferenceValue (page w) \<le> 10 \<and> prefs_ok (global_prefs w)
     \<and> (case stored w of None \<Rightarrow> True | Some p \<Rightarrow> prefs_ok p)"

subsection \<open>Lemmas\<close>

lemma pref_texts_distinct [simp]:
  "txt_safety \<noteq> txt_balanced" "txt_balanced \<noteq> txt_speed" "txt_safety \<noteq> txt_speed"
  by (simp_all add: txt_safety_def txt_balanced_def txt_speed_def)

lemma handler_fields [simp]:
  "stored (loadSettings w) = stored w" "global_prefs (loadSettings w) = global_prefs w"
  "stored (onPreferenceChange x w) = stored w" "global_prefs (onPreferenceChange x w) = global_prefs w"
  "page (onPreferenceChange x w)
     = (page w)\<lparr>preferenceValue := x, preferenceText := getPreferenceText (x / 10)\<rparr>"
  "page (fst (saveSettings w)) = page w"
  "stored (fst (saveSettings w)) = Some \<lparr>pr_workStart = workStart (page w), pr_workEnd = workEnd (page w),
                                          preference = preferenceValue (page w) / 10\<rparr>"
  "global_prefs (fst (saveSettings w)) = \<lparr>pr_workStart = workStart (page w), pr_workEnd = workEnd (page w),
                                          preference = preferenceValue (page w) / 10\<rparr>"
  "stored (fst (resetSettings c w)) = stored w" "global_prefs (fst (resetSettings c w)) = global_prefs w"
  "page (fst (resetSettings c w))
     = (if c then (page w)\<lparr>preferenceValue := 5, workStart := ''09:00'', workEnd := ''18:00''\<rparr> else page w)"
  by (simp_all add: loadSettings_def onPreferenceChange_def saveSettings_def resetSettings_def Let_def)

lemma loaded_prefs:
  "page (loadSettings w) =
     (page w)\<lparr>workStart := pr_workStart (case stored w of Some p \<Rightarrow> p | None \<Rightarrow> global_prefs w),
              workEnd := pr_workEnd (case stored w of Some p \<Rightarrow> p | None \<Rightarrow> global_prefs w),
              preferenceValue := preference (case stored w of Some p \<Rightarrow> p | None \<Rightarrow> global_prefs w) * 10,
              preferenceText := getPreferenceText (preference (case stored w of Some p \<Rightarrow> p | None \<Rightarrow> global_prefs w))\<rparr>"
  by (simp add: loadSettings_def Let_def)

lemma settings_ok_step:
  assumes "settings_ok w" "event_ok ev"
  shows "settings_ok (fst (settings_step ev w))"
proof (cases ev)
  case Load
  have "prefs_ok (case stored w of Some p \<Rightarrow> p | None \<Rightarrow> global_prefs w)"
    using assms(1) by (auto simp: settings_ok_def split: option.splits)
  then show ?thesis
    using assms(1) Load by (simp add: settings_ok_def loaded_prefs prefs_ok_def)
next
  case Save
  then show ?thesis
    using assms(1) by (simp add: settings_ok_def prefs_ok_def)
qed (use assms in \<open>auto simp: settings_ok_def\<close>)

text \<open>
  C23: in every reachable state of the settings page the slider value is in
  \<open>[0, 10]\<close> and the global and the stored preference are fractions in \<open>[0, 1]\<close>:
  loading multiplies a fraction by ten and saving divides the value by ten.
\<close>

theorem settings_reach_ok:
  assumes "settings_reach w"
  shows "0 \<le> preferenceValue (page w) \<and> preferenceValue (page w) \<le> 10 \<and> prefs_ok (global_prefs w)
         \<and> (case stored w of None \<Rightarrow> True | Some p \<Rightarrow> prefs_ok p)"
proof -
  from assms have "settings_ok w"
  proof induction
    case (init sto)
    then show ?case by (simp add: settings_ok_def initial_settings_def default_prefs_def prefs_ok_def)
  next
    case (step w ev)
    from step.IH step.hyps(2) show ?case by (rule settings_ok_step)
  qed
  then show ?thesis by (simp add: settings_ok_def)
qed

text \<open>
  C24: loading the settings makes the preference text describe the slider value, and
  every event but a confirmed reset keeps it so.
\<close>

theorem settings_text_invariant:
  "text_consistent (page (fst (settings_step Load w))) \<and>
   (ev \<noteq> Reset True \<longrightarrow> text_consistent (page w) \<longrightarrow> text_consistent (page (fst (settings_step ev w))))"
  by (cases ev) (auto simp: text_consistent_def loaded_prefs)

text \<open>
  C25: a confirmed reset sets the slider back to 5 but keeps the old text: from any page
  whose text describes a slider value outside the balanced band (at most 3 or above 7),
  the reset leaves the value 5 with the old ``safety first'' or ``speed first'' text,
  which no longer describes it.
\<close>

theorem settings_reset_stale_text:
  assumes "text_consistent (page w)" "preferenceValue (page w) \<le> 3 \<or> 7 < preferenceValue (page w)"
  shows "let w' = fst (resetSettings True w)
         in preferenceValue (page w') = 5 \<and> preferenceText (page w') = preferenceText (page w) \<and>
            \<not> text_consistent (page w')"
  using assms
  by (auto simp: text_consistent_def getPreferenceText_def Let_def txt_speed_def txt_balanced_def txt_safety_def)

text \<open>
  C26: saving and loading again restores the page: \<open>saveSettings\<close> stores the work
  hours and the value divided by ten, \<open>loadSettings\<close> reads them back and multiplies by
  ten, and the text is recomputed from the same fraction.
\<close>

theorem settings_save_load_roundtrip:
  assumes "text_consistent (page w)"
  shows "page (loadSettings (fst (saveSettings w))) = page w \<and> stored (fst (saveSettings w)) = Some (global_prefs (fst (saveSettings w)))"
  using assms by (simp add: loadSettings_def saveSettings_def text_consistent_def Let_def)

theorem settings_reach_ok_witness:
  "0 \<le> preferenceValue (page (fst (settings_step (PreferenceChange 3) (fst (settings_step Load settings_start))))) \<and>
   preferenceValue (page (fst (settings_step (PreferenceChange 3) (fst (settings_step Load settings_start))))) \<le> 10 \<and>
   prefs_ok (global_prefs (fst (settings_step (PreferenceChange 3) (fst (settings_step Load settings_start))))) \<and>
   (case stored (fst (settings_step (PreferenceChange 3) (fst (settings_step Load settings_start)))) of
      None \<Rightarrow> True | Some p \<Rightarrow> prefs_ok p)"
proof (rule settings_reach_ok)
  have "settings_reach settings_start"
    unfolding settings_start_def by (rule settings_reach.init) simp
  then have "settings_reach (fst (settings_step Load settings_start))"
    by (rule settings_reach.step) simp
  then show "settings_reach (fst (settings_step (PreferenceChange 3) (fst (settings_step Load settings_start))))"
    by (rule settings_reach.step) simp
qed

theorem settings_text_invariant_witness:
  "text_consistent (page (fst (settings_step Load settings_start))) \<and>
   text_consistent (page (fst (settings_step (PreferenceChange 3) (fst (settings_step Load settings_start)))))"
proof -
  have a: "text_consistent (page (fst (settings_step Load settings_start)))"
    using settings_text_invariant [of settings_start Load] by simp
  have "PreferenceChange 3 \<noteq> Reset True" by simp
  then show ?thesis
    using a settings_text_invariant [of "fst (settings_step Load settings_start)" "PreferenceChange 3"] by simp
qed

theorem settings_save_load_roundtrip_witness:
  "page (loadSettings (fst (saveSettings (fst (settings_step Load settings_start)))))
     = page (fst (settings_step Load settings_start)) \<and>
   stored (fst (saveSettings (fst (settings_step Load settings_start))))
     = Some (global_prefs (fst (saveSettings (fst (settings_step Load settings_start)))))"
proof (rule settings_save_load_roundtrip)
  show "text_consistent (page (fst (settings_step Load settings_start)))"
    by (simp add: text_consistent_def loaded_prefs settings_start_def default_prefs_def)
qed

theorem settings_reset_stale_text_witness:
  "let w' = fst (resetSettings True \<lparr>page = initial_settings\<lparr>preferenceValue := 1, preferenceText := txt_safety\<rparr>,
                                      stored = None, global_prefs = default_prefs\<rparr>)
   in preferenceValue (page w') = 5 \<and> preferenceText (page w') =
        preferenceText (page \<lparr>page = initial_settings\<lparr>preferenceValue := 1, preferenceText := txt_safety\<rparr>,
                              stored = None, global_prefs = default_prefs\<rparr>) \<and>
      \<not> text_consistent (page w')"
  by (rule settings_reset_stale_text) (simp_all add: text_consistent_def getPreferenceText_def)

end
