(* ===== verification/Navigation.thy ===== *)
theory Navigation
  imports IndexPage Settings Charts
begin

text \<open>
  The three pages composed into one app, and the navigation between them. The index and
  forecast pages are tab pages (\<open>goToForecast\<close> and \<open>goBack\<close> reach them with
  \<open>wx.switchTab\<close>); the settings page is a page above the index page, opened with
  \<open>wx.navigateTo\<close> by \<open>goToSettings\<close> (\<open>pages/index/index.js\<close>) and closed with
  \<open>wx.navigateBack\<close> by \<open>saveSettings\<close> (\<open>pages/settings/settings.js\<close>). The page
  stack is a list, the page shown last. The platform calls behave as documented:
  \<open>switchTab\<close> closes every page that is not a tab page and shows the tab;
  \<open>navigateTo\<close> pushes a new page instance (not a tab page, at most ten levels) and runs
  its \<open>onLoad\<close>; \<open>navigateBack\<close> closes the page shown, and fails on the first page.
  Showing the forecast tab runs its \<open>onShow\<close> (\<open>forecast_onShow\<close>), which reads
  \<open>app.globalData.forecastsData\<close>; only \<open>goToForecast\<close> writes it. A handler runs only
  on the page it belongs to, when that page is shown; the tab bar is shown on tab pages.
  The fetch client, the time zone, the day of the month and the canvas sizes are the
  environment, parameters of the step.
\<close>

datatype mp_page = IndexPg | ForecastPg | SettingsPg

definition is_tab :: "mp_page \<Rightarrow> bool" where
  "is_tab p \<longleftrightarrow> p = IndexPg \<or> p = ForecastPg"

definition on_top :: "mp_page \<Rightarrow> mp_page list \<Rightarrow> bool" where
  "on_top p ps \<longleftrightarrow> ps \<noteq> [] \<and> last ps = p"

definition switchTab :: "mp_page \<Rightarrow> mp_page list \<Rightarrow> mp_page list" where
  "switchTab p ps = (if is_tab p then [p] else ps)"

definition navigateTo :: "mp_page \<Rightarrow> mp_page list \<Rightarrow> mp_page list" where
  "navigateTo p ps = (if is_tab p \<or> 10 \<le> length ps then ps else ps @ [p])"

definition navigateBack :: "mp_page list \<Rightarrow> mp_page list" where
  "navigateBack ps = (if length ps \<le> 1 then ps else butlast ps)"

text \<open>A new instance of the settings page: its initial \<open>data\<close>, then \<open>onLoad()\<close>, which
  calls \<open>loadSettings()\<close>; the storage and \<open>app.globalData\<close> carry over.\<close>

definition settings_onLoad :: "settings_world \<Rightarrow> settings_world" where
  "settings_onLoad w = fst (settings_step Load (w\<lparr>page := initial_settings\<rparr>))"

text \<open>The app: the page stack, the \<open>setTimeout\<close> callbacks of \<open>saveSettings\<close> still
  pending (each calls \<open>wx.navigateBack()\<close>, whatever page is shown then),
  \<open>app.globalData.forecastsData\<close>, and the state of each page (the settings page's data
  belongs to its latest instance).\<close>

record mp_app =
  pages :: "mp_page list"
  timers :: nat
  forecastsData :: "forecast list option"
  index_w :: index_world
  forecast_p :: forecast_page
  settings_w :: settings_world

definition forecast_initial :: forecast_page where
  "forecast_initial = \<lparr>fp_forecasts = []\<rparr>"

text \<open>\<open>wx.switchTab\<close> to a tab page, with the forecast page's \<open>onShow\<close> when it comes
  to the front.\<close>

definition switch_tab :: "(real \<times> real) option \<Rightarrow> (real \<times> real) option \<Rightarrow> mp_page \<Rightarrow> mp_app \<Rightarrow> mp_app" where
  "switch_tab tempRect humRect p st =
     (if \<not> is_tab p then st
      else let st' = st\<lparr>pages := switchTab p (pages st)\<rparr>
           in if p = ForecastPg \<and> \<not> on_top ForecastPg (pages st)
              then st'\<lparr>forecast_p := fst (forecast_onShow (forecastsData st) tempRect humRect (forecast_p st))\<rparr>
              else st')"

text \<open>\<open>goToForecast()\<close>: when the page has forecasts, store them in
  \<open>app.globalData.forecastsData\<close>, then switch to the forecast tab.\<close>

definition index_goToForecast :: "(real \<times> real) option \<Rightarrow> (real \<times> real) option \<Rightarrow> mp_app \<Rightarrow> mp_app" where
  "index_goToForecast tempRect humRect st =
     (case goToForecast (ix_page (index_w st)) of
        None \<Rightarrow> st
      | Some fs \<Rightarrow> switch_tab tempRect humRect ForecastPg (st\<lparr>forecastsData := Some fs\<rparr>))"

text \<open>\<open>goToSettings()\<close>: \<open>wx.navigateTo\<close> the settings page.\<close>

definition goToSettings :: "mp_app \<Rightarrow> mp_app" where
  "goToSettings st =
     (let ps = navigateTo SettingsPg (pages st)
      in if ps = pages st then st else st\<lparr>pages := ps, settings_w := settings_onLoad (settings_w st)\<rparr>)"

text \<open>\<open>goBack()\<close> of the forecast page: \<open>wx.switchTab\<close> to the index page.\<close>

definition goBack :: "(real \<times> real) option \<Rightarrow> (real \<times> real) option \<Rightarrow> mp_app \<Rightarrow> mp_app" where
  "goBack tempRect humRect st = switch_tab tempRect humRect IndexPg st"

text \<open>A settings handler; its \<open>navigateBack\<close> effect is the \<open>setTimeout\<close> of
  \<open>saveSettings\<close>, which schedules the call for 1.5 seconds later.\<close>

definition settings_handler :: "settings_event \<Rightarrow> mp_app \<Rightarrow> mp_app" where
  "settings_handler ev st =
     (let (w', effs) = settings_step ev (settings_w st)
      in st\<lparr>settings_w := w', timers := timers st + count_list effs NavigateBack\<rparr>)"

text \<open>A pending callback runs: \<open>wx.navigateBack()\<close>.\<close>

definition timer_fires :: "mp_app \<Rightarrow> mp_app" where
  "timer_fires st = (if timers st = 0 then st else st\<lparr>timers := timers st - 1, pages := navigateBack (pages st)\<rparr>)"

datatype app_event =
    ChooseLocation choose_result \<comment> \<open>the index page's location button\<close>
  | TapForecast \<comment> \<open>the index page's forecast button, \<open>goToForecast\<close>\<close>
  | TapSettings \<comment> \<open>the index page's settings button, \<open>goToSettings\<close>\<close>
  | TapBack \<comment> \<open>the forecast page's back button, \<open>goBack\<close>\<close>
  | SettingsEvent settings_event \<comment> \<open>a handler of the settings page\<close>
  | TapTab mp_page \<comment> \<open>the tab bar\<close>
  | SystemBack \<comment> \<open>the back arrow of the navigation bar, shown above the first page\<close>
  | TimerFires \<comment> \<open>a pending \<open>setTimeout\<close> callback runs\<close>

fun app_step ::
    "(location \<Rightarrow> weather_data) \<Rightarrow> int \<Rightarrow> nat \<Rightarrow> (real \<times> real) option \<Rightarrow> (real \<times> real) option
     \<Rightarrow> app_event \<Rightarrow> mp_app \<Rightarrow> mp_app" where
  "app_step f tz d rT rH (ChooseLocation r) st =
     (if on_top IndexPg (pages st) then st\<lparr>index_w := handleChooseLocation f tz d r (index_w st)\<rparr> else st)"
| "app_step f tz d rT rH TapForecast st =
     (if on_top IndexPg (pages st) then index_goToForecast rT rH st else st)"
| "app_step f tz d rT rH TapSettings st = (if on_top IndexPg (pages st) then goToSettings st else st)"
| "app_step f tz d rT rH TapBack st = (if on_top ForecastPg (pages st) then goBack rT rH st else st)"
| "app_step f tz d rT rH (SettingsEvent ev) st =
     (if on_top SettingsPg (pages st) then settings_handler ev st else st)"
| "app_step f tz d rT rH (TapTab p) st =
     (if pages st \<noteq> [] \<and> is_tab (last (pages st)) then switch_tab rT rH p st else st)"
| "app_step f tz d rT rH SystemBack st = (if 1 < length (pages st) then st\<lparr>pages := navigateBack (pages st)\<rparr> else st)"
| "app_step f tz d rT rH TimerFires st = timer_fires st"

definition app_run ::
    "(location \<Rightarrow> weather_data) \<Rightarrow> int \<Rightarrow> nat \<Rightarrow> (real \<times> real) option \<Rightarrow> (real \<times> real) option
     \<Rightarrow> app_event list \<Rightarrow> mp_app \<Rightarrow> mp_app" where
  "app_run f tz d rT rH evs st = foldl (\<lambda>s ev. app_step f tz d rT rH ev s) st evs"

text \<open>The events a user can cause: \<open>onLoad\<close> of the settings page is not one of them (it runs
  when the page opens), and the slider gives values in \<open>[0, 10]\<close>.\<close>

fun app_event_ok :: "app_event \<Rightarrow> bool" where
  "app_event_ok (SettingsEvent ev) \<longleftrightarrow> ev \<noteq> Load \<and> event_ok ev"
| "app_event_ok _ \<longleftrightarrow> True"

text \<open>Launch: \<open>onLaunch\<close> sets the default preferences, the index page opens and runs its
  \<open>onLoad\<close>; the storage may hold a location and preferences a slider wrote.\<close>

definition app_launch ::
    "(location \<Rightarrow> weather_data) \<Rightarrow> int \<Rightarrow> nat \<Rightarrow> choose_result \<Rightarrow> location option \<Rightarrow> preferences option \<Rightarrow> mp_app" where
  "app_launch f tz d r sloc sprefs =
     \<lparr>pages = [IndexPg], timers = 0, forecastsData = None,
      index_w = index_onLoad f tz d r \<lparr>ix_page = index_initial, ix_stored_loc = sloc, ix_global_loc = None\<rparr>,
      forecast_p = forecast_initial,
      settings_w = \<lparr>page = initial_settings, stored = sprefs, global_prefs = default_prefs\<rparr>\<rparr>"

inductive app_reach ::
    "(location \<Rightarrow> weather_data) \<Rightarrow> int \<Rightarrow> nat \<Rightarrow> (real \<times> real) option \<Rightarrow> (real \<times> real) option \<Rightarrow> mp_app \<Rightarrow> bool"
  for f tz d rT rH where
  launch: "(case sprefs of None \<Rightarrow> True | Some p \<Rightarrow> prefs_ok p) \<Longrightarrow> app_reach f tz d rT rH (app_launch f tz d r sloc sprefs)"
| step: "app_reach f tz d rT rH st \<Longrightarrow> app_event_ok ev \<Longrightarrow> app_reach f tz d rT rH (app_step f tz d rT rH ev st)"

text \<open>The page stacks the app can show: a tab page alone, or the settings page above the
  index page.\<close>

definition nav_ok :: "mp_page list \<Rightarrow> bool" where
  "nav_ok ps \<longleftrightarrow> ps = [IndexPg] \<or> ps = [ForecastPg] \<or> ps = [IndexPg, SettingsPg]"

definition app_ok :: "mp_app \<Rightarrow> bool" where
  "app_ok st \<longleftrightarrow> nav_ok (pages st) \<and> settings_ok (settings_w st)"

subsection \<open>Properties\<close>


lemma switch_tab_fields [simp]:
  "pages (switch_tab rT rH p st) = switchTab p (pages st)"
  "timers (switch_tab rT rH p st) = timers st"
  "settings_w (switch_tab rT rH p st) = settings_w st"
  "forecastsData (switch_tab rT rH p st) = forecastsData st"
  "index_w (switch_tab rT rH p st) = index_w st"
  by (simp_all add: switch_tab_def switchTab_def Let_def)

lemma index_goToForecast_fields [simp]:
  "settings_w (index_goToForecast rT rH st) = settings_w st"
  "timers (index_goToForecast rT rH st) = timers st"
  "index_w (index_goToForecast rT rH st) = index_w st"
  by (simp_all add: index_goToForecast_def split: option.split)

lemma index_goToForecast_pages:
  "pages (index_goToForecast rT rH st) \<in> {pages st, [ForecastPg]}"
  by (simp add: index_goToForecast_def switchTab_def is_tab_def split: option.split)

lemma settings_handler_fields [simp]:
  "pages (settings_handler ev st) = pages st"
  "settings_w (settings_handler ev st) = fst (settings_step ev (settings_w st))"
  "forecastsData (settings_handler ev st) = forecastsData st"
  "timers (settings_handler ev st) = timers st + count_list (snd (settings_step ev (settings_w st))) NavigateBack"
  by (simp_all add: settings_handler_def split: prod.split)

lemma timer_fires_fields [simp]:
  "settings_w (timer_fires st) = settings_w st"
  "forecastsData (timer_fires st) = forecastsData st"
  by (simp_all add: timer_fires_def)

lemma settings_ok_onLoad:
  assumes "settings_ok w"
  shows "settings_ok (settings_onLoad w)"
proof -
  have "settings_ok (w\<lparr>page := initial_settings\<rparr>)"
    using assms by (simp add: settings_ok_def initial_settings_def)
  then show ?thesis unfolding settings_onLoad_def by (rule settings_ok_step) simp
qed

lemma nav_ok_navigateBack: "nav_ok ps \<Longrightarrow> nav_ok (navigateBack ps)"
  by (auto simp: nav_ok_def navigateBack_def)

lemma nav_ok_switchTab: "nav_ok ps \<Longrightarrow> nav_ok (switchTab p ps)"
  by (cases p) (simp_all add: nav_ok_def switchTab_def is_tab_def)

lemma goToSettings_ok:
  assumes "app_ok st" "on_top IndexPg (pages st)"
  shows "app_ok (goToSettings st)"
proof -
  have "pages st = [IndexPg]" using assms by (auto simp: app_ok_def nav_ok_def on_top_def)
  then show ?thesis using assms(1) settings_ok_onLoad
    by (simp add: goToSettings_def navigateTo_def is_tab_def app_ok_def nav_ok_def)
qed

lemma app_ok_step:
  assumes "app_ok st" "app_event_ok ev"
  shows "app_ok (app_step f tz d rT rH ev st)"
proof (cases ev)
  case TapForecast
  then show ?thesis using assms index_goToForecast_pages [of rT rH st]
    by (auto simp: app_ok_def nav_ok_def)
next
  case TapSettings
  then show ?thesis using assms goToSettings_ok by simp
next
  case (SettingsEvent e)
  then show ?thesis using assms settings_ok_step [of "settings_w st" e] by (simp add: app_ok_def)
next
  case TimerFires
  then show ?thesis using assms nav_ok_navigateBack by (simp add: timer_fires_def app_ok_def)
next
  case SystemBack
  then show ?thesis using assms nav_ok_navigateBack by (simp add: app_ok_def)
qed (use assms nav_ok_switchTab in \<open>simp_all add: goBack_def app_ok_def\<close>)

text \<open>
  C34: in every state the app can reach, the page stack is the index or the forecast tab
  alone, or the settings page above the index page (so \<open>navigateBack\<close> from the
  settings page always returns to the index page, and no call to \<open>navigateTo\<close> hits
  the ten-page limit), and the settings page's slider and the preferences stored and in
  \<open>app.globalData\<close> stay in range.
\<close>

theorem app_reach_ok: "app_reach f tz d rT rH st \<Longrightarrow> app_ok st"
proof (induction rule: app_reach.induct)
  case (launch sprefs r sloc)
  then show ?case
    by (simp add: app_launch_def app_ok_def nav_ok_def settings_ok_def initial_settings_def prefs_ok_def default_prefs_def)
next
  case (step st ev)
  then show ?case using app_ok_step [OF step.IH step.hyps(2)] by simp
qed

text \<open>
  C35: the delayed \<open>navigateBack\<close> of \<open>saveSettings\<close> closes whatever page is shown when
  it fires. Saving, leaving the settings page with the back arrow and opening it again
  within 1.5 seconds shows a new settings page, which the first page's pending callback
  then closes without any action on it.
\<close>

theorem stale_timer_closes_settings:
  assumes "pages st = [IndexPg, SettingsPg]" "timers st = 0"
  shows "pages (app_run f tz d rT rH [SettingsEvent Save, SystemBack, TapSettings] st) = [IndexPg, SettingsPg] \<and>
         pages (app_run f tz d rT rH [SettingsEvent Save, SystemBack, TapSettings, TimerFires] st) = [IndexPg]"
  using assms
  by (simp add: app_run_def on_top_def saveSettings_def goToSettings_def navigateTo_def navigateBack_def
      is_tab_def timer_fires_def Let_def)

text \<open>
  C36: the forecast tab shows the forecasts last handed over by the forecast button, not
  the index page's: after the index page fetches for a newly chosen location, tapping
  the forecast tab shows the forecasts \<open>goToForecast\<close> stored before, whatever the
  page now holds, while the forecast button shows the page's current ones (when it has
  any). Only \<open>goToForecast\<close> writes \<open>app.globalData.forecastsData\<close>.
\<close>

theorem forecast_tab_stale:
  assumes "on_top IndexPg (pages st)" "forecastsData st = Some fs" "fs \<noteq> []"
  shows "let st' = app_step f tz d rT rH (ChooseLocation r) st
         in fp_forecasts (forecast_p (app_step f tz d rT rH (TapTab ForecastPg) st')) = fs \<and>
            fp_forecasts (forecast_p (app_step f tz d rT rH TapForecast st')) =
              (if ix_forecasts (ix_page (index_w st')) \<noteq> [] then ix_forecasts (ix_page (index_w st'))
               else fp_forecasts (forecast_p st))"
  using assms
  by (simp add: on_top_def switch_tab_def switchTab_def is_tab_def forecast_onShow_def index_goToForecast_def
      goToForecast_def Let_def)

text \<open>
  C37: saving returns to the index page once the delayed \<open>navigateBack\<close> has run, and
  opening the settings again shows a new page with the saved work hours and slider value,
  its text describing the value.
\<close>

theorem settings_reopen_roundtrip:
  assumes "pages st = [IndexPg, SettingsPg]"
  shows "let st' = app_run f tz d rT rH [SettingsEvent Save, TimerFires, TapSettings] st
         in pages st' = [IndexPg, SettingsPg] \<and>
            workStart (page (settings_w st')) = workStart (page (settings_w st)) \<and>
            workEnd (page (settings_w st')) = workEnd (page (settings_w st)) \<and>
            preferenceValue (page (settings_w st')) = preferenceValue (page (settings_w st)) \<and>
            text_consistent (page (settings_w st'))"
  using assms
  by (simp add: app_run_def on_top_def saveSettings_def goToSettings_def navigateTo_def navigateBack_def
      is_tab_def timer_fires_def settings_onLoad_def loaded_prefs text_consistent_def Let_def)

end
