(* ===== verification/Spec2Isabelle.thy ===== *)
theory Spec2Isabelle
  imports Prelude Score Normalizer Daily Phases Hourly Pills Recommend DateLabel Forecast Fetch IndexPage JsNumber Charts Mock Settings Navigation
begin

text \<open>
  A verification development of the weather mini-program \<open>src/weather\<close>: a WeChat app
  that fetches a five-day Open-Meteo forecast and turns it into a laundry-drying
  forecast. \<open>app.js\<close> holds the logic: its \<open>fetchWeather\<close> returns the raw series (or
  the synthetic fallback of \<open>getMockWeatherData\<close>) and \<open>processForecast\<close> turns it into
  five day records. The index page (\<open>pages/index/index.js\<close>) picks a location, calls
  both and hands the records through \<open>app.globalData\<close> to the forecast page
  (\<open>pages/forecast/forecast.js\<close>), which draws two charts; the settings page
  (\<open>pages/settings/settings.js\<close>) edits preferences kept in storage and
  \<open>app.globalData\<close>. The model is a shallow embedding: every function of the source is
  a HOL function of the same name over records and datatypes that mirror the JavaScript
  objects, thrown exceptions are the \<open>Inl\<close> branch of \<open>js_error + 'a\<close>, event handlers
  return the state they leave (and, on the settings page, the UI calls they make), and
  the ambient inputs (the network, the clock, the time zone, the location picker, the
  canvas size, the storage) are parameters.

  \<^bold>\<open>Theories and what they model.\<close>
  \<^item> \<open>Prelude\<close>: the JavaScript built-ins the pipeline uses (\<open>parseInt\<close>, \<open>substring\<close>,
    \<open>startsWith\<close>, \<open>String(n)\<close>, \<open>Math.round\<close>, \<open>toFixed(1)\<close>, array reads past the end,
    \<open>NaN\<close> comparisons), the exception monad \<open>ebind\<close>/\<open>emap\<close>, the colour datatype,
    the counted loop \<open>for (let i = lo; i <= hi; i++)\<close> as \<open>js_for_le\<close>, and the
    print/parse lemmas of decimal digits.
  \<^item> \<open>JsNumber\<close>: numbers with \<open>NaN\<close> and the infinities for the chart code, with
    \<open>parseFloat\<close>, \<open>toFixed(0)\<close>, \<open>replace\<close> and \<open>trim\<close>.
  \<^item> \<open>Score\<close>: \<open>calculateDryingIndex\<close> (app.js 68--88).
  \<^item> \<open>Normalizer\<close>: the raw JSON records and the \<open>hourlyObjs\<close> map (91--105).
  \<^item> \<open>Daily\<close>: the day filter, \<open>arrAvg\<close>, \<open>Math.max\<close> and the daily score (109--119, 259).
  \<^item> \<open>Phases\<close>: the morning/noon/afternoon buckets and \<open>getPhaseStatus\<close> (121--152).
  \<^item> \<open>Hourly\<close>: the per-hour display records of day 0 (156--189).
  \<^item> \<open>Pills\<close>: the pill segmentation loop of the timeline (191--228), as a fold of the
    \<open>forEach\<close> body \<open>pill_step\<close> over the enumerated hours, against an abstract scan
    \<open>good_runs\<close> of the maximal runs of good hours.
  \<^item> \<open>Recommend\<close>: the recommendation text and colour (230--235).
  \<^item> \<open>DateLabel\<close>: \<open>formatDateDisplay\<close> (260--265), with the UTC-midnight reading of
    \<open>new Date('YYYY-MM-DD')\<close> made explicit through the local UTC offset.
  \<^item> \<open>Forecast\<close>: the whole of \<open>processForecast\<close> (91--256), the five-iteration loop
    as \<open>emap\<close> over \<open>[0..<5]\<close> of \<open>forecast_day\<close>.
  \<^item> \<open>Mock\<close>: \<open>getMockWeatherData\<close> (266--287) as a function of the clock, with
    \<open>toISOString\<close> through the days-to-civil conversion.
  \<^item> \<open>Fetch\<close>: \<open>fetchWeather\<close> (25--65): the URL built from the ordered \<open>params\<close>
    object and the fallback logic; \<open>wx.request\<close> is a function from the URL to its outcome.
  \<^item> \<open>IndexPage\<close>: the page data with the stored and global location; \<open>onLoad\<close>,
    \<open>handleChooseLocation\<close> (index.js 14--53), the page's \<open>fetchWeather\<close> handler
    (55--79) as the trace of the states after each \<open>setData\<close>, and \<open>goToForecast\<close>.
  \<^item> \<open>Charts\<close>: the forecast page's \<open>onShow\<close>, \<open>drawTempChart\<close>,
    \<open>drawSingleLine\<close>, \<open>drawLegend\<close> and \<open>drawHumidityChart\<close> (forecast.js 4--242) as
    the list of canvas calls they issue; the grid loops (\<open>temp_grid\<close>,
    \<open>humidity_grid\<close>) through \<open>js_for_le\<close>.
  \<^item> \<open>Settings\<close>: \<open>globalData\<close> and \<open>App.onLaunch\<close> (app.js 3--23), and the settings
    page (settings.js): a step function over its events and the inductive set of
    reachable states.
  \<^item> \<open>Navigation\<close>: the three pages composed into one app (\<open>app_step\<close> over the
    events of every page, \<open>app_reach\<close> from launch): the page stack under
    \<open>wx.switchTab\<close>, \<open>wx.navigateTo\<close> and \<open>wx.navigateBack\<close>, \<open>goToForecast\<close>'s
    hand-over through \<open>app.globalData.forecastsData\<close> to the forecast page's
    \<open>onShow\<close>, \<open>goToSettings\<close> (index.js 89--91), \<open>goBack\<close> (forecast.js
    244--247), a fresh settings page with its \<open>onLoad\<close> on every opening, and the
    \<open>setTimeout\<close> of \<open>saveSettings\<close> as a pending callback that fires later, in any
    order with the user's taps.
  \<^item> This theory: small fixtures (\<open>demo_data\<close>, \<open>demo_forecasts\<close>, \<open>demo_page\<close>,
    \<open>demo_app\<close>) and the properties that span components: fetch and fallback, pipeline,
    page, charts, and witnesses of the app-level properties.

  \<^bold>\<open>What is proved.\<close> The score is clamped into \<open>[0, 100]\<close> and monotone in each
  input; the pill loop is refined by the run scan (so the pills cover exactly the good
  hours, in order, with the widths and labels of the runs); the phase loop is the filter
  of the samples by a fixed hour window and adds each sample to exactly one bucket or
  none; the hour, phase and day colour rules are characterised on every branch; on
  well-shaped input the pipeline returns exactly five records whose dates are the daily
  dates, and of which only the first carries hourly records and pills; the error paths
  (missing hourly or daily arrays) are \<open>TypeError\<close> values of the result type, and an
  empty \<open>hourly.time\<close> hides missing value arrays. Pill labels end at the hour after
  the run, or at \<open>parseInt(startTime) + length\<close> at the end of the timeline. The index page always settles after \<open>onLoad\<close> (located, not
  loading, showing the forecasts or the error), and its handler makes exactly two
  updates. The temperature chart stays in its plot area when the temperatures are
  present, and the humidity chart except for days without samples. The settings state
  keeps its ranges in every reachable state, its text matches its slider except after a
  confirmed reset, which keeps a text that no longer describes the value, and save
  followed by load restores the page. In the composed
  app every reachable page stack is a tab alone or the settings page above the index
  page, and saving then reopening the settings shows the saved values. The mock
  timestamps parse back to their UTC hours. Each hypothesis-carrying theorem has a
  witness on a concrete input, evaluated by \<open>simp\<close> or \<open>code_simp\<close>.

  \<^bold>\<open>Findings.\<close> The fallback series has no daily temperature arrays, so
  \<open>processForecast\<close> throws on it and the page shows the network error at any time
  (\<open>fallback_ends_in_network_error\<close>); west of UTC each date is labelled with the
  previous day; a day with no sample has the maximal rain \<open>-Infinity\<close>, is rated
  ``suitable'' on the averages 0, and its rain point is computed at \<open>y = +Infinity\<close>;
  one missing daily temperature blanks both temperature lines; with a single forecast
  the humidity chart puts its label at \<open>x = NaN\<close>; the settings reset leaves a stale
  preference text; the saved preferences are never read by the forecast code; the
  delayed \<open>navigateBack\<close> of \<open>saveSettings\<close> closes a settings page reopened within
  1.5 seconds (\<open>stale_timer_closes_settings\<close>); the forecast tab shows the forecasts
  last handed over by the forecast button, stale after a change of location
  (\<open>forecast_tab_stale\<close>).

  \<^bold>\<open>Bounds and fuel.\<close> Every loop of the source runs over a finite array (\<open>forEach\<close>,
  \<open>map\<close>, \<open>filter\<close>, \<open>reduce\<close>, \<open>flatMap\<close>, a counted \<open>for\<close>), so each is a structural
  fold or map and no fuel is needed. The chart grid loops are written as the loop runs,
  \<open>js_for_le\<close>, a \<open>partial_function\<close> in the option monad whose equation alone does not
  bound the iterations; \<open>js_for_le_fold\<close> proves that it returns for every bound, by
  induction on \<open>hi - i + 1\<close>, so the charts never meet its \<open>None\<close>. The page stack is
  bounded by the platform's ten levels, and the invariant shows the app uses two. All
  other definitions are total, and all are executable except the mock temperatures,
  which use \<open>sin\<close> on reals.

  \<^bold>\<open>Not modelled.\<close> Floating-point rounding: numbers are exact reals, so
  \<open>toFixed\<close>, \<open>Math.round\<close> and the chart geometry act on exact values (the settings'
  division and multiplication by ten of the integer slider values are exact in binary64
  as well), and signed zero is not distinguished. \<open>toFixed\<close> above \<open>10^21\<close>, and
  \<open>parseInt\<close> and \<open>trim\<close> on non-ASCII white space. Daylight-saving changes in
  \<open>setDate\<close>. The asynchronous scheduling of \<open>boundingClientRect\<close> and of the
  awaited request (each handler is run to its end; only the \<open>setTimeout\<close> of
  \<open>saveSettings\<close> is a separate event), the toasts and modals beyond their texts,
  pages' \<open>onUnload\<close> (none is defined) and the tab bar's configuration file (not under
  \<open>src/\<close>: the tab pages are read off the \<open>switchTab\<close> calls), and the pixels a
  canvas call paints. The series are taken to be arrays of
  numbers and strings as the Open-Meteo API returns them (no \<open>null\<close> entries). An
  hourly value array shorter than \<open>hourly.time\<close>: the code reads \<open>undefined\<close> and
  goes on with \<open>NaN\<close> scores, which exact reals cannot represent; the model stops there
  with \<open>UndefinedNumber\<close>, which is not an exception of the code, and no property is
  claimed about such input (the pipeline properties assume well-shaped series).
\<close>

text \<open>A small well-shaped forecast: one hourly sample on the first of five days.\<close>

definition demo_hourly :: hourly_raw where
  "demo_hourly =
     \<lparr>hourly_time = Some [''2024-05-01T08:00''], temperature_2m = Some [20],
      relative_humidity_2m = Some [50], wind_speed_10m = Some [10], cloud_cover = Some [20],
      precipitation_probability = Some [0], uv_index = None\<rparr>"

definition demo_daily :: daily_raw where
  "demo_daily =
     \<lparr>daily_time = Some [''2024-05-01'', ''2024-05-02'', ''2024-05-03'', ''2024-05-04'', ''2024-05-05''],
      temperature_2m_max = Some [25, 26, 27, 28, 29], temperature_2m_min = Some [15, 16, 17, 18, 19]\<rparr>"

definition demo_data :: weather_data where
  "demo_data = \<lparr>hourly = Some demo_hourly, daily = Some demo_daily\<rparr>"

text \<open>The normalised sample of \<open>demo_data\<close> and the five records the pipeline builds.\<close>

definition demo_hs :: "hourly_obj list" where
  "demo_hs = [\<lparr>time = ''2024-05-01T08:00'', temp = 20, humidity = 50, wind = 10, cloud = 20, rainProb = 0, uv = 0\<rparr>]"

definition demo_forecasts :: "forecast list" where
  "demo_forecasts = map (day_record 480 1 demo_daily demo_hs) [0..<5]"

text \<open>The index page with the default location and nothing loaded yet.\<close>

definition demo_page :: index_data where
  "demo_page =
     \<lparr>ix_location = Some \<lparr>lat = ''39.9'', lon = ''116.4'', address = ''Beijing''\<rparr>,
      todayForecast = None, ix_forecasts = [], loading = False, ix_error = None\<rparr>"

text \<open>The app on the index page, with the pipeline's forecasts handed over once.\<close>

definition demo_app :: mp_app where
  "demo_app =
     \<lparr>pages = [IndexPg], timers = 0, forecastsData = Some demo_forecasts,
      index_w = \<lparr>ix_page = demo_page, ix_stored_loc = None, ix_global_loc = None\<rparr>,
      forecast_p = forecast_initial,
      settings_w = \<lparr>page = initial_settings, stored = None, global_prefs = default_prefs\<rparr>\<rparr>"

lemma demo_hourlyObjs: "hourlyObjs (hourly_or_empty demo_data) = Inr demo_hs"
proof -
  have "hourly_wf demo_hourly"
    by (simp add: hourly_wf_def demo_hourly_def covers_len_def)
  from hourlyObjs_wf [OF this] show ?thesis
    by (simp add: demo_data_def hourly_or_empty_def demo_hourly_def sample_at_def demo_hs_def)
qed

lemma demo_processForecast: "processForecast 480 1 demo_data = Inr demo_forecasts"
proof -
  have dl: "daily_or_empty demo_data = demo_daily"
    by (simp add: daily_or_empty_def demo_data_def)
  have wf: "daily_wf demo_daily"
    by (simp add: daily_wf_def demo_daily_def)
  show ?thesis
    by (simp add: processForecast_def demo_hourlyObjs dl emap_all_Inr forecast_day_wf [OF wf] demo_forecasts_def)
qed

subsection \<open>Properties of the whole pipeline\<close>

text \<open>
  C1: on well-shaped input \<open>processForecast\<close> returns (throws nothing), and returns
  exactly five forecast records whose dates are the first five entries of
  \<open>daily.time\<close>, in that order.
\<close>

theorem pipeline_five_days:
  assumes "hourly_wf (hourly_or_empty data)" "daily_wf (daily_or_empty data)"
  shows "\<exists>fs. processForecast tz nowDay data = Inr fs \<and> length fs = 5 \<and>
           map date fs = map (js_at (the (daily_time (daily_or_empty data)))) [0..<5]"
proof -
  obtain ts where ts: "hourly_time (hourly_or_empty data) = Some ts"
    using assms(1) by (auto simp: hourly_wf_def split: option.splits)
  show ?thesis
    using processForecast_wf [OF assms(1) ts assms(2)] by (simp add: day_record_fields)
qed

theorem pipeline_five_days_witness:
  "\<exists>fs. processForecast 480 1 demo_data = Inr fs \<and> length fs = 5 \<and>
     map date fs = map (js_at (the (daily_time (daily_or_empty demo_data)))) [0..<5]"
proof (rule pipeline_five_days)
  show "hourly_wf (hourly_or_empty demo_data)"
    by (simp add: hourly_wf_def demo_data_def hourly_or_empty_def demo_hourly_def covers_len_def)
  show "daily_wf (daily_or_empty demo_data)"
    by (simp add: daily_wf_def demo_data_def daily_or_empty_def demo_daily_def)
qed

text \<open>
  C15: only day 0 carries hourly display records and pills, built from that day's
  samples; the phase colours are computed for every one of the five days.
\<close>

theorem pipeline_day0_only:
  assumes "processForecast tz nowDay data = Inr fs" "hourlyObjs (hourly_or_empty data) = Inr hs"
  shows "hourly_data (fs ! 0) = processedHourly (dayHourlyData (day_key (date (fs ! 0))) hs) \<and>
         drying_pills_data (fs ! 0) = drying_pills (hourly_data (fs ! 0)) \<and>
         (\<forall>i \<in> {1..4}. hourly_data (fs ! i) = [] \<and> drying_pills_data (fs ! i) = []) \<and>
         (\<forall>i < 5. phases (fs ! i) = phaseData (dayHourlyData (day_key (date (fs ! i))) hs))"
proof -
  from assms(1) obtain hs' where "hourlyObjs (hourly_or_empty data) = Inr hs'"
    and fs: "fs = map (day_record tz nowDay (daily_or_empty data) hs') [0..<5]"
    by (rule processForecast_Inr)
  with assms(2) have "hs' = hs" by simp
  with fs show ?thesis by (auto simp: day_record_fields)
qed

theorem pipeline_day0_only_witness:
  "hourly_data (demo_forecasts ! 0) = processedHourly (dayHourlyData (day_key (date (demo_forecasts ! 0))) demo_hs) \<and>
   drying_pills_data (demo_forecasts ! 0) = drying_pills (hourly_data (demo_forecasts ! 0)) \<and>
   list_all (\<lambda>i. hourly_data (demo_forecasts ! i) = [] \<and> drying_pills_data (demo_forecasts ! i) = []) [1, 2, 3, 4] \<and>
   list_all (\<lambda>i. phases (demo_forecasts ! i) = phaseData (dayHourlyData (day_key (date (demo_forecasts ! i))) demo_hs))
     [0..<5]"
  using pipeline_day0_only [OF demo_processForecast demo_hourlyObjs]
  by (simp add: list_all_iff upt_rec)

text \<open>
  C16: whenever the request fails or answers without a status-200 body,
  \<open>fetchWeather\<close> returns \<open>getMockWeatherData\<close>'s series, whose daily object carries
  only \<open>time\<close>; \<open>processForecast\<close> throws a \<open>TypeError\<close> at
  \<open>daily.temperature_2m_max[0]\<close>, and the index page ends with the network-error
  message: the fallback meant to keep the page alive never shows a forecast, at any
  time of day.
\<close>

theorem fallback_ends_in_network_error:
  assumes "ix_location st = Some loc"
    and "\<not> (\<exists>d. request (weather_url (lat loc) (lon loc)) = Response 200 (Some d))"
  shows "final_state st (index_fetchWeather (\<lambda>l. fetchWeather request (getMockWeatherData now) (lat l) (lon l)) tz nowDay st)
           = st\<lparr>loading := False, ix_error := Some network_error_msg\<rparr>"
proof -
  have "fetchWeather request (getMockWeatherData now) (lat loc) (lon loc) = getMockWeatherData now"
    using assms(2) by (cases "request (weather_url (lat loc) (lon loc))") (auto simp: fetchWeather_def split: option.split)
  moreover obtain hs where "hourlyObjs (hourly_or_empty (getMockWeatherData now)) = Inr hs"
    using mock_hourlyObjs by blast
  ultimately show ?thesis
    using processForecast_missing_max [OF _ mock_fields(3)] final_state_fetch [OF assms(1)] by simp
qed

theorem fallback_ends_in_network_error_witness:
  "final_state demo_page
     (index_fetchWeather (\<lambda>l. fetchWeather (\<lambda>_. RequestFailed) (getMockWeatherData 1714550400000) (lat l) (lon l)) 480 1 demo_page)
   = demo_page\<lparr>loading := False, ix_error := Some network_error_msg\<rparr>"
proof (rule fallback_ends_in_network_error)
  show "ix_location demo_page = Some \<lparr>lat = ''39.9'', lon = ''116.4'', address = ''Beijing''\<rparr>"
    by (simp add: demo_page_def)
qed simp

text \<open>
  C17: a day without any sample (a date the hourly series does not cover, or an index
  past the end of a short \<open>daily.time\<close>) is not an error: its rain probability is
  \<open>Math.round(-Infinity)\<close>, i.e. \<open>-Infinity\<close> (\<open>None\<close>), and its averages are 0, so
  its score is that of the placeholders alone, 48.8, and it is recommended as suitable.
\<close>

theorem pipeline_empty_day:
  assumes "processForecast tz nowDay data = Inr fs" "hourlyObjs (hourly_or_empty data) = Inr hs"
    and "i < 5" "dayHourlyData (day_key (date (fs ! i))) hs = []"
  shows "rain_probability_display (fs ! i) = None \<and> drying_index (fs ! i) = 48.8 \<and>
         fc_recommendation (fs ! i) = Suitable"
proof -
  from assms(1) obtain hs' where "hourlyObjs (hourly_or_empty data) = Inr hs'"
    and fs: "fs = map (day_record tz nowDay (daily_or_empty data) hs') [0..<5]"
    by (rule processForecast_Inr)
  with assms(2) have "hs' = hs" by simp
  with fs assms(3,4) show ?thesis
    by (simp add: day_record_fields day_stats_def daily_drying_index_def score_defs recommend_def ext_gt_def)
qed

theorem pipeline_empty_day_witness:
  "rain_probability_display (demo_forecasts ! 1) = None \<and> drying_index (demo_forecasts ! 1) = 48.8 \<and>
   fc_recommendation (demo_forecasts ! 1) = Suitable"
proof (rule pipeline_empty_day [OF demo_processForecast demo_hourlyObjs])
  show "1 < (5::nat)" by simp
  show "dayHourlyData (day_key (date (demo_forecasts ! 1))) demo_hs = []"
    by (simp add: demo_forecasts_def day_record_fields demo_daily_def day_key_def dayHourlyData_def
          starts_with_def demo_hs_def)
qed

theorem index_fetch_trace_witness:
  "length (index_fetchWeather (\<lambda>_. demo_data) 480 1 demo_page) = 2 \<and>
   loading (hd (index_fetchWeather (\<lambda>_. demo_data) 480 1 demo_page)) \<and>
   ix_error (hd (index_fetchWeather (\<lambda>_. demo_data) 480 1 demo_page)) = None \<and>
   \<not> loading (last (index_fetchWeather (\<lambda>_. demo_data) 480 1 demo_page))"
  using index_fetch_trace [of demo_page "\<lambda>_. demo_data" 480 1] by (simp add: demo_page_def)

lemma index_fetch_outcome_example:
  "final_state demo_page (index_fetchWeather (\<lambda>_. demo_data) 480 1 demo_page)
     = demo_page\<lparr>todayForecast := js_at demo_forecasts 0, ix_forecasts := demo_forecasts, loading := False,
                  ix_error := None\<rparr>"
proof -
  have loc: "ix_location demo_page = Some \<lparr>lat = ''39.9'', lon = ''116.4'', address = ''Beijing''\<rparr>"
    by (simp add: demo_page_def)
  show ?thesis
    using index_fetch_outcome [OF loc, of 480 1 "\<lambda>_. demo_data" _ demo_forecasts] demo_processForecast
    by simp
qed

text \<open>
  C18: after a successful fetch of a well-shaped series whose daily temperature arrays
  have five entries, the index page hands its forecasts to the forecast page through
  \<open>goToForecast\<close>; \<open>onShow\<close> stores exactly those five forecasts and draws the
  temperature chart inside its plot area.
\<close>

theorem forecast_page_after_fetch:
  assumes "ix_location st = Some loc" "hourly_wf (hourly_or_empty (appFetch loc))"
    and "daily_wf (daily_or_empty (appFetch loc))"
    and "5 \<le> length (the (temperature_2m_max (daily_or_empty (appFetch loc))))"
    and "5 \<le> length (the (temperature_2m_min (daily_or_empty (appFetch loc))))"
    and "60 \<le> w" "60 \<le> h"
  shows "let st' = final_state st (index_fetchWeather appFetch tz nowDay st);
             (fp', tempOps, humOps) = forecast_onShow (goToForecast st') (Some (w, h)) hr fp
         in fp_forecasts fp' = ix_forecasts st' \<and> length (ix_forecasts st') = 5 \<and>
            list_all (in_box 30 (w - 30) 30 (h - 30)) (plotted_points tempOps)"
proof -
  define st' where "st' = final_state st (index_fetchWeather appFetch tz nowDay st)"
  obtain ts where ts: "hourly_time (hourly_or_empty (appFetch loc)) = Some ts"
    using assms(2) by (auto simp: hourly_wf_def split: option.splits)
  define fs where "fs = map (day_record tz nowDay (daily_or_empty (appFetch loc))
                     (map (sample_at (hourly_or_empty (appFetch loc)) ts) [0..<length ts])) [0..<5]"
  have pf: "processForecast tz nowDay (appFetch loc) = Inr fs"
    using processForecast_wf [OF assms(2) ts assms(3)] by (simp add: fs_def)
  have st': "ix_forecasts st' = fs" using final_state_fetch [OF assms(1)] pf by (simp add: st'_def)
  have len: "length fs = 5" by (simp add: fs_def)
  have tp: "temps_present fs"
    using assms(4,5) by (simp add: fs_def temps_present_def list_all_iff day_record_def build_forecast_fields)
  have ne: "fs \<noteq> []" using len by auto
  have "goToForecast st' = Some fs" using st' ne by (simp add: goToForecast_def)
  then show ?thesis using ne
    using st' len temp_chart_in_plot_area [OF assms(6,7) tp] by (simp add: forecast_onShow_def Let_def st'_def [symmetric])
qed

text \<open>Concrete inputs for the chart properties: the pipeline's forecasts for
  \<open>demo_data\<close> on a 320 by 200 canvas, and variants of its first day.\<close>

theorem temp_chart_in_plot_area_witness:
  "list_all (in_box 30 (320 - 30) 30 (200 - 30)) (plotted_points (drawTempChart (Some (320, 200)) demo_forecasts))"
proof (rule temp_chart_in_plot_area)
  show "temps_present demo_forecasts"
    by (simp add: temps_present_def demo_forecasts_def day_record_def build_forecast_fields demo_daily_def upt_rec)
qed simp_all

theorem temp_chart_missing_temp_blank_witness:
  "filter (\<lambda>pt. snd pt \<noteq> NaN) (plotted_points (drawTempChart (Some (320, 200)) [(hd demo_forecasts)\<lparr>temp_max := None\<rparr>])) =
     concat (map (\<lambda>i. [(Fin 30, Fin (30 + (200 - 60) / 5 * real i)), (Fin (320 - 30), Fin (30 + (200 - 60) / 5 * real i))]) [0..<6])"
  by (rule temp_chart_missing_temp_blank [where f = "(hd demo_forecasts)\<lparr>temp_max := None\<rparr>"]) simp_all

theorem humidity_chart_points_witness:
  "list_all (\<lambda>pt. in_box 30 (320 - 30) 30 (200 - 30) pt \<or> snd pt = PosInf)
     (plotted_points (drawHumidityChart (Some (320, 200))
        [(hd demo_forecasts)\<lparr>avg_humidity_display := 50, rain_probability_display := Some 0\<rparr>,
         (hd demo_forecasts)\<lparr>avg_humidity_display := 0, rain_probability_display := None\<rparr>]))
   \<and> (list_ex (\<lambda>pt. snd pt = PosInf) (plotted_points (drawHumidityChart (Some (320, 200))
        [(hd demo_forecasts)\<lparr>avg_humidity_display := 50, rain_probability_display := Some 0\<rparr>,
         (hd demo_forecasts)\<lparr>avg_humidity_display := 0, rain_probability_display := None\<rparr>]))
      \<longleftrightarrow> list_ex (\<lambda>f. rain_probability_display f = None)
        [(hd demo_forecasts)\<lparr>avg_humidity_display := 50, rain_probability_display := Some 0\<rparr>,
         (hd demo_forecasts)\<lparr>avg_humidity_display := 0, rain_probability_display := None\<rparr>])"
  by (rule humidity_chart_points) (simp_all add: humidity_ok_def)

theorem humidity_single_label_nan_witness:
  "FillText (date_label (hd demo_forecasts)) NaN (Fin (200 - 30 + 20)) \<in> set (drawHumidityChart (Some (320, 200)) [hd demo_forecasts]) \<and>
   FillText (date_label (hd demo_forecasts)) (Fin (320 / 2)) (Fin (200 - 30 + 20)) \<in> set (drawTempChart (Some (320, 200)) [hd demo_forecasts])"
  by (rule humidity_single_label_nan) simp_all

theorem forecast_page_after_fetch_witness:
  "let st' = final_state demo_page (index_fetchWeather (\<lambda>_. demo_data) 480 1 demo_page);
       (fp', tempOps, humOps) = forecast_onShow (goToForecast st') (Some (320, 200)) None \<lparr>fp_forecasts = []\<rparr>
   in fp_forecasts fp' = ix_forecasts st' \<and> length (ix_forecasts st') = 5 \<and>
      list_all (in_box 30 (320 - 30) 30 (200 - 30)) (plotted_points tempOps)"
proof (rule forecast_page_after_fetch [where loc = "\<lparr>lat = ''39.9'', lon = ''116.4'', address = ''Beijing''\<rparr>"])
  show "ix_location demo_page = Some \<lparr>lat = ''39.9'', lon = ''116.4'', address = ''Beijing''\<rparr>"
    by (simp add: demo_page_def)
  show "hourly_wf (hourly_or_empty demo_data)"
    by (simp add: hourly_wf_def demo_data_def hourly_or_empty_def demo_hourly_def covers_len_def)
  show "daily_wf (daily_or_empty demo_data)"
    by (simp add: daily_wf_def demo_data_def daily_or_empty_def demo_daily_def)
  show "5 \<le> length (the (temperature_2m_max (daily_or_empty demo_data)))"
    by (simp add: demo_data_def daily_or_empty_def demo_daily_def)
  show "5 \<le> length (the (temperature_2m_min (daily_or_empty demo_data)))"
    by (simp add: demo_data_def daily_or_empty_def demo_daily_def)
qed simp_all


theorem index_onLoad_settles_witness:
  "let p = ix_page (index_onLoad (\<lambda>_. demo_data) 480 1 Cancelled
                      \<lparr>ix_page = index_initial, ix_stored_loc = None, ix_global_loc = None\<rparr>)
   in ix_location p \<noteq> None \<and> \<not> loading p \<and> (ix_error p = None \<longleftrightarrow> ix_forecasts p \<noteq> [])"
  by (rule index_onLoad_settles) simp

text \<open>Concrete runs of the composed app, on the index page of \<open>demo_app\<close> and with the
  settings page open above it.\<close>

theorem app_reach_ok_witness:
  "app_reach (\<lambda>_. demo_data) 480 1 None None
     (app_step (\<lambda>_. demo_data) 480 1 None None TapSettings (app_launch (\<lambda>_. demo_data) 480 1 Cancelled None None)) \<and>
   app_ok (app_step (\<lambda>_. demo_data) 480 1 None None TapSettings (app_launch (\<lambda>_. demo_data) 480 1 Cancelled None None))"
proof -
  have r: "app_reach (\<lambda>_. demo_data) 480 1 None None (app_launch (\<lambda>_. demo_data) 480 1 Cancelled None None)"
    by (rule app_reach.launch) simp
  have r2: "app_reach (\<lambda>_. demo_data) 480 1 None None
              (app_step (\<lambda>_. demo_data) 480 1 None None TapSettings (app_launch (\<lambda>_. demo_data) 480 1 Cancelled None None))"
    by (rule app_reach.step [OF r]) simp
  show ?thesis using r2 app_reach_ok [OF r2] by simp
qed

theorem stale_timer_closes_settings_witness:
  "pages (app_run (\<lambda>_. demo_data) 480 1 None None [SettingsEvent Save, SystemBack, TapSettings]
            (demo_app\<lparr>pages := [IndexPg, SettingsPg]\<rparr>)) = [IndexPg, SettingsPg] \<and>
   pages (app_run (\<lambda>_. demo_data) 480 1 None None [SettingsEvent Save, SystemBack, TapSettings, TimerFires]
            (demo_app\<lparr>pages := [IndexPg, SettingsPg]\<rparr>)) = [IndexPg]"
  by (rule stale_timer_closes_settings) (simp_all add: demo_app_def)

theorem forecast_tab_stale_witness:
  "let st' = app_step (\<lambda>_. demo_data) 480 1 None None (ChooseLocation (Chosen ''31.2'' ''121.5'' ''Shanghai'')) demo_app
   in fp_forecasts (forecast_p (app_step (\<lambda>_. demo_data) 480 1 None None (TapTab ForecastPg) st')) = demo_forecasts \<and>
      fp_forecasts (forecast_p (app_step (\<lambda>_. demo_data) 480 1 None None TapForecast st')) =
        (if ix_forecasts (ix_page (index_w st')) \<noteq> [] then ix_forecasts (ix_page (index_w st'))
         else fp_forecasts (forecast_p demo_app))"
  by (rule forecast_tab_stale) (simp_all add: demo_app_def on_top_def demo_forecasts_def)

theorem settings_reopen_roundtrip_witness:
  "let st' = app_run (\<lambda>_. demo_data) 480 1 None None [SettingsEvent Save, TimerFires, TapSettings]
               (demo_app\<lparr>pages := [IndexPg, SettingsPg]\<rparr>)
   in pages st' = [IndexPg, SettingsPg] \<and>
      workStart (page (settings_w st')) = workStart (page (settings_w (demo_app\<lparr>pages := [IndexPg, SettingsPg]\<rparr>))) \<and>
      workEnd (page (settings_w st')) = workEnd (page (settings_w (demo_app\<lparr>pages := [IndexPg, SettingsPg]\<rparr>))) \<and>
      preferenceValue (page (settings_w st')) =
        preferenceValue (page (settings_w (demo_app\<lparr>pages := [IndexPg, SettingsPg]\<rparr>))) \<and>
      text_consistent (page (settings_w st'))"
  by (rule settings_reopen_roundtrip) simp

end
